theory Spec2Isabelle
  imports Complex_Main "HOL-Library.Log_Nat"
begin

section \<open>JavaScript numbers and strings\<close>

text \<open>
  The services are TypeScript; every \<open>number\<close> of the source is an IEEE-754 binary64
  value. A finite value is modelled by the rational it denotes, and every arithmetic
  result is rounded to the nearest binary64 value, ties to even, by \<open>round_double\<close>.
  The two zeros are identified: the code under study never divides by a computed value
  and only prints numbers, and both zeros print as \<open>0\<close>.
  Strings are lists of 8-bit characters, so the model covers ASCII input.
\<close>

datatype number = Fin rat | PosInf | NegInf | NaN

definition floor_log2 :: "rat \<Rightarrow> int" where
  \<comment> \<open>for \<open>a > 0\<close>: the \<open>L\<close> with \<open>2^L \<le> a < 2^(L+1)\<close>\<close>
  "floor_log2 a = (if 1 \<le> a then bitlen \<lfloor>a\<rfloor> - 1 else - bitlen (\<lceil>1 / a\<rceil> - 1))"

definition tie_to_even :: "int \<Rightarrow> rat \<Rightarrow> int" where
  \<comment> \<open>\<open>f\<close> is the floor and \<open>r\<close> the fractional part of the value to round\<close>
  "tie_to_even f r =
     (if r < 1 / 2 then f else if 1 / 2 < r then f + 1 else if even f then f else f + 1)"

definition round_half_even :: "rat \<Rightarrow> int" where
  "round_half_even y = tie_to_even \<lfloor>y\<rfloor> (y - of_int \<lfloor>y\<rfloor>)"

definition double_exponent :: "rat \<Rightarrow> int" where
  \<comment> \<open>the exponent of the last of 53 significant bits of \<open>a > 0\<close>, not below that of
      the subnormal numbers\<close>
  "double_exponent a = max (floor_log2 a - 52) (- 1074)"

definition make_double :: "bool \<Rightarrow> int \<Rightarrow> int \<Rightarrow> number" where
  \<comment> \<open>the value \<open>m * 2^e\<close> with its sign; a magnitude of \<open>2^1024\<close> or more is infinite\<close>
  "make_double pos m e =
     (if power_int 2 1024 \<le> (of_int m :: rat) * power_int 2 e then (if pos then PosInf else NegInf)
      else Fin (if pos then of_int m * power_int 2 e else - (of_int m * power_int 2 e)))"

definition round_double :: "rat \<Rightarrow> number" where
  \<comment> \<open>round to nearest, ties to even\<close>
  "round_double x =
     (if x = 0 then Fin 0
      else make_double (0 < x)
             (round_half_even (\<bar>x\<bar> / power_int 2 (double_exponent \<bar>x\<bar>)))
             (double_exponent \<bar>x\<bar>))"

fun number_add :: "number \<Rightarrow> number \<Rightarrow> number" where
  "number_add NaN _ = NaN"
| "number_add _ NaN = NaN"
| "number_add PosInf NegInf = NaN"
| "number_add NegInf PosInf = NaN"
| "number_add PosInf _ = PosInf"
| "number_add NegInf _ = NegInf"
| "number_add _ PosInf = PosInf"
| "number_add _ NegInf = NegInf"
| "number_add (Fin x) (Fin y) = round_double (x + y)"

fun number_neg :: "number \<Rightarrow> number" where
  "number_neg (Fin x) = Fin (- x)"
| "number_neg PosInf = NegInf"
| "number_neg NegInf = PosInf"
| "number_neg NaN = NaN"

fun number_mul :: "number \<Rightarrow> number \<Rightarrow> number" where
  "number_mul (Fin x) (Fin y) = round_double (x * y)"
| "number_mul NaN _ = NaN"
| "number_mul _ NaN = NaN"
| "number_mul (Fin x) b = (if x = 0 then NaN else if 0 < x then b else number_neg b)"
| "number_mul a (Fin y) = (if y = 0 then NaN else if 0 < y then a else number_neg a)"
| "number_mul PosInf b = b"
| "number_mul NegInf b = number_neg b"

fun number_div :: "number \<Rightarrow> number \<Rightarrow> number" where
  "number_div (Fin x) (Fin y) =
     (if y \<noteq> 0 then round_double (x / y)
      else if x = 0 then NaN else if 0 < x then PosInf else NegInf)"
| "number_div NaN _ = NaN"
| "number_div _ NaN = NaN"
| "number_div (Fin x) _ = Fin 0"
| "number_div a (Fin y) = (if 0 \<le> y then a else number_neg a)"
| "number_div _ _ = NaN"

subsection \<open>parseFloat\<close>

definition is_ws :: "char \<Rightarrow> bool" where
  \<comment> \<open>tab, line feed, vertical tab, form feed, carriage return, space\<close>
  "is_ws c = (of_char c \<in> {9, 10, 11, 12, 13, 32 :: nat})"

definition is_digit :: "char \<Rightarrow> bool" where
  "is_digit c = (48 \<le> (of_char c :: nat) \<and> (of_char c :: nat) \<le> 57)"

definition digit_val :: "char \<Rightarrow> nat" where
  "digit_val c = of_char c - 48"

definition digits_val :: "string \<Rightarrow> nat" where
  "digits_val ds = foldl (\<lambda>a c. 10 * a + digit_val c) 0 ds"

definition unsigned_exponent :: "string \<Rightarrow> int option" where
  \<comment> \<open>the digits of an exponent part; at least one is required\<close>
  "unsigned_exponent r =
     (if takeWhile is_digit r = [] then None else Some (int (digits_val (takeWhile is_digit r))))"

definition exponent_part :: "string \<Rightarrow> int" where
  \<comment> \<open>\<open>e\<close> or \<open>E\<close>, an optional sign, digits; an incomplete exponent part is not
      part of the literal and counts as exponent 0\<close>
  "exponent_part r = (case r of
       [] \<Rightarrow> 0
     | c # r1 \<Rightarrow>
         if c = CHR ''e'' \<or> c = CHR ''E'' then
           (case r1 of
              [] \<Rightarrow> 0
            | s # r2 \<Rightarrow>
                if s = CHR ''+'' then (case unsigned_exponent r2 of None \<Rightarrow> 0 | Some n \<Rightarrow> n)
                else if s = CHR ''-'' then (case unsigned_exponent r2 of None \<Rightarrow> 0 | Some n \<Rightarrow> - n)
                else (case unsigned_exponent r1 of None \<Rightarrow> 0 | Some n \<Rightarrow> n))
         else 0)"

definition literal_value :: "bool \<Rightarrow> string \<Rightarrow> string \<Rightarrow> string \<Rightarrow> number" where
  \<comment> \<open>integer digits, fraction digits and what follows them\<close>
  "literal_value neg ip fp r =
     (if ip = [] \<and> fp = [] then NaN
      else round_double ((if neg then - 1 else 1) * of_nat (digits_val (ip @ fp))
             * power_int 10 (exponent_part r - int (length fp))))"

definition after_integer :: "bool \<Rightarrow> string \<Rightarrow> string \<Rightarrow> number" where
  \<comment> \<open>a dot after the integer digits starts the fraction digits\<close>
  "after_integer neg ip r1 = (case r1 of
       [] \<Rightarrow> literal_value neg ip [] []
     | c # r \<Rightarrow>
         if c = CHR ''.'' then literal_value neg ip (takeWhile is_digit r) (dropWhile is_digit r)
         else literal_value neg ip [] (c # r))"

definition unsigned_literal :: "bool \<Rightarrow> string \<Rightarrow> number" where
  \<comment> \<open>the longest prefix that is a \<open>StrUnsignedDecimalLiteral\<close>, negated when \<open>neg\<close>\<close>
  "unsigned_literal neg u =
     (if take 8 u = ''Infinity'' then (if neg then NegInf else PosInf)
      else after_integer neg (takeWhile is_digit u) (dropWhile is_digit u))"

definition parseFloat :: "string \<Rightarrow> number" where
  "parseFloat s = (case dropWhile is_ws s of
       [] \<Rightarrow> NaN
     | c # u \<Rightarrow>
         if c = CHR ''-'' then unsigned_literal True u
         else if c = CHR ''+'' then unsigned_literal False u
         else unsigned_literal False (c # u))"

subsection \<open>Number to string\<close>

definition decimal_exponent :: "rat \<Rightarrow> int" where
  \<comment> \<open>for \<open>a > 0\<close>: the \<open>n\<close> with \<open>10^(n-1) \<le> a < 10^n\<close>\<close>
  "decimal_exponent a =
     (if 1 \<le> a then int (floorlog 10 (nat \<lfloor>a\<rfloor>))
      else 1 - int (floorlog 10 (nat (\<lceil>1 / a\<rceil> - 1))))"

definition choose_digits :: "rat \<Rightarrow> rat \<Rightarrow> int \<Rightarrow> bool \<Rightarrow> bool \<Rightarrow> int option" where
  \<comment> \<open>of the candidates \<open>lo\<close> and \<open>lo + 1\<close> that round to \<open>x\<close>, the one whose value
      is nearest to \<open>x\<close>, the even one on a tie\<close>
  "choose_digits x sc lo ok_lo ok_hi =
     (if ok_lo \<and> ok_hi then
        (if x - of_int lo * sc < of_int (lo + 1) * sc - x then Some lo
         else if of_int (lo + 1) * sc - x < x - of_int lo * sc then Some (lo + 1)
         else if even lo then Some lo else Some (lo + 1))
      else if ok_lo then Some lo
      else if ok_hi then Some (lo + 1)
      else None)"

definition digits_at_scale :: "rat \<Rightarrow> rat \<Rightarrow> int \<Rightarrow> int option" where
  "digits_at_scale x sc lo =
     choose_digits x sc lo (round_double (of_int lo * sc) = Fin x)
       (round_double (of_int (lo + 1) * sc) = Fin x)"

definition digits_candidate :: "rat \<Rightarrow> int \<Rightarrow> nat \<Rightarrow> int option" where
  \<comment> \<open>a \<open>k\<close>-digit integer \<open>s\<close> with \<open>s * 10^(n-k)\<close> rounding to \<open>x\<close>, if there is any\<close>
  "digits_candidate x n k =
     digits_at_scale x (power_int 10 (n - int k)) \<lfloor>x / power_int 10 (n - int k)\<rfloor>"

fun find_digits :: "rat \<Rightarrow> int \<Rightarrow> nat \<Rightarrow> nat \<Rightarrow> nat \<times> int" where
  \<comment> \<open>the least number of digits \<open>k\<close>, from \<open>k\<close> upwards; 17 digits identify every
      binary64 value\<close>
  "find_digits x n k 0 = (k, \<lfloor>x / power_int 10 (n - int k)\<rfloor>)"
| "find_digits x n k (Suc fuel) =
     (case digits_candidate x n k of
        Some s \<Rightarrow> (k, s)
      | None \<Rightarrow> find_digits x n (Suc k) fuel)"

fun digit_chars :: "nat \<Rightarrow> nat \<Rightarrow> string" where
  \<comment> \<open>the last \<open>k\<close> decimal digits of \<open>s\<close>\<close>
  "digit_chars 0 s = []"
| "digit_chars (Suc k) s = digit_chars k (s div 10) @ [''0123456789'' ! (s mod 10)]"

definition nat_toString :: "nat \<Rightarrow> string" where
  "nat_toString n = (if n = 0 then ''0'' else digit_chars (floorlog 10 n) n)"

definition exponent_suffix :: "int \<Rightarrow> string" where
  "exponent_suffix e = ''e'' @ (if e < 0 then ''-'' else ''+'') @ nat_toString (nat \<bar>e\<bar>)"

definition format_digits :: "nat \<Rightarrow> string \<Rightarrow> int \<Rightarrow> string" where
  \<comment> \<open>\<open>k\<close> digits \<open>ds\<close> of a value below \<open>10^n\<close>: plain, with a decimal point, or in
      exponent form\<close>
  "format_digits k ds n =
     (if int k \<le> n \<and> n \<le> 21 then ds @ replicate (nat (n - int k)) CHR ''0''
      else if 0 < n \<and> n \<le> 21 then take (nat n) ds @ ''.'' @ drop (nat n) ds
      else if - 6 < n \<and> n \<le> 0 then ''0.'' @ replicate (nat (- n)) CHR ''0'' @ ds
      else if k = 1 then ds @ exponent_suffix (n - 1)
      else take 1 ds @ ''.'' @ drop 1 ds @ exponent_suffix (n - 1))"

definition format_found :: "nat \<times> int \<Rightarrow> int \<Rightarrow> string" where
  \<comment> \<open>digits \<open>10^k\<close> stand for the single digit 1 one place higher\<close>
  "format_found ks n = (case ks of (k, s) \<Rightarrow>
     if s = 10 ^ k then format_digits k (digit_chars k (nat (s div 10))) (n + 1)
     else format_digits k (digit_chars k (nat s)) n)"

definition positive_toString :: "rat \<Rightarrow> string" where
  "positive_toString x =
     format_found (find_digits x (decimal_exponent x) 1 17) (decimal_exponent x)"

definition number_toString :: "number \<Rightarrow> string" where
  "number_toString a = (case a of
       NaN \<Rightarrow> ''NaN''
     | PosInf \<Rightarrow> ''Infinity''
     | NegInf \<Rightarrow> ''-Infinity''
     | Fin x \<Rightarrow>
         if x = 0 then ''0''
         else if x < 0 then ''-'' @ positive_toString (- x)
         else positive_toString x)"


section \<open>Data model of the single-chain services\<close>

text \<open>
  Interfaces of \<open>types/index.ts\<close>. An optional property is an \<open>option\<close>, \<open>None\<close>
  standing for \<open>undefined\<close>. A \<open>Map\<close> from ids to entities is a partial function.
  Every \<open>new Date().toISOString()\<close> of the source is a parameter \<open>now\<close> of the
  model, and writing the JSON files is assumed to succeed.
\<close>

datatype asset_type = Monetary | DigitalAsset | Nft | PhysicalBacked | Custom

datatype json = JNull | JBool bool | JNumber number | JString string
  | JArray "json list" | JObject "(string \<times> json) list"

type_synonym metadata = "(string \<times> json) list option"

record asset =
  a_id :: string
  a_type :: asset_type
  a_name :: string
  a_symbol :: string
  a_decimals :: number
  a_contractAddress :: string
  a_metadata :: metadata
  a_createdAt :: string
  a_updatedAt :: string

record basket_asset =
  ba_assetId :: string
  ba_weight :: number
  ba_proportion :: string

datatype basket_status = Active | Paused | Deprecated

record basket =
  b_id :: string
  b_name :: string
  b_symbol :: string
  b_description :: "string option"
  b_assets :: "basket_asset list"
  b_totalValueLocked :: "string option"
  b_status :: basket_status
  b_createdAt :: string
  b_updatedAt :: string

datatype error =
    AssetAlreadyExists string
  | BasketAlreadyExists string
  | AssetNotFound string
  | WeightsMustSumTo100 number
  | BasketNotFound string
  | MintRecordNotFound string
  | NoAssetsMatchingFilter
  | WorkflowFailed "string option"
  | NoChain
  | DefaultChainNotInAsset "string option"
  | AssetAlreadyOnChain string string
  | AssetNotOnChain string string
  | OnlyChainOfAsset
  | NoSupportedChain
  | DefaultChainNotSupported "string option"
  | BasketAlreadySupportsChain string string
  | BasketDoesNotSupportChain string string
  | OnlyChainOfBasket

definition undefined_toString :: "string option \<Rightarrow> string" where
  \<comment> \<open>a string in a template literal or as a property key; \<open>undefined\<close> reads
      \<open>undefined\<close>\<close>
  "undefined_toString s = (case s of None \<Rightarrow> ''undefined'' | Some t \<Rightarrow> t)"

fun message :: "error \<Rightarrow> string" where
  "message (AssetAlreadyExists i) = ''Asset '' @ i @ '' already exists''"
| "message (BasketAlreadyExists i) = ''Basket '' @ i @ '' already exists''"
| "message (AssetNotFound i) = ''Asset '' @ i @ '' not found''"
| "message (WeightsMustSumTo100 w) =
     ''Asset weights must sum to 100 (current: '' @ number_toString w @ '')''"
| "message (BasketNotFound i) = ''Basket '' @ i @ '' not found''"
| "message (MintRecordNotFound i) = ''Mint record '' @ i @ '' not found''"
| "message NoAssetsMatchingFilter = ''No assets found matching filter''"
| "message (WorkflowFailed e) = (case e of None \<Rightarrow> ''Workflow failed'' | Some m \<Rightarrow>
     if m = [] then ''Workflow failed'' else m)"
| "message NoChain = ''Asset must be deployed on at least one chain''"
| "message (DefaultChainNotInAsset c) =
     ''Default chain '' @ undefined_toString c @ '' not found in asset chains''"
| "message (AssetAlreadyOnChain i c) = ''Asset '' @ i @ '' already deployed on chain '' @ c"
| "message (AssetNotOnChain i c) = ''Asset '' @ i @ '' not deployed on chain '' @ c"
| "message OnlyChainOfAsset = ''Cannot remove asset from its only chain''"
| "message NoSupportedChain = ''Basket must support at least one chain''"
| "message (DefaultChainNotSupported c) =
     ''Default chain '' @ undefined_toString c @ '' not in supported chains''"
| "message (BasketAlreadySupportsChain i c) =
     ''Basket '' @ i @ '' already supports chain '' @ c"
| "message (BasketDoesNotSupportChain i c) =
     ''Basket '' @ i @ '' does not support chain '' @ c"
| "message OnlyChainOfBasket = ''Cannot remove basket from its only chain''"

section \<open>AssetRegistry\<close>

record asset_registry =
  assets :: "string \<rightharpoonup> asset"
  baskets :: "string \<rightharpoonup> basket"

definition registerAsset :: "string \<Rightarrow> asset_registry \<Rightarrow> asset \<Rightarrow> error + asset \<times> asset_registry" where
  "registerAsset now r a =
     (if assets r (a_id a) \<noteq> None then Inl (AssetAlreadyExists (a_id a))
      else
        (let fullAsset = a\<lparr>a_createdAt := now, a_updatedAt := now\<rparr>
         in Inr (fullAsset, r\<lparr>assets := (assets r)(a_id a \<mapsto> fullAsset)\<rparr>)))"

definition totalWeight :: "basket_asset list \<Rightarrow> number" where
  \<comment> \<open>\<open>basket.assets.reduce((sum, ba) => sum + ba.weight, 0)\<close>\<close>
  "totalWeight bas = foldl (\<lambda>sum ba. number_add sum (ba_weight ba)) (Fin 0) bas"

definition createBasket :: "string \<Rightarrow> asset_registry \<Rightarrow> basket \<Rightarrow> error + basket \<times> asset_registry" where
  "createBasket now r b =
     (if baskets r (b_id b) \<noteq> None then Inl (BasketAlreadyExists (b_id b))
      else
        (case find (\<lambda>ba. assets r (ba_assetId ba) = None) (b_assets b) of
           Some ba \<Rightarrow> Inl (AssetNotFound (ba_assetId ba))
         | None \<Rightarrow>
             if totalWeight (b_assets b) \<noteq> Fin 100
             then Inl (WeightsMustSumTo100 (totalWeight (b_assets b)))
             else
               (let fullBasket = b\<lparr>b_createdAt := now, b_updatedAt := now\<rparr>
                in Inr (fullBasket, r\<lparr>baskets := (baskets r)(b_id b \<mapsto> fullBasket)\<rparr>))))"

record expanded_asset =
  ea_asset :: asset
  ea_amount :: string

definition proportionalAmount :: "number \<Rightarrow> number \<Rightarrow> number" where
  \<comment> \<open>\<open>(totalAmountNum * basketAsset.weight) / 100\<close>\<close>
  "proportionalAmount totalAmountNum weight = number_div (number_mul totalAmountNum weight) (Fin 100)"

fun expand_loop :: "(string \<rightharpoonup> asset) \<Rightarrow> number \<Rightarrow> basket_asset list \<Rightarrow> expanded_asset list" where
  \<comment> \<open>the \<open>for\<close> loop of \<open>expandBasket\<close>: an entry whose asset is not registered is
      skipped by \<open>continue\<close>\<close>
  "expand_loop as totalAmountNum [] = []"
| "expand_loop as totalAmountNum (basketAsset # rest) =
     (case as (ba_assetId basketAsset) of
        None \<Rightarrow> expand_loop as totalAmountNum rest
      | Some asset \<Rightarrow>
          \<lparr>ea_asset = asset,
           ea_amount = number_toString (proportionalAmount totalAmountNum (ba_weight basketAsset))\<rparr>
          # expand_loop as totalAmountNum rest)"

definition expandBasket :: "asset_registry \<Rightarrow> string \<Rightarrow> string \<Rightarrow> error + expanded_asset list" where
  "expandBasket r basketId totalAmount =
     (case baskets r basketId of
        None \<Rightarrow> Inl (BasketNotFound basketId)
      | Some basket \<Rightarrow> Inr (expand_loop (assets r) (parseFloat totalAmount) (b_assets basket)))"


section \<open>MintStateService\<close>

datatype mint_status = Pending | Completed | Failed

datatype final_status = FinalCompleted | FinalFailed
  \<comment> \<open>the type \<open>'completed' | 'failed'\<close> of \<open>updates.status\<close>\<close>

fun status_of :: "final_status \<Rightarrow> mint_status" where
  "status_of FinalCompleted = Completed"
| "status_of FinalFailed = Failed"

record minted_asset =
  ma_assetId :: string
  ma_symbol :: string
  ma_type :: asset_type
  ma_amount :: string
  ma_contractAddress :: string
  ma_txHash :: "string option"

record mint_record =
  mr_id :: string
  mr_basketId :: string
  mr_transactionId :: string
  mr_beneficiary :: string
  mr_amount :: string
  mr_assets :: "minted_asset list option"
  mr_status :: "mint_status option"
  mr_createdAt :: string
  mr_completedAt :: "string option"
  mr_error :: "string option"

text \<open>
  The \<open>updates\<close> argument of \<open>updateMintRecord\<close>. Each of its three properties is
  optional, so it may be missing, or be there and hold \<open>undefined\<close> (the orchestrator
  passes \<open>error: workflowResult.error\<close>), or be there and hold a value: \<open>None\<close>,
  \<open>Some None\<close> and \<open>Some (Some v)\<close>. The spread \<open>{...record, ...updates}\<close> copies every
  property that is there, also one that holds \<open>undefined\<close>. This is how \<open>status\<close> and
  \<open>assets\<close> of a stored record, which its interface requires, can come to hold
  \<open>undefined\<close>: they are options in \<open>mint_record\<close>, \<open>None\<close> standing for \<open>undefined\<close>.
\<close>

record 'a updates =
  u_status :: "final_status option option"
  u_assets :: "'a list option option"
  u_error :: "string option option"

definition stamped :: "final_status option option \<Rightarrow> bool" where
  \<comment> \<open>\<open>updates.status\<close> in a condition: both status strings are truthy, a missing
      property and \<open>undefined\<close> are not\<close>
  "stamped s = (case s of Some (Some st) \<Rightarrow> True | _ \<Rightarrow> False)"

type_synonym mints = "string \<rightharpoonup> mint_record"

definition createMintRecord ::
  "string \<Rightarrow> mints \<Rightarrow> string \<Rightarrow> string \<Rightarrow> string \<Rightarrow> string \<Rightarrow> minted_asset list
   \<Rightarrow> mint_record \<times> mints" where
  "createMintRecord now ms basketId transactionId beneficiary amount as =
     (let record = \<lparr>mr_id = ''mint-'' @ transactionId, mr_basketId = basketId,
            mr_transactionId = transactionId, mr_beneficiary = beneficiary, mr_amount = amount,
            mr_assets = Some as, mr_status = Some Pending, mr_createdAt = now,
            mr_completedAt = None, mr_error = None\<rparr>
      in (record, ms(''mint-'' @ transactionId \<mapsto> record)))"

definition getMintRecord :: "mints \<Rightarrow> string \<Rightarrow> mint_record option" where
  "getMintRecord ms i = ms i"

definition updateMintRecord ::
  "string \<Rightarrow> mints \<Rightarrow> string \<Rightarrow> minted_asset updates \<Rightarrow> error + mint_record \<times> mints" where
  "updateMintRecord now ms i u =
     (case ms i of
        None \<Rightarrow> Inl (MintRecordNotFound i)
      | Some record \<Rightarrow>
          (let updated = record\<lparr>
                 mr_status :=
                   (case u_status u of None \<Rightarrow> mr_status record | Some s \<Rightarrow> map_option status_of s),
                 mr_assets := (case u_assets u of None \<Rightarrow> mr_assets record | Some as \<Rightarrow> as),
                 mr_error := (case u_error u of None \<Rightarrow> mr_error record | Some e \<Rightarrow> e),
                 mr_completedAt :=
                   (if stamped (u_status u) then Some now else mr_completedAt record)\<rparr>
           in Inr (updated, ms(i \<mapsto> updated))))"

section \<open>MultiChainMintStateService\<close>

record chain_minted_asset =
  cma_assetId :: string
  cma_symbol :: string
  cma_type :: string
  cma_amount :: string
  cma_chainId :: string
  cma_chainName :: string
  cma_contractAddress :: string
  cma_explorerUrl :: "string option"
  cma_txHash :: "string option"

record mc_mint_record =
  mcr_id :: string
  mcr_basketId :: string
  mcr_chainId :: string
  mcr_chainName :: string
  mcr_transactionId :: string
  mcr_beneficiary :: string
  mcr_amount :: string
  mcr_assets :: "chain_minted_asset list option"
  mcr_status :: "mint_status option"
  mcr_createdAt :: string
  mcr_completedAt :: "string option"
  mcr_error :: "string option"

type_synonym mc_mints = "string \<rightharpoonup> mc_mint_record"

definition mc_createMintRecord ::
  "string \<Rightarrow> mc_mints \<Rightarrow> string \<Rightarrow> string \<Rightarrow> string \<Rightarrow> string \<Rightarrow> string \<Rightarrow> string
   \<Rightarrow> chain_minted_asset list \<Rightarrow> mc_mint_record \<times> mc_mints" where
  "mc_createMintRecord now ms basketId chainId chainName transactionId beneficiary amount as =
     (let record = \<lparr>mcr_id = ''mint-'' @ chainId @ ''-'' @ transactionId, mcr_basketId = basketId,
            mcr_chainId = chainId, mcr_chainName = chainName,
            mcr_transactionId = transactionId, mcr_beneficiary = beneficiary, mcr_amount = amount,
            mcr_assets = Some as, mcr_status = Some Pending, mcr_createdAt = now,
            mcr_completedAt = None, mcr_error = None\<rparr>
      in (record, ms(''mint-'' @ chainId @ ''-'' @ transactionId \<mapsto> record)))"

definition mc_updateMintRecord ::
  "string \<Rightarrow> mc_mints \<Rightarrow> string \<Rightarrow> chain_minted_asset updates \<Rightarrow> error + mc_mint_record \<times> mc_mints" where
  "mc_updateMintRecord now ms i u =
     (case ms i of
        None \<Rightarrow> Inl (MintRecordNotFound i)
      | Some record \<Rightarrow>
          (let updated = record\<lparr>
                 mcr_status :=
                   (case u_status u of None \<Rightarrow> mcr_status record | Some s \<Rightarrow> map_option status_of s),
                 mcr_assets := (case u_assets u of None \<Rightarrow> mcr_assets record | Some as \<Rightarrow> as),
                 mcr_error := (case u_error u of None \<Rightarrow> mcr_error record | Some e \<Rightarrow> e),
                 mcr_completedAt :=
                   (if stamped (u_status u) then Some now else mcr_completedAt record)\<rparr>
           in Inr (updated, ms(i \<mapsto> updated))))"

text \<open>
  The histories of a service: it starts with no record, and every step is one of its two
  mutating operations. A failed update leaves the service as it is.
\<close>

datatype mint_op =
    Create string string string string string "minted_asset list"
  | Update string string "minted_asset updates"

fun mint_step :: "mints \<Rightarrow> mint_op \<Rightarrow> mints" where
  "mint_step ms (Create now basketId transactionId beneficiary amount as) =
     snd (createMintRecord now ms basketId transactionId beneficiary amount as)"
| "mint_step ms (Update now i u) =
     (case updateMintRecord now ms i u of Inl _ \<Rightarrow> ms | Inr (_, ms') \<Rightarrow> ms')"

definition mint_run :: "mint_op list \<Rightarrow> mints" where
  "mint_run ops = foldl mint_step Map.empty ops"

datatype mc_mint_op =
    McCreate string string string string string string string "chain_minted_asset list"
  | McUpdate string string "chain_minted_asset updates"

fun mc_mint_step :: "mc_mints \<Rightarrow> mc_mint_op \<Rightarrow> mc_mints" where
  "mc_mint_step ms (McCreate now basketId chainId chainName transactionId beneficiary amount as) =
     snd (mc_createMintRecord now ms basketId chainId chainName transactionId beneficiary amount as)"
| "mc_mint_step ms (McUpdate now i u) =
     (case mc_updateMintRecord now ms i u of Inl _ \<Rightarrow> ms | Inr (_, ms') \<Rightarrow> ms')"

definition mc_mint_run :: "mc_mint_op list \<Rightarrow> mc_mints" where
  "mc_mint_run ops = foldl mc_mint_step Map.empty ops"

definition terminal :: "mint_status option \<Rightarrow> bool" where
  "terminal st = (st = Some Completed \<or> st = Some Failed)"

definition record_ok :: "bool \<Rightarrow> mint_status option \<Rightarrow> string option \<Rightarrow> bool" where
  \<comment> \<open>what holds of the status and the completion timestamp of a record in every
      history; \<open>strict\<close>: in the histories that carry no undefined status\<close>
  "record_ok strict st completedAt =
     ((terminal st \<longrightarrow> completedAt \<noteq> None) \<and> (completedAt \<noteq> None \<longrightarrow> st \<noteq> Some Pending)
      \<and> (strict \<longrightarrow> st \<noteq> None))"

definition defined_status :: "'a updates \<Rightarrow> bool" where
  \<comment> \<open>an update that does not carry a \<open>status\<close> property holding \<open>undefined\<close>\<close>
  "defined_status u = (u_status u \<noteq> Some None)"

definition defined_update :: "mint_op \<Rightarrow> bool" where
  "defined_update op = (case op of Update now i u \<Rightarrow> defined_status u | _ \<Rightarrow> True)"

definition mc_defined_update :: "mc_mint_op \<Rightarrow> bool" where
  "mc_defined_update op = (case op of McUpdate now i u \<Rightarrow> defined_status u | _ \<Rightarrow> True)"


section \<open>CREWorkflowService\<close>

record mint_request =
  rq_basketId :: string
  rq_beneficiary :: string
  rq_amount :: string
  rq_assetTypeFilter :: "asset_type option"
  rq_chainId :: "string option"

record asset_payload =
  ap_assetId :: string
  ap_symbol :: string
  ap_type :: asset_type
  ap_amount :: string
  ap_contractAddress :: string
  ap_metadata :: metadata

record workflow_payload =
  wp_messageType :: string
  wp_transactionId :: string
  wp_senderName :: string
  wp_senderAccount :: string
  wp_senderBankCode :: string
  wp_beneficiaryName :: string
  wp_beneficiaryAccount :: string
  wp_amount :: string
  wp_assets :: "asset_payload list"
  wp_valueDate :: string
  wp_bankReference :: string
  wp_timestamp :: string
  wp_assetCount :: nat
  wp_assetTypes :: "asset_type list"

record simulation_output =
  so_success :: bool
  so_transactionId :: string
  so_porVerified :: bool
  so_reserveBalance :: string
  so_timestamp :: string
  so_message :: string

record simulation_result =
  sr_success :: bool
  sr_output :: simulation_output
  sr_error :: "string option"

record cre_workflow_result =
  wr_success :: bool
  wr_transactionId :: string
  wr_mintRecord :: "mint_record option"
  wr_output :: "simulation_output option"
  wr_error :: "string option"

definition hex_byte :: "nat \<Rightarrow> string" where
  "hex_byte n = [''0123456789abcdef'' ! (n div 16 mod 16), ''0123456789abcdef'' ! (n mod 16)]"

definition generateBankReference :: "string \<Rightarrow> string" where
  \<comment> \<open>the transaction id written into a zeroed buffer of 32 bytes, in hexadecimal\<close>
  "generateBankReference transactionId =
     ''0x'' @ concat (map (\<lambda>c. hex_byte (of_char c)) (take 32 transactionId))
            @ concat (replicate (32 - length transactionId) ''00'')"

definition buildWorkflowPayload ::
  "string \<Rightarrow> string \<Rightarrow> string \<Rightarrow> string \<Rightarrow> string \<Rightarrow> asset_payload list \<Rightarrow> workflow_payload" where
  "buildWorkflowPayload now transactionId bankReference beneficiary amount as =
     \<lparr>wp_messageType = ''MT103-MULTI-ASSET'', wp_transactionId = transactionId,
      wp_senderName = ''BSKT Backend'', wp_senderAccount = ''BSKT001'',
      wp_senderBankCode = ''BSKTAPI'', wp_beneficiaryName = ''Wallet'',
      wp_beneficiaryAccount = beneficiary, wp_amount = amount, wp_assets = as,
      wp_valueDate = take 10 now, wp_bankReference = bankReference, wp_timestamp = now,
      wp_assetCount = length as, wp_assetTypes = rev (remdups (rev (map ap_type as)))\<rparr>"

definition runCRESimulation :: "string \<Rightarrow> workflow_payload \<Rightarrow> simulation_result" where
  \<comment> \<open>the mock workflow: after the timer it resolves with a successful result; the
      output is the object that the source prints as JSON\<close>
  "runCRESimulation now payload =
     \<lparr>sr_success = True,
      sr_output = \<lparr>so_success = True, so_transactionId = wp_transactionId payload,
         so_porVerified = True, so_reserveBalance = ''1000000000'', so_timestamp = now,
         so_message = ''POR verification successful via mock CRE workflow''\<rparr>,
      sr_error = None\<rparr>"

definition to_minted_asset :: "expanded_asset \<Rightarrow> minted_asset" where
  "to_minted_asset ea =
     \<lparr>ma_assetId = a_id (ea_asset ea), ma_symbol = a_symbol (ea_asset ea),
      ma_type = a_type (ea_asset ea), ma_amount = ea_amount ea,
      ma_contractAddress = a_contractAddress (ea_asset ea), ma_txHash = None\<rparr>"

definition to_asset_payload :: "expanded_asset \<Rightarrow> asset_payload" where
  "to_asset_payload ea =
     \<lparr>ap_assetId = a_id (ea_asset ea), ap_symbol = a_symbol (ea_asset ea),
      ap_type = a_type (ea_asset ea), ap_amount = ea_amount ea,
      ap_contractAddress = a_contractAddress (ea_asset ea),
      ap_metadata = a_metadata (ea_asset ea)\<rparr>"

definition filterAssets :: "mint_request \<Rightarrow> expanded_asset list \<Rightarrow> expanded_asset list" where
  "filterAssets request expandedAssets =
     (case rq_assetTypeFilter request of
        None \<Rightarrow> expandedAssets
      | Some t \<Rightarrow> filter (\<lambda>ea. a_type (ea_asset ea) = t) expandedAssets)"

record pending_mint =
  pm_mints :: mints
  pm_mintRecord :: mint_record
  pm_mintedAssets :: "minted_asset list"
  pm_payload :: workflow_payload

definition triggerMint_request ::
  "string \<Rightarrow> string \<Rightarrow> asset_registry \<Rightarrow> mints \<Rightarrow> string \<Rightarrow> mint_request \<Rightarrow> error + pending_mint" where
  \<comment> \<open>\<open>triggerMint\<close> up to its \<open>await\<close>: what the service holds while the workflow runs\<close>
  "triggerMint_request t_create t_payload r ms transactionId request =
     (case baskets r (rq_basketId request) of
        None \<Rightarrow> Inl (BasketNotFound (rq_basketId request))
      | Some basket \<Rightarrow>
          (case expandBasket r (rq_basketId request) (rq_amount request) of
             Inl e \<Rightarrow> Inl e
           | Inr expandedAssets \<Rightarrow>
               (let filteredAssets = filterAssets request expandedAssets
                in if length filteredAssets = 0 then Inl NoAssetsMatchingFilter
                   else
                     (let mintedAssets = map to_minted_asset filteredAssets;
                          (mintRecord, ms') = createMintRecord t_create ms (rq_basketId request)
                             transactionId (rq_beneficiary request) (rq_amount request) mintedAssets;
                          payload = buildWorkflowPayload t_payload transactionId
                             (generateBankReference transactionId) (rq_beneficiary request)
                             (rq_amount request) (map to_asset_payload filteredAssets)
                      in Inr \<lparr>pm_mints = ms', pm_mintRecord = mintRecord,
                              pm_mintedAssets = mintedAssets, pm_payload = payload\<rparr>))))"

definition failure_result :: "string \<Rightarrow> error \<Rightarrow> cre_workflow_result" where
  \<comment> \<open>the \<open>catch\<close> block\<close>
  "failure_result transactionId e =
     \<lparr>wr_success = False, wr_transactionId = transactionId, wr_mintRecord = None,
      wr_output = None, wr_error = Some (message e)\<rparr>"

definition triggerMint_resolve ::
  "string \<Rightarrow> string \<Rightarrow> mints \<Rightarrow> pending_mint \<Rightarrow> simulation_result \<Rightarrow> cre_workflow_result \<times> mints" where
  \<comment> \<open>\<open>triggerMint\<close> after its \<open>await\<close>, on the service as it is by then\<close>
  "triggerMint_resolve t_done transactionId ms pm workflowResult =
     (if sr_success workflowResult then
        (case updateMintRecord t_done ms (mr_id (pm_mintRecord pm))
                \<lparr>u_status = Some (Some FinalCompleted),
                 u_assets = Some (Some (pm_mintedAssets pm)), u_error = None\<rparr> of
           Inl e \<Rightarrow> (failure_result transactionId e, ms)
         | Inr (updated, ms') \<Rightarrow>
             (\<lparr>wr_success = True, wr_transactionId = transactionId,
               wr_mintRecord = Some updated, wr_output = Some (sr_output workflowResult),
               wr_error = None\<rparr>, ms'))
      else
        (case updateMintRecord t_done ms (mr_id (pm_mintRecord pm))
                \<lparr>u_status = Some (Some FinalFailed), u_assets = None,
                 u_error = Some (sr_error workflowResult)\<rparr> of
           Inl e \<Rightarrow> (failure_result transactionId e, ms)
         | Inr (updated, ms') \<Rightarrow>
             (failure_result transactionId (WorkflowFailed (sr_error workflowResult)), ms')))"

definition triggerMint ::
  "string \<Rightarrow> string \<Rightarrow> string \<Rightarrow> string \<Rightarrow> asset_registry \<Rightarrow> mints \<Rightarrow> string \<Rightarrow> mint_request
   \<Rightarrow> cre_workflow_result \<times> mints" where
  \<comment> \<open>a mint with no other request served while the workflow runs\<close>
  "triggerMint t_create t_payload t_sim t_done r ms transactionId request =
     (case triggerMint_request t_create t_payload r ms transactionId request of
        Inl e \<Rightarrow> (failure_result transactionId e, ms)
      | Inr pm \<Rightarrow>
          triggerMint_resolve t_done transactionId (pm_mints pm) pm
            (runCRESimulation t_sim (pm_payload pm)))"


section \<open>JavaScript objects used as dictionaries\<close>

text \<open>
  \<open>asset.chains\<close> is a plain object. Its own properties are kept in the order of
  \<open>Object.keys\<close>: the keys that are array indices in ascending order, then the other
  keys in the order of their creation. A property access \<open>obj[k]\<close> also finds the
  members that every plain object inherits from \<open>Object.prototype\<close>; they are functions
  or objects, so they are truthy like the values of the dictionary.
\<close>

type_synonym 'v js_object = "(string \<times> 'v) list"

definition object_prototype_members :: "string list" where
  "object_prototype_members =
     [''constructor'', ''__proto__'', ''hasOwnProperty'', ''isPrototypeOf'',
      ''propertyIsEnumerable'', ''toLocaleString'', ''toString'', ''valueOf'',
      ''__defineGetter__'', ''__defineSetter__'', ''__lookupGetter__'', ''__lookupSetter__'']"

definition object_keys :: "'v js_object \<Rightarrow> string list" where
  "object_keys obj = map fst obj"

definition truthy_member :: "'v js_object \<Rightarrow> string \<Rightarrow> bool" where
  \<comment> \<open>\<open>obj[k]\<close> in a condition\<close>
  "truthy_member obj k = (map_of obj k \<noteq> None \<or> k \<in> set object_prototype_members)"

definition is_array_index :: "string \<Rightarrow> bool" where
  "is_array_index k =
     (k \<noteq> [] \<and> list_all is_digit k \<and> (k = ''0'' \<or> take 1 k \<noteq> ''0'')
      \<and> digits_val k < 2 ^ 32 - 1)"

definition key_before :: "string \<Rightarrow> string \<Rightarrow> bool" where
  \<comment> \<open>a new key \<open>k\<close> is listed before the existing key \<open>j\<close>\<close>
  "key_before k j =
     (is_array_index k \<and> (\<not> is_array_index j \<or> digits_val k < digits_val j))"

fun insert_property :: "string \<Rightarrow> 'v \<Rightarrow> 'v js_object \<Rightarrow> 'v js_object" where
  \<comment> \<open>a property under a key that the object does not have yet\<close>
  "insert_property k v [] = [(k, v)]"
| "insert_property k v ((j, w) # rest) =
     (if key_before k j then (k, v) # (j, w) # rest
      else (j, w) # insert_property k v rest)"

definition set_property :: "string \<Rightarrow> 'v \<Rightarrow> 'v js_object \<Rightarrow> 'v js_object" where
  \<comment> \<open>\<open>obj[k] = v\<close>, for a key that is not a member of \<open>Object.prototype\<close>: an own
      property keeps its place\<close>
  "set_property k v obj =
     (if map_of obj k \<noteq> None then map (\<lambda>(j, w). if j = k then (j, v) else (j, w)) obj
      else insert_property k v obj)"

definition delete_property :: "string \<Rightarrow> 'v js_object \<Rightarrow> 'v js_object" where
  "delete_property k obj = filter (\<lambda>(j, w). j \<noteq> k) obj"

definition first_element :: "'a list \<Rightarrow> 'a option" where
  \<comment> \<open>\<open>xs[0]\<close>: \<open>undefined\<close> on the empty array\<close>
  "first_element xs = (case xs of [] \<Rightarrow> None | x # _ \<Rightarrow> Some x)"

definition removed_default :: "string option \<Rightarrow> string list \<Rightarrow> string \<Rightarrow> string option" where
  \<comment> \<open>the default chain after \<open>chainId\<close> is removed: when it was the default, the
      first of the remaining chains\<close>
  "removed_default defaultChain cs chainId =
     (if defaultChain = Some chainId then first_element (filter (\<lambda>c. c \<noteq> chainId) cs)
      else defaultChain)"

section \<open>MultiChainAssetRegistry\<close>

record chain_asset =
  ca_chainId :: string
  ca_contractAddress :: string
  ca_decimals :: number
  ca_metadata :: metadata

text \<open>
  The chain dictionary of an asset is an object that the registry holds by reference:
  \<open>registerMultiChainAsset\<close> stores the shallow copy \<open>{...asset}\<close> of its argument,
  which keeps the \<open>chains\<close> object of the caller, and \<open>addAssetToChain\<close> and
  \<open>removeAssetFromChain\<close> change that object in place. So the dictionaries live in a
  store of objects, an asset holds the reference of its dictionary, and two assets that
  were registered with one and the same object hold the same reference. The asset object
  itself is made by the registry, one for each registration.
\<close>

type_synonym ref = nat

record mc_asset =
  mca_id :: string
  mca_type :: asset_type
  mca_name :: string
  mca_symbol :: string
  mca_chains :: ref
  mca_defaultChain :: "string option"
  mca_metadata :: metadata
  mca_createdAt :: string
  mca_updatedAt :: string

record mc_asset_registry =
  ar_assets :: "string \<rightharpoonup> mc_asset"
  ar_objects :: "ref \<Rightarrow> chain_asset js_object"

definition chains_of :: "mc_asset_registry \<Rightarrow> mc_asset \<Rightarrow> chain_asset js_object" where
  \<comment> \<open>\<open>asset.chains\<close>\<close>
  "chains_of r a = ar_objects r (mca_chains a)"

definition registerMultiChainAsset ::
  "string \<Rightarrow> mc_asset_registry \<Rightarrow> mc_asset \<Rightarrow> error + mc_asset \<times> mc_asset_registry" where
  "registerMultiChainAsset now r a =
     (if ar_assets r (mca_id a) \<noteq> None then Inl (AssetAlreadyExists (mca_id a))
      else if length (object_keys (chains_of r a)) = 0 then Inl NoChain
      else if \<not> truthy_member (chains_of r a) (undefined_toString (mca_defaultChain a))
        then Inl (DefaultChainNotInAsset (mca_defaultChain a))
      else
        (let fullAsset = a\<lparr>mca_createdAt := now, mca_updatedAt := now\<rparr>
         in Inr (fullAsset, r\<lparr>ar_assets := (ar_assets r)(mca_id a \<mapsto> fullAsset)\<rparr>)))"

definition addAssetToChain ::
  "string \<Rightarrow> mc_asset_registry \<Rightarrow> string \<Rightarrow> string \<Rightarrow> chain_asset
   \<Rightarrow> error + mc_asset \<times> mc_asset_registry" where
  "addAssetToChain now r assetId chainId chainAsset =
     (case ar_assets r assetId of
        None \<Rightarrow> Inl (AssetNotFound assetId)
      | Some asset \<Rightarrow>
          if truthy_member (chains_of r asset) chainId then Inl (AssetAlreadyOnChain assetId chainId)
          else
            (let asset' = asset\<lparr>mca_updatedAt := now\<rparr>
             in Inr (asset',
                  r\<lparr>ar_objects := (ar_objects r)
                       (mca_chains asset := set_property chainId chainAsset (chains_of r asset)),
                    ar_assets := (ar_assets r)(assetId \<mapsto> asset')\<rparr>)))"

definition removeAssetFromChain ::
  "string \<Rightarrow> mc_asset_registry \<Rightarrow> string \<Rightarrow> string \<Rightarrow> error + mc_asset \<times> mc_asset_registry" where
  "removeAssetFromChain now r assetId chainId =
     (case ar_assets r assetId of
        None \<Rightarrow> Inl (AssetNotFound assetId)
      | Some asset \<Rightarrow>
          if \<not> truthy_member (chains_of r asset) chainId then Inl (AssetNotOnChain assetId chainId)
          else if length (object_keys (chains_of r asset)) = 1 then Inl OnlyChainOfAsset
          else
            (let defaultChain =
                   removed_default (mca_defaultChain asset) (object_keys (chains_of r asset)) chainId;
                 asset' = asset\<lparr>mca_defaultChain := defaultChain, mca_updatedAt := now\<rparr>
             in Inr (asset',
                  r\<lparr>ar_objects := (ar_objects r)
                       (mca_chains asset := delete_property chainId (chains_of r asset)),
                    ar_assets := (ar_assets r)(assetId \<mapsto> asset')\<rparr>)))"

section \<open>MultiChainBasketRegistry\<close>

record chain_basket_asset =
  cba_assetId :: string
  cba_weight :: number
  cba_proportion :: string
  cba_chainId :: "string option"

record mc_basket =
  mcb_id :: string
  mcb_name :: string
  mcb_symbol :: string
  mcb_description :: "string option"
  mcb_assets :: "chain_basket_asset list"
  mcb_supportedChains :: "string list"
  mcb_defaultChain :: "string option"
  mcb_status :: basket_status
  mcb_createdAt :: string
  mcb_updatedAt :: string

type_synonym mc_baskets = "string \<rightharpoonup> mc_basket"

text \<open>
  The supported chains of a basket are a value of the basket here: every creation is taken
  to bring an array of its own, as every request of the route does.
  \<open>addChainToBasket\<close> appends to the array of the basket, and
  \<open>removeChainFromBasket\<close> gives the basket a new array.
\<close>

definition array_includes :: "string list \<Rightarrow> string option \<Rightarrow> bool" where
  \<comment> \<open>\<open>Array.prototype.array_includes\<close> on an array of strings; \<open>undefined\<close> is no string\<close>
  "array_includes xs x = (case x of None \<Rightarrow> False | Some y \<Rightarrow> y \<in> set xs)"

definition mc_totalWeight :: "chain_basket_asset list \<Rightarrow> number" where
  "mc_totalWeight bas = foldl (\<lambda>sum ba. number_add sum (cba_weight ba)) (Fin 0) bas"

definition mc_createBasket :: "string \<Rightarrow> mc_baskets \<Rightarrow> mc_basket \<Rightarrow> error + mc_basket \<times> mc_baskets" where
  "mc_createBasket now bs b =
     (if bs (mcb_id b) \<noteq> None then Inl (BasketAlreadyExists (mcb_id b))
      else if length (mcb_supportedChains b) = 0 then Inl NoSupportedChain
      else if \<not> array_includes (mcb_supportedChains b) (mcb_defaultChain b)
        then Inl (DefaultChainNotSupported (mcb_defaultChain b))
      else if mc_totalWeight (mcb_assets b) \<noteq> Fin 100
        then Inl (WeightsMustSumTo100 (mc_totalWeight (mcb_assets b)))
      else
        (let fullBasket = b\<lparr>mcb_createdAt := now, mcb_updatedAt := now\<rparr>
         in Inr (fullBasket, bs(mcb_id b \<mapsto> fullBasket))))"

definition addChainToBasket ::
  "string \<Rightarrow> mc_baskets \<Rightarrow> string \<Rightarrow> string \<Rightarrow> error + mc_basket \<times> mc_baskets" where
  "addChainToBasket now bs basketId chainId =
     (case bs basketId of
        None \<Rightarrow> Inl (BasketNotFound basketId)
      | Some basket \<Rightarrow>
          if array_includes (mcb_supportedChains basket) (Some chainId)
          then Inl (BasketAlreadySupportsChain basketId chainId)
          else
            (let basket' = basket\<lparr>mcb_supportedChains := mcb_supportedChains basket @ [chainId],
                                    mcb_updatedAt := now\<rparr>
             in Inr (basket', bs(basketId \<mapsto> basket'))))"

definition removeChainFromBasket ::
  "string \<Rightarrow> mc_baskets \<Rightarrow> string \<Rightarrow> string \<Rightarrow> error + mc_basket \<times> mc_baskets" where
  "removeChainFromBasket now bs basketId chainId =
     (case bs basketId of
        None \<Rightarrow> Inl (BasketNotFound basketId)
      | Some basket \<Rightarrow>
          if \<not> array_includes (mcb_supportedChains basket) (Some chainId)
          then Inl (BasketDoesNotSupportChain basketId chainId)
          else if length (mcb_supportedChains basket) = 1 then Inl OnlyChainOfBasket
          else
            (let defaultChain =
                   removed_default (mcb_defaultChain basket) (mcb_supportedChains basket) chainId;
                 basket' = basket\<lparr>mcb_defaultChain := defaultChain,
                     mcb_supportedChains := filter (\<lambda>c. c \<noteq> chainId) (mcb_supportedChains basket),
                     mcb_updatedAt := now\<rparr>
             in Inr (basket', bs(basketId \<mapsto> basket'))))"

text \<open>
  Histories of the two multi-chain registries, from the empty registry. An operation
  that throws leaves the registry as it is. A history of the asset registry starts with
  the store of the chain dictionaries that its callers pass.
\<close>

datatype mc_asset_op =
    RegisterAsset string mc_asset
  | AddAssetChain string string string chain_asset
  | RemoveAssetChain string string string

fun mc_asset_step :: "mc_asset_registry \<Rightarrow> mc_asset_op \<Rightarrow> mc_asset_registry" where
  "mc_asset_step r (RegisterAsset now a) =
     (case registerMultiChainAsset now r a of Inl _ \<Rightarrow> r | Inr (_, r') \<Rightarrow> r')"
| "mc_asset_step r (AddAssetChain now assetId chainId chainAsset) =
     (case addAssetToChain now r assetId chainId chainAsset of Inl _ \<Rightarrow> r | Inr (_, r') \<Rightarrow> r')"
| "mc_asset_step r (RemoveAssetChain now assetId chainId) =
     (case removeAssetFromChain now r assetId chainId of Inl _ \<Rightarrow> r | Inr (_, r') \<Rightarrow> r')"

definition mc_asset_run :: "(ref \<Rightarrow> chain_asset js_object) \<Rightarrow> mc_asset_op list \<Rightarrow> mc_asset_registry" where
  "mc_asset_run objects ops =
     foldl mc_asset_step \<lparr>ar_assets = Map.empty, ar_objects = objects\<rparr> ops"

fun registered_object :: "mc_asset_op \<Rightarrow> ref list" where
  \<comment> \<open>the chain dictionary that an operation brings to the registry\<close>
  "registered_object (RegisterAsset now a) = [mca_chains a]"
| "registered_object _ = []"

definition unshared_objects :: "mc_asset_op list \<Rightarrow> bool" where
  \<comment> \<open>no two registrations of the history bring the same chain dictionary\<close>
  "unshared_objects ops = distinct (concat (map registered_object ops))"

datatype mc_basket_op =
    CreateBasket string mc_basket
  | AddBasketChain string string string
  | RemoveBasketChain string string string

fun mc_basket_step :: "mc_baskets \<Rightarrow> mc_basket_op \<Rightarrow> mc_baskets" where
  "mc_basket_step bs (CreateBasket now b) =
     (case mc_createBasket now bs b of Inl _ \<Rightarrow> bs | Inr (_, bs') \<Rightarrow> bs')"
| "mc_basket_step bs (AddBasketChain now basketId chainId) =
     (case addChainToBasket now bs basketId chainId of Inl _ \<Rightarrow> bs | Inr (_, bs') \<Rightarrow> bs')"
| "mc_basket_step bs (RemoveBasketChain now basketId chainId) =
     (case removeChainFromBasket now bs basketId chainId of Inl _ \<Rightarrow> bs | Inr (_, bs') \<Rightarrow> bs')"

definition mc_basket_run :: "mc_basket_op list \<Rightarrow> mc_baskets" where
  "mc_basket_run ops = foldl mc_basket_step Map.empty ops"

definition plain_registration :: "mc_asset_op \<Rightarrow> bool" where
  \<comment> \<open>a registration whose default chain is a string that names no member of
      \<open>Object.prototype\<close>\<close>
  "plain_registration op = (case op of
       RegisterAsset now a \<Rightarrow>
         (case mca_defaultChain a of None \<Rightarrow> False
          | Some d \<Rightarrow> d \<notin> set object_prototype_members)
     | _ \<Rightarrow> True)"

definition distinct_creation :: "mc_basket_op \<Rightarrow> bool" where
  \<comment> \<open>a creation that lists no supported chain twice\<close>
  "distinct_creation op = (case op of
       CreateBasket now b \<Rightarrow> distinct (mcb_supportedChains b)
     | _ \<Rightarrow> True)"

definition asset_chains_ok :: "mc_asset_registry \<Rightarrow> mc_asset \<Rightarrow> bool" where
  \<comment> \<open>the chain set is not empty and holds the default chain\<close>
  "asset_chains_ok r a =
     (object_keys (chains_of r a) \<noteq> []
      \<and> array_includes (object_keys (chains_of r a)) (mca_defaultChain a))"

definition basket_chains_ok :: "mc_basket \<Rightarrow> bool" where
  "basket_chains_ok b =
     (mcb_supportedChains b \<noteq> [] \<and> array_includes (mcb_supportedChains b) (mcb_defaultChain b))"


section \<open>The minting workflow (\<open>workflow/main.ts\<close>)\<close>

text \<open>
  \<open>onMintRequest\<close> scales each amount with \<open>BigInt\<close> arithmetic, modelled by \<open>int\<close>.
  Encoding the call and submitting the transaction belong to libraries outside the
  repository; they are the parameter \<open>submit\<close>, which returns a transaction hash or
  fails.
\<close>

datatype wf_error = ChainNotConfigured string | SyntaxError string | RangeError | SubmitFailed string

record wf_asset =
  wa_assetId :: string
  wa_symbol :: string
  wa_type :: asset_type
  wa_amount :: string
  wa_contractAddress :: string
  wa_chainId :: string
  wa_metadata :: metadata

record wf_chain_config =
  cc_rpcUrl :: string
  cc_stablecoinAddress :: string

record wf_config =
  cfg_chains :: "wf_chain_config js_object"
  cfg_porApiUrl :: string
  cfg_decimals :: "number option"

record wf_payload =
  pl_transactionId :: string
  pl_beneficiaryAccount :: string
  pl_amount :: string
  pl_assets :: "wf_asset list"
  pl_chainId :: string
  pl_chainName :: string

definition trim_ws :: "string \<Rightarrow> string" where
  "trim_ws s = rev (dropWhile is_ws (rev (dropWhile is_ws s)))"

definition radix_digit :: "char \<Rightarrow> nat option" where
  \<comment> \<open>the value of a digit or letter, for radices up to 16\<close>
  "radix_digit c =
     (let n = (of_char c :: nat) in
      if 48 \<le> n \<and> n \<le> 57 then Some (n - 48)
      else if 97 \<le> n \<and> n \<le> 102 then Some (n - 87)
      else if 65 \<le> n \<and> n \<le> 70 then Some (n - 55)
      else None)"

definition is_radix_digit :: "nat \<Rightarrow> char \<Rightarrow> bool" where
  "is_radix_digit radix c = (case radix_digit c of None \<Rightarrow> False | Some d \<Rightarrow> d < radix)"

definition radix_val :: "nat \<Rightarrow> string \<Rightarrow> nat" where
  "radix_val radix ds = foldl (\<lambda>a c. radix * a + (case radix_digit c of None \<Rightarrow> 0 | Some d \<Rightarrow> d)) 0 ds"

definition all_radix_digits :: "nat \<Rightarrow> string \<Rightarrow> int option" where
  \<comment> \<open>a non-empty string of digits of the radix, and nothing else\<close>
  "all_radix_digits radix ds =
     (if ds \<noteq> [] \<and> list_all (is_radix_digit radix) ds then Some (int (radix_val radix ds))
      else None)"

definition StringToBigInt :: "string \<Rightarrow> int option" where
  "StringToBigInt s =
     (let t = trim_ws s in
      if t = [] then Some 0
      else if take 2 t = ''0x'' \<or> take 2 t = ''0X'' then all_radix_digits 16 (drop 2 t)
      else if take 2 t = ''0o'' \<or> take 2 t = ''0O'' then all_radix_digits 8 (drop 2 t)
      else if take 2 t = ''0b'' \<or> take 2 t = ''0B'' then all_radix_digits 2 (drop 2 t)
      else if take 1 t = ''-'' then map_option uminus (all_radix_digits 10 (drop 1 t))
      else if take 1 t = ''+'' then all_radix_digits 10 (drop 1 t)
      else all_radix_digits 10 t)"

definition BigInt_of_string :: "string \<Rightarrow> wf_error + int" where
  "BigInt_of_string s = (case StringToBigInt s of None \<Rightarrow> Inl (SyntaxError s) | Some n \<Rightarrow> Inr n)"

definition BigInt_of_number :: "number \<Rightarrow> wf_error + int" where
  \<comment> \<open>only an integral number converts\<close>
  "BigInt_of_number d = (case d of
       Fin x \<Rightarrow> if of_int \<lfloor>x\<rfloor> = x then Inr \<lfloor>x\<rfloor> else Inl RangeError
     | _ \<Rightarrow> Inl RangeError)"

definition BigInt_pow10 :: "int \<Rightarrow> wf_error + int" where
  \<comment> \<open>\<open>10n ** e\<close>: a negative exponent is a \<open>RangeError\<close>\<close>
  "BigInt_pow10 e = (if e < 0 then Inl RangeError else Inr (10 ^ nat e))"

definition config_decimals :: "wf_config \<Rightarrow> number" where
  \<comment> \<open>\<open>config.decimals ?? 6\<close>\<close>
  "config_decimals config = (case cfg_decimals config of None \<Rightarrow> Fin 6 | Some d \<Rightarrow> d)"

definition scaledAmount :: "wf_config \<Rightarrow> wf_asset \<Rightarrow> wf_error + int" where
  \<comment> \<open>\<open>BigInt(asset.amount) * 10n ** BigInt(decimals)\<close>, the operands evaluated from
      left to right\<close>
  "scaledAmount config asset =
     (case BigInt_of_string (wa_amount asset) of
        Inl e \<Rightarrow> Inl e
      | Inr a \<Rightarrow>
          (case BigInt_of_number (config_decimals config) of
             Inl e \<Rightarrow> Inl e
           | Inr d \<Rightarrow>
               (case BigInt_pow10 d of
                  Inl e \<Rightarrow> Inl e
                | Inr p \<Rightarrow> Inr (a * p))))"

fun mint_loop ::
  "(wf_asset \<Rightarrow> string \<Rightarrow> int \<Rightarrow> wf_error + string) \<Rightarrow> wf_config \<Rightarrow> string \<Rightarrow> wf_asset list
   \<Rightarrow> wf_error + (string \<times> string) list" where
  \<comment> \<open>the \<open>for\<close> loop: the first error is thrown again and ends the loop\<close>
  "mint_loop submit config beneficiary [] = Inr []"
| "mint_loop submit config beneficiary (asset # rest) =
     (case scaledAmount config asset of
        Inl e \<Rightarrow> Inl e
      | Inr scaled \<Rightarrow>
          (case submit asset beneficiary scaled of
             Inl e \<Rightarrow> Inl e
           | Inr txHash \<Rightarrow>
               (case mint_loop submit config beneficiary rest of
                  Inl e \<Rightarrow> Inl e
                | Inr txHashes \<Rightarrow> Inr ((wa_symbol asset, txHash) # txHashes))))"

definition onMintRequest ::
  "(wf_asset \<Rightarrow> string \<Rightarrow> int \<Rightarrow> wf_error + string) \<Rightarrow> wf_config \<Rightarrow> wf_payload
   \<Rightarrow> wf_error + (string \<times> string) list" where
  "onMintRequest submit config payload =
     (if \<not> truthy_member (cfg_chains config) (pl_chainId payload)
      then Inl (ChainNotConfigured (pl_chainId payload))
      else mint_loop submit config (pl_beneficiaryAccount payload) (pl_assets payload))"

definition asset_decimals :: "wf_asset \<Rightarrow> number option" where
  \<comment> \<open>a decimal count that the asset itself carries: the payload has no other place for
      one than a \<open>decimals\<close> entry of its metadata\<close>
  "asset_decimals asset = (case wa_metadata asset of
       None \<Rightarrow> None
     | Some m \<Rightarrow> (case map_of m ''decimals'' of Some (JNumber d) \<Rightarrow> Some d | _ \<Rightarrow> None))"

section \<open>The eligibility check of the dashboard (\<open>MintRequest.tsx\<close>)\<close>

text \<open>
  \<open>checkMintEligibility\<close> draws two random numbers, \<open>rand_reserve\<close> and
  \<open>rand_policy\<close> here, and reads the flag \<open>isPORValid\<close> of the store. The texts of
  the rejection reasons depend on the locale and are left out, and so is the pictograph
  that starts each message.
\<close>

definition parseInt :: "string \<Rightarrow> number" where
  \<comment> \<open>\<open>parseInt\<close> with no radix: base 16 after \<open>0x\<close>, base 10 otherwise; the
      longest prefix of digits counts, and there must be one\<close>
  "parseInt s =
     (let t = dropWhile is_ws s;
          neg = (take 1 t = ''-'');
          u = (if take 1 t = ''-'' \<or> take 1 t = ''+'' then drop 1 t else t);
          radix = (if take 2 u = ''0x'' \<or> take 2 u = ''0X'' then 16 else 10 :: nat);
          v = (if radix = 16 then drop 2 u else u);
          ds = takeWhile (is_radix_digit radix) v
      in if ds = [] then NaN
         else round_double ((if neg then - 1 else 1) * of_nat (radix_val radix ds)))"

fun number_floor :: "number \<Rightarrow> number" where
  "number_floor (Fin x) = Fin (of_int \<lfloor>x\<rfloor>)"
| "number_floor a = a"

fun number_le :: "number \<Rightarrow> number \<Rightarrow> bool" where
  "number_le NaN _ = False"
| "number_le _ NaN = False"
| "number_le NegInf _ = True"
| "number_le _ PosInf = True"
| "number_le (Fin x) (Fin y) = (x \<le> y)"
| "number_le _ _ = False"

fun number_less :: "number \<Rightarrow> number \<Rightarrow> bool" where
  "number_less NaN _ = False"
| "number_less _ NaN = False"
| "number_less (Fin x) (Fin y) = (x < y)"
| "number_less PosInf _ = False"
| "number_less _ NegInf = False"
| "number_less _ _ = True"

record mint_check_result =
  mc_success :: bool
  mc_message :: string
  mc_porValid :: bool
  mc_reserveSufficient :: bool
  mc_reserveBalance :: string
  mc_requestedAmount :: string
  mc_policyCheck :: bool

definition checkMintEligibility :: "bool \<Rightarrow> number \<Rightarrow> number \<Rightarrow> string \<Rightarrow> mint_check_result" where
  "checkMintEligibility isPORValid rand_reserve rand_policy amount =
     (let reserveBalance = number_toString (number_floor
            (number_add (number_mul rand_reserve (Fin 5000000)) (Fin 5000000)));
          requestedAmount = parseInt amount;
          porValid = isPORValid;
          reserveSufficient = number_le requestedAmount (parseInt reserveBalance);
          policyCheck = number_less (round_double (2 / 10)) rand_policy
      in \<lparr>mc_success = (porValid \<and> reserveSufficient \<and> policyCheck),
          mc_message =
            (if \<not> porValid then ''POR verification failed''
             else if \<not> reserveSufficient then ''Insufficient reserves''
             else if \<not> policyCheck then ''ACE Policy rejected''
             else ''Eligible for minting''),
          mc_porValid = porValid, mc_reserveSufficient = reserveSufficient,
          mc_reserveBalance = reserveBalance, mc_requestedAmount = amount,
          mc_policyCheck = policyCheck\<rparr>)"


section \<open>Histories of the AssetRegistry\<close>

datatype registry_op = RegisterOp string asset | CreateBasketOp string basket

fun registry_step :: "asset_registry \<Rightarrow> registry_op \<Rightarrow> asset_registry" where
  "registry_step r (RegisterOp now a) =
     (case registerAsset now r a of Inl _ \<Rightarrow> r | Inr (_, r') \<Rightarrow> r')"
| "registry_step r (CreateBasketOp now b) =
     (case createBasket now r b of Inl _ \<Rightarrow> r | Inr (_, r') \<Rightarrow> r')"

definition empty_registry :: asset_registry where
  "empty_registry = \<lparr>assets = Map.empty, baskets = Map.empty\<rparr>"

definition registry_run :: "registry_op list \<Rightarrow> asset_registry" where
  "registry_run ops = foldl registry_step empty_registry ops"

section \<open>Sample data\<close>

definition usd :: asset where
  "usd = \<lparr>a_id = ''USD'', a_type = Monetary, a_name = ''US Dollar'', a_symbol = ''USD'',
     a_decimals = Fin 6, a_contractAddress = ''0x1111111111111111111111111111111111111111'',
     a_metadata = None, a_createdAt = ''t0'', a_updatedAt = ''t0''\<rparr>"

definition gold :: asset where
  "gold = \<lparr>a_id = ''GOLD'', a_type = PhysicalBacked, a_name = ''Gold'', a_symbol = ''XAU'',
     a_decimals = Fin 18, a_contractAddress = ''0x2222222222222222222222222222222222222222'',
     a_metadata = None, a_createdAt = ''t0'', a_updatedAt = ''t0''\<rparr>"

definition entry :: "string \<Rightarrow> rat \<Rightarrow> basket_asset" where
  "entry i w = \<lparr>ba_assetId = i, ba_weight = Fin w, ba_proportion = ''1:1''\<rparr>"

definition sample_basket :: "string \<Rightarrow> basket_asset list \<Rightarrow> basket" where
  "sample_basket i bas = \<lparr>b_id = i, b_name = ''Basket'', b_symbol = ''BSK'', b_description = None,
     b_assets = bas, b_totalValueLocked = None, b_status = Active,
     b_createdAt = ''t0'', b_updatedAt = ''t0''\<rparr>"

definition sample_registry :: "asset list \<Rightarrow> basket list \<Rightarrow> asset_registry" where
  "sample_registry as bs =
     \<lparr>assets = map_of (map (\<lambda>a. (a_id a, a)) as), baskets = map_of (map (\<lambda>b. (b_id b, b)) bs)\<rparr>"

definition sample_request :: "string \<Rightarrow> string \<Rightarrow> mint_request" where
  "sample_request i amount = \<lparr>rq_basketId = i,
     rq_beneficiary = ''0x3333333333333333333333333333333333333333'', rq_amount = amount,
     rq_assetTypeFilter = None, rq_chainId = None\<rparr>"

definition sample_mc_basket :: "string list \<Rightarrow> string \<Rightarrow> mc_basket" where
  "sample_mc_basket cs d = \<lparr>mcb_id = ''B'', mcb_name = ''Basket'', mcb_symbol = ''BSK'',
     mcb_description = None,
     mcb_assets = [\<lparr>cba_assetId = ''USD'', cba_weight = Fin 100, cba_proportion = ''1:1'',
                    cba_chainId = None\<rparr>],
     mcb_supportedChains = cs, mcb_defaultChain = Some d, mcb_status = Active,
     mcb_createdAt = ''t0'', mcb_updatedAt = ''t0''\<rparr>"

definition sample_chain_asset :: "string \<Rightarrow> chain_asset" where
  "sample_chain_asset c = \<lparr>ca_chainId = c,
     ca_contractAddress = ''0x1111111111111111111111111111111111111111'',
     ca_decimals = Fin 6, ca_metadata = None\<rparr>"

definition sample_mc_asset :: "string \<Rightarrow> ref \<Rightarrow> string \<Rightarrow> mc_asset" where
  "sample_mc_asset i x d = \<lparr>mca_id = i, mca_type = Monetary, mca_name = ''US Dollar'',
     mca_symbol = ''USD'', mca_chains = x,
     mca_defaultChain = Some d, mca_metadata = None, mca_createdAt = ''t0'', mca_updatedAt = ''t0''\<rparr>"

definition sample_objects :: "string list \<Rightarrow> ref \<Rightarrow> chain_asset js_object" where
  \<comment> \<open>a store in which every object is a dictionary of the chains \<open>cs\<close>\<close>
  "sample_objects cs = (\<lambda>x. map (\<lambda>c. (c, sample_chain_asset c)) cs)"

definition sample_wf_asset :: "string \<Rightarrow> metadata \<Rightarrow> wf_asset" where
  "sample_wf_asset amount m = \<lparr>wa_assetId = ''USD'', wa_symbol = ''USD'', wa_type = Monetary,
     wa_amount = amount, wa_contractAddress = ''0x1111111111111111111111111111111111111111'',
     wa_chainId = ''ethereum-mainnet'', wa_metadata = m\<rparr>"

definition sample_wf_config :: "number option \<Rightarrow> wf_config" where
  "sample_wf_config d = \<lparr>cfg_chains = [(''ethereum-mainnet'',
       \<lparr>cc_rpcUrl = ''https://rpc'', cc_stablecoinAddress = ''0x1111111111111111111111111111111111111111''\<rparr>)],
     cfg_porApiUrl = ''https://por'', cfg_decimals = d\<rparr>"


definition sample_create :: mint_op where
  "sample_create = Create ''t0'' ''B'' ''T1'' ''0x3333333333333333333333333333333333333333'' ''1000'' []"

definition sample_complete :: mint_op where
  "sample_complete = Update ''t1'' ''mint-T1''
     \<lparr>u_status = Some (Some FinalCompleted), u_assets = None, u_error = None\<rparr>"

definition sample_fail :: mint_op where
  "sample_fail = Update ''t2'' ''mint-T1''
     \<lparr>u_status = Some (Some FinalFailed), u_assets = None,
      u_error = Some (Some ''late failure'')\<rparr>"

definition sample_undefined :: mint_op where
  \<comment> \<open>\<open>updateMintRecord('mint-T1', {status: undefined})\<close>\<close>
  "sample_undefined = Update ''t2'' ''mint-T1''
     \<lparr>u_status = Some None, u_assets = None, u_error = None\<rparr>"

definition sample_mc_create :: mc_mint_op where
  "sample_mc_create = McCreate ''t0'' ''B'' ''sepolia'' ''Sepolia'' ''T1''
     ''0x3333333333333333333333333333333333333333'' ''1000'' []"

definition sample_mc_complete :: mc_mint_op where
  "sample_mc_complete = McUpdate ''t1'' ''mint-sepolia-T1''
     \<lparr>u_status = Some (Some FinalCompleted), u_assets = None, u_error = None\<rparr>"

section \<open>Evaluation of numbers given by numerals\<close>

lemma floor_rat_numeral [simp]: "\<lfloor>numeral a / numeral b :: rat\<rfloor> = numeral a div numeral b"
  by (metis floor_divide_of_int_eq of_int_numeral)

lemma floor_rat_one_numeral [simp]: "\<lfloor>1 / numeral b :: rat\<rfloor> = 1 div numeral b"
  by (metis floor_divide_of_int_eq of_int_numeral of_int_1)

lemma ceiling_rat_numeral [simp]:
  "\<lceil>numeral a / numeral b :: rat\<rceil> = - (- numeral a div numeral b)"
  unfolding ceiling_def
  by (metis floor_divide_of_int_eq of_int_numeral of_int_minus minus_divide_left)

lemma bitlen_Bit0 [simp]: "bitlen (numeral (Num.Bit0 k)) = bitlen (numeral k) + 1"
  by (subst compute_bitlen) simp

lemma bitlen_Bit1 [simp]: "bitlen (numeral (Num.Bit1 k)) = bitlen (numeral k) + 1"
  by (subst compute_bitlen) simp

lemma bitlen_1 [simp]: "bitlen 1 = 1"
  by (subst compute_bitlen) simp

lemma floorlog10_numeral [simp]:
  "floorlog 10 (numeral k) = floorlog 10 (numeral k div 10) + 1"
  by (subst compute_floorlog) simp

lemma floorlog10_0 [simp]: "floorlog 10 0 = 0"
  by (simp add: floorlog_def)

lemma floorlog10_1 [simp]: "floorlog 10 (Suc 0) = 1"
  by (subst compute_floorlog) (simp add: floorlog_def)

lemma find_digits_numeral [simp]:
  "find_digits x n k (numeral f) =
     (case digits_candidate x n k of
        Some s \<Rightarrow> (k, s)
      | None \<Rightarrow> find_digits x n (Suc k) (pred_numeral f))"
  by (simp only: numeral_eq_Suc [of f] find_digits.simps)

lemma digit_chars_numeral [simp]:
  "digit_chars (numeral k) s =
     digit_chars (pred_numeral k) (s div 10) @ [''0123456789'' ! (s mod 10)]"
  by (simp only: numeral_eq_Suc [of k] digit_chars.simps)

lemma replicate_numeral [simp]:
  "replicate (numeral k) x = x # replicate (pred_numeral k) x"
  by (simp only: numeral_eq_Suc [of k] replicate.simps)

lemmas num_eval = round_double_def make_double_def double_exponent_def floor_log2_def
  round_half_even_def tie_to_even_def

lemmas str_eval = number_toString_def positive_toString_def format_found_def format_digits_def
  exponent_suffix_def nat_toString_def decimal_exponent_def digits_candidate_def
  digits_at_scale_def choose_digits_def

lemmas parse_eval = parseFloat_def unsigned_literal_def after_integer_def literal_value_def
  exponent_part_def unsigned_exponent_def digits_val_def digit_val_def is_digit_def is_ws_def

lemmas sample_defs = usd_def gold_def entry_def sample_basket_def sample_registry_def
  sample_request_def sample_mc_basket_def sample_chain_asset_def sample_mc_asset_def sample_objects_def
  sample_wf_asset_def sample_wf_config_def sample_create_def sample_complete_def
  sample_fail_def sample_undefined_def sample_mc_create_def sample_mc_complete_def

section \<open>Basket expansion\<close>

lemma expand_loop_eq:
  "expand_loop as t bas =
     map (\<lambda>ba. \<lparr>ea_asset = the (as (ba_assetId ba)),
                 ea_amount = number_toString (proportionalAmount t (ba_weight ba))\<rparr>)
         (filter (\<lambda>ba. as (ba_assetId ba) \<noteq> None) bas)"
  by (induction bas) (auto split: option.splits)

lemma length_expand_loop:
  "length (expand_loop as t bas) = length (filter (\<lambda>ba. as (ba_assetId ba) \<noteq> None) bas)"
  by (simp add: expand_loop_eq)

lemma expand_loop_assets:
  "list_all2 (\<lambda>e ba. as (ba_assetId ba) = Some (ea_asset e)
       \<and> ea_amount e = number_toString (proportionalAmount t (ba_weight ba)))
     (expand_loop as t bas) (filter (\<lambda>ba. as (ba_assetId ba) \<noteq> None) bas)"
  by (induction bas) (auto split: option.splits)

text \<open>
  C10. When a basket has an entry whose asset id is not in the asset registry,
  \<open>expandBasket\<close> raises no error and returns the entries of the registered assets only,
  so fewer entries than the basket has; where the registry files every asset under its
  own id, no returned entry is for the missing id.
\<close>

theorem expandBasket_skips_unregistered:
  assumes "baskets r basketId = Some b"
    and "ba \<in> set (b_assets b)"
    and "assets r (ba_assetId ba) = None"
  shows "\<exists>es. expandBasket r basketId totalAmount = Inr es
           \<and> length es < length (b_assets b)
           \<and> list_all2 (\<lambda>e x. assets r (ba_assetId x) = Some (ea_asset e)) es
                (filter (\<lambda>x. assets r (ba_assetId x) \<noteq> None) (b_assets b))
           \<and> ((\<forall>k a. assets r k = Some a \<longrightarrow> a_id a = k)
                \<longrightarrow> ba_assetId ba \<notin> set (map (\<lambda>e. a_id (ea_asset e)) es))"
proof -
  let ?reg = "\<lambda>x. assets r (ba_assetId x) \<noteq> None"
  let ?es = "expand_loop (assets r) (parseFloat totalAmount) (b_assets b)"
  have eq: "expandBasket r basketId totalAmount = Inr ?es"
    using assms(1) by (simp add: expandBasket_def)
  have "filter ?reg (b_assets b) \<noteq> b_assets b"
    using assms(2,3) by (metis (mono_tags, lifting) filter_id_conv)
  then have "length (filter ?reg (b_assets b)) < length (b_assets b)"
    by (metis filter_True length_filter_le nat_less_le length_filter_less not_less_iff_gr_or_eq)
  then have len: "length ?es < length (b_assets b)"
    by (simp add: length_expand_loop)
  have corr: "list_all2 (\<lambda>e x. assets r (ba_assetId x) = Some (ea_asset e)) ?es
                (filter ?reg (b_assets b))"
    using expand_loop_assets [of "assets r" "parseFloat totalAmount" "b_assets b"]
    by (rule list_all2_mono) simp
  have noid: "ba_assetId ba \<notin> set (map (\<lambda>e. a_id (ea_asset e)) ?es)"
    if wf: "\<forall>k a. assets r k = Some a \<longrightarrow> a_id a = k"
  proof
    assume "ba_assetId ba \<in> set (map (\<lambda>e. a_id (ea_asset e)) ?es)"
    then obtain x where x: "x \<in> set (b_assets b)" "assets r (ba_assetId x) \<noteq> None"
      "a_id (the (assets r (ba_assetId x))) = ba_assetId ba"
      by (auto simp: expand_loop_eq)
    then obtain a where a: "assets r (ba_assetId x) = Some a" by auto
    with wf have "a_id a = ba_assetId x" by blast
    with x(3) a have "ba_assetId x = ba_assetId ba" by simp
    with a assms(3) show False by simp
  qed
  show ?thesis using eq len corr noid by blast
qed

theorem expandBasket_skips_unregistered_witness:
  "baskets (sample_registry [usd] [sample_basket ''B'' [entry ''USD'' 60, entry ''GOLD'' 40]]) ''B''
     = Some (sample_basket ''B'' [entry ''USD'' 60, entry ''GOLD'' 40])
   \<and> entry ''GOLD'' 40 \<in> set (b_assets (sample_basket ''B'' [entry ''USD'' 60, entry ''GOLD'' 40]))
   \<and> assets (sample_registry [usd] [sample_basket ''B'' [entry ''USD'' 60, entry ''GOLD'' 40]])
        (ba_assetId (entry ''GOLD'' 40)) = None
   \<and> (\<exists>es. expandBasket (sample_registry [usd] [sample_basket ''B'' [entry ''USD'' 60, entry ''GOLD'' 40]])
              ''B'' ''1000'' = Inr es
          \<and> length es < 2
          \<and> ''GOLD'' \<notin> set (map (\<lambda>e. a_id (ea_asset e)) es))"
proof -
  let ?b = "sample_basket ''B'' [entry ''USD'' 60, entry ''GOLD'' 40]"
  let ?r = "sample_registry [usd] [?b]"
  have h1: "baskets ?r ''B'' = Some ?b"
    by (simp add: sample_defs)
  have h2: "entry ''GOLD'' 40 \<in> set (b_assets ?b)"
    by (simp add: sample_defs)
  have h3: "assets ?r (ba_assetId (entry ''GOLD'' 40)) = None"
    by (simp add: sample_defs)
  have h4: "\<forall>k a. assets ?r k = Some a \<longrightarrow> a_id a = k"
    by (simp add: sample_defs)
  have len: "length (b_assets ?b) = 2" and gid: "ba_assetId (entry ''GOLD'' 40) = ''GOLD''"
    by (simp_all add: sample_defs)
  from expandBasket_skips_unregistered [OF h1 h2 h3, of "''1000''"] h4 len gid
  have "\<exists>es. expandBasket ?r ''B'' ''1000'' = Inr es \<and> length es < 2
          \<and> ''GOLD'' \<notin> set (map (\<lambda>e. a_id (ea_asset e)) es)"
    by auto
  with h1 h2 h3 show ?thesis by blast
qed

section \<open>Mint records\<close>

lemma terminal_status_of [simp]: "terminal (Some (status_of st))"
  by (cases st) (simp_all add: terminal_def)

lemma not_terminal_Pending [simp]: "\<not> terminal (Some Pending)"
  by (simp add: terminal_def)

lemma not_terminal_undefined [simp]: "\<not> terminal None"
  by (simp add: terminal_def)

lemma stamped_simps [simp]:
  "\<not> stamped None" "\<not> stamped (Some None)" "stamped (Some (Some st))"
  by (simp_all add: stamped_def)

lemma record_ok_iff:
  "record_ok True st c \<Longrightarrow> (c \<noteq> None) = terminal st"
  by (cases st; cases "the st") (auto simp: record_ok_def terminal_def)

lemma record_ok_weaken: "record_ok s st c \<Longrightarrow> record_ok False st c"
  by (simp add: record_ok_def)

lemma record_ok_update:
  assumes "record_ok s st c" and "s \<longrightarrow> us \<noteq> Some None"
  shows "record_ok s (case us of None \<Rightarrow> st | Some x \<Rightarrow> map_option status_of x)
           (if stamped us then Some now else c)"
proof (cases us)
  case None
  then show ?thesis using assms by simp
next
  case (Some x)
  show ?thesis
  proof (cases x)
    case None
    then show ?thesis using assms Some by (simp add: record_ok_def)
  next
    case (Some y)
    then show ?thesis using \<open>us = Some x\<close>
      by (cases y) (simp_all add: record_ok_def terminal_def)
  qed
qed

lemma mint_step_ok:
  assumes inv: "\<forall>i rec. ms i = Some rec \<longrightarrow> record_ok s (mr_status rec) (mr_completedAt rec)"
    and op: "s \<longrightarrow> defined_update op"
  shows "\<forall>i rec. mint_step ms op i = Some rec \<longrightarrow> record_ok s (mr_status rec) (mr_completedAt rec)"
proof (cases op)
  case (Create now basketId transactionId beneficiary amount as)
  then show ?thesis using inv
    by (auto simp: createMintRecord_def Let_def record_ok_def terminal_def)
next
  case (Update now j u)
  show ?thesis
  proof (cases "ms j")
    case None
    then show ?thesis using inv Update by (simp add: updateMintRecord_def)
  next
    case (Some old)
    then have old: "record_ok s (mr_status old) (mr_completedAt old)" using inv by blast
    have u: "s \<longrightarrow> u_status u \<noteq> Some None"
      using op Update by (simp add: defined_update_def defined_status_def)
    note new = record_ok_update [OF old u, of now]
    show ?thesis using inv Update Some new
      by (auto simp: updateMintRecord_def Let_def)
  qed
qed

lemma mint_run_ok:
  assumes "s \<longrightarrow> list_all defined_update ops"
  shows "\<forall>i rec. mint_run ops i = Some rec \<longrightarrow> record_ok s (mr_status rec) (mr_completedAt rec)"
  using assms
proof (induction ops rule: rev_induct)
  case Nil
  show ?case by (simp add: mint_run_def)
next
  case (snoc op ops)
  then have rest: "s \<longrightarrow> list_all defined_update ops" and op: "s \<longrightarrow> defined_update op"
    by simp_all
  have eq: "mint_run (ops @ [op]) = mint_step (mint_run ops) op"
    by (simp add: mint_run_def)
  show ?case unfolding eq by (rule mint_step_ok [OF snoc.IH [OF rest] op])
qed

lemma mc_mint_step_ok:
  assumes inv: "\<forall>i rec. ms i = Some rec \<longrightarrow> record_ok s (mcr_status rec) (mcr_completedAt rec)"
    and op: "s \<longrightarrow> mc_defined_update op"
  shows "\<forall>i rec. mc_mint_step ms op i = Some rec
           \<longrightarrow> record_ok s (mcr_status rec) (mcr_completedAt rec)"
proof (cases op)
  case (McCreate now basketId chainId chainName transactionId beneficiary amount as)
  then show ?thesis using inv
    by (auto simp: mc_createMintRecord_def Let_def record_ok_def terminal_def)
next
  case (McUpdate now j u)
  show ?thesis
  proof (cases "ms j")
    case None
    then show ?thesis using inv McUpdate by (simp add: mc_updateMintRecord_def)
  next
    case (Some old)
    then have old: "record_ok s (mcr_status old) (mcr_completedAt old)" using inv by blast
    have u: "s \<longrightarrow> u_status u \<noteq> Some None"
      using op McUpdate by (simp add: mc_defined_update_def defined_status_def)
    note new = record_ok_update [OF old u, of now]
    show ?thesis using inv McUpdate Some new
      by (auto simp: mc_updateMintRecord_def Let_def)
  qed
qed

lemma mc_mint_run_ok:
  assumes "s \<longrightarrow> list_all mc_defined_update ops"
  shows "\<forall>i rec. mc_mint_run ops i = Some rec
           \<longrightarrow> record_ok s (mcr_status rec) (mcr_completedAt rec)"
  using assms
proof (induction ops rule: rev_induct)
  case Nil
  show ?case by (simp add: mc_mint_run_def)
next
  case (snoc op ops)
  then have rest: "s \<longrightarrow> list_all mc_defined_update ops" and op: "s \<longrightarrow> mc_defined_update op"
    by simp_all
  have eq: "mc_mint_run (ops @ [op]) = mc_mint_step (mc_mint_run ops) op"
    by (simp add: mc_mint_run_def)
  show ?case unfolding eq by (rule mc_mint_step_ok [OF snoc.IH [OF rest] op])
qed

lemma mint_run_lifecycle:
  assumes "mint_run ops i = Some rec"
  shows "(terminal (mr_status rec) \<longrightarrow> mr_completedAt rec \<noteq> None)
       \<and> (mr_completedAt rec \<noteq> None \<longrightarrow> mr_status rec \<noteq> Some Pending)
       \<and> (list_all defined_update ops
            \<longrightarrow> (mr_completedAt rec \<noteq> None) = terminal (mr_status rec))"
proof -
  have "record_ok False (mr_status rec) (mr_completedAt rec)"
    using mint_run_ok [of False ops] assms by simp
  moreover have "(mr_completedAt rec \<noteq> None) = terminal (mr_status rec)"
    if "list_all defined_update ops"
    using mint_run_ok [of True ops] assms that record_ok_iff by blast
  ultimately show ?thesis by (simp add: record_ok_def)
qed

lemma mc_mint_run_lifecycle:
  assumes "mc_mint_run ops i = Some rec"
  shows "(terminal (mcr_status rec) \<longrightarrow> mcr_completedAt rec \<noteq> None)
       \<and> (mcr_completedAt rec \<noteq> None \<longrightarrow> mcr_status rec \<noteq> Some Pending)
       \<and> (list_all mc_defined_update ops
            \<longrightarrow> (mcr_completedAt rec \<noteq> None) = terminal (mcr_status rec))"
proof -
  have "record_ok False (mcr_status rec) (mcr_completedAt rec)"
    using mc_mint_run_ok [of False ops] assms by simp
  moreover have "(mcr_completedAt rec \<noteq> None) = terminal (mcr_status rec)"
    if "list_all mc_defined_update ops"
    using mc_mint_run_ok [of True ops] assms that record_ok_iff by blast
  ultimately show ?thesis by (simp add: record_ok_def)
qed

lemma updateMintRecord_status:
  assumes "ms i = Some old"
  shows "\<exists>rec. updateMintRecord now ms i \<lparr>u_status = Some s, u_assets = a, u_error = e\<rparr>
            = Inr (rec, ms(i \<mapsto> rec))
          \<and> mr_status rec = map_option status_of s
          \<and> mr_completedAt rec = (if s = None then mr_completedAt old else Some now)
          \<and> mr_id rec = mr_id old \<and> mr_createdAt rec = mr_createdAt old"
  using assms by (cases s) (simp_all add: updateMintRecord_def Let_def)

lemma mc_updateMintRecord_status:
  assumes "ms i = Some old"
  shows "\<exists>rec. mc_updateMintRecord now ms i \<lparr>u_status = Some s, u_assets = a, u_error = e\<rparr>
            = Inr (rec, ms(i \<mapsto> rec))
          \<and> mcr_status rec = map_option status_of s
          \<and> mcr_completedAt rec = (if s = None then mcr_completedAt old else Some now)
          \<and> mcr_id rec = mcr_id old \<and> mcr_createdAt rec = mcr_createdAt old"
  using assms by (cases s) (simp_all add: mc_updateMintRecord_def Let_def)

text \<open>
  C7, as the code has it. In every history of either mint state service that starts with
  no record, a record whose status is \<open>completed\<close> or \<open>failed\<close> has a completion
  timestamp, and a record that has a completion timestamp is not \<open>pending\<close>; where no
  update of the history carries a \<open>status\<close> property that holds \<open>undefined\<close>, a record
  has a completion timestamp exactly when its status is \<open>completed\<close> or \<open>failed\<close>. An
  update that carries a status property is applied to any existing record, whatever its
  status: the record takes the status carried; a status \<open>completed\<close> or \<open>failed\<close>
  stamps the completion time anew, an undefined one leaves the timestamp as it was.
  Nothing rejects an update of a record that is terminal already.
\<close>

theorem mint_record_lifecycle:
  "(mint_run ops i = Some rec
      \<longrightarrow> (terminal (mr_status rec) \<longrightarrow> mr_completedAt rec \<noteq> None)
        \<and> (mr_completedAt rec \<noteq> None \<longrightarrow> mr_status rec \<noteq> Some Pending)
        \<and> (list_all defined_update ops
             \<longrightarrow> (mr_completedAt rec \<noteq> None) = terminal (mr_status rec)))
   \<and> (mc_mint_run mc_ops j = Some mc_rec
      \<longrightarrow> (terminal (mcr_status mc_rec) \<longrightarrow> mcr_completedAt mc_rec \<noteq> None)
        \<and> (mcr_completedAt mc_rec \<noteq> None \<longrightarrow> mcr_status mc_rec \<noteq> Some Pending)
        \<and> (list_all mc_defined_update mc_ops
             \<longrightarrow> (mcr_completedAt mc_rec \<noteq> None) = terminal (mcr_status mc_rec)))
   \<and> (ms k = Some old
        \<longrightarrow> (\<exists>new. updateMintRecord now ms k \<lparr>u_status = Some s, u_assets = a, u_error = e\<rparr>
                      = Inr (new, ms(k \<mapsto> new))
                  \<and> mr_status new = map_option status_of s
                  \<and> mr_completedAt new = (if s = None then mr_completedAt old else Some now)))
   \<and> (mcs l = Some mc_old
        \<longrightarrow> (\<exists>new. mc_updateMintRecord now mcs l \<lparr>u_status = Some s, u_assets = ca, u_error = e\<rparr>
                      = Inr (new, mcs(l \<mapsto> new))
                  \<and> mcr_status new = map_option status_of s
                  \<and> mcr_completedAt new
                      = (if s = None then mcr_completedAt mc_old else Some now)))"
proof -
  note 1 = mint_run_lifecycle [of ops i rec]
  note 2 = mc_mint_run_lifecycle [of mc_ops j mc_rec]
  have 3: "ms k = Some old
        \<longrightarrow> (\<exists>new. updateMintRecord now ms k \<lparr>u_status = Some s, u_assets = a, u_error = e\<rparr>
                      = Inr (new, ms(k \<mapsto> new))
                  \<and> mr_status new = map_option status_of s
                  \<and> mr_completedAt new = (if s = None then mr_completedAt old else Some now))"
    using updateMintRecord_status [of ms k old now s a e] by blast
  have 4: "mcs l = Some mc_old
        \<longrightarrow> (\<exists>new. mc_updateMintRecord now mcs l \<lparr>u_status = Some s, u_assets = ca, u_error = e\<rparr>
                      = Inr (new, mcs(l \<mapsto> new))
                  \<and> mcr_status new = map_option status_of s
                  \<and> mcr_completedAt new
                      = (if s = None then mcr_completedAt mc_old else Some now))"
    using mc_updateMintRecord_status [of mcs l mc_old now s ca e] by blast
  show ?thesis using 1 2 3 4 by blast
qed

lemma sample_run2:
  "mint_run [sample_create, sample_complete] ''mint-T1'' =
     Some \<lparr>mr_id = ''mint-T1'', mr_basketId = ''B'', mr_transactionId = ''T1'',
       mr_beneficiary = ''0x3333333333333333333333333333333333333333'', mr_amount = ''1000'',
       mr_assets = Some [], mr_status = Some Completed, mr_createdAt = ''t0'',
       mr_completedAt = Some ''t1'', mr_error = None\<rparr>"
  by (simp add: mint_run_def sample_defs createMintRecord_def updateMintRecord_def Let_def)

lemma sample_run3:
  "mint_run [sample_create, sample_complete, sample_fail] ''mint-T1'' =
     Some \<lparr>mr_id = ''mint-T1'', mr_basketId = ''B'', mr_transactionId = ''T1'',
       mr_beneficiary = ''0x3333333333333333333333333333333333333333'', mr_amount = ''1000'',
       mr_assets = Some [], mr_status = Some Failed, mr_createdAt = ''t0'',
       mr_completedAt = Some ''t2'', mr_error = Some ''late failure''\<rparr>"
  by (simp add: mint_run_def sample_defs createMintRecord_def updateMintRecord_def Let_def)

lemma sample_mc_run2:
  "mc_mint_run [sample_mc_create, sample_mc_complete] ''mint-sepolia-T1'' =
     Some \<lparr>mcr_id = ''mint-sepolia-T1'', mcr_basketId = ''B'', mcr_chainId = ''sepolia'',
       mcr_chainName = ''Sepolia'', mcr_transactionId = ''T1'',
       mcr_beneficiary = ''0x3333333333333333333333333333333333333333'', mcr_amount = ''1000'',
       mcr_assets = Some [], mcr_status = Some Completed, mcr_createdAt = ''t0'',
       mcr_completedAt = Some ''t1'', mcr_error = None\<rparr>"
  by (simp add: mc_mint_run_def sample_defs mc_createMintRecord_def mc_updateMintRecord_def Let_def)

text \<open>
  The timestamp without a terminal status: an update \<open>{status: undefined}\<close> of a
  completed record leaves it with its completion timestamp and an undefined status.
\<close>

lemma undefined_status_keeps_timestamp:
  "mint_run [sample_create, sample_complete, sample_undefined] ''mint-T1'' =
     Some \<lparr>mr_id = ''mint-T1'', mr_basketId = ''B'', mr_transactionId = ''T1'',
       mr_beneficiary = ''0x3333333333333333333333333333333333333333'', mr_amount = ''1000'',
       mr_assets = Some [], mr_status = None, mr_createdAt = ''t0'',
       mr_completedAt = Some ''t1'', mr_error = None\<rparr>"
  by (simp add: mint_run_def sample_defs createMintRecord_def updateMintRecord_def Let_def)

text \<open>
  C7 as stated fails: a record that was completed is failed by a second update, which
  replaces its status, its completion timestamp and its error.
\<close>

theorem terminal_record_overwritten:
  "map_option mr_status (mint_run [sample_create, sample_complete] ''mint-T1'')
       = Some (Some Completed)
   \<and> map_option mr_completedAt (mint_run [sample_create, sample_complete] ''mint-T1'')
       = Some (Some ''t1'')
   \<and> map_option mr_status (mint_run [sample_create, sample_complete, sample_fail] ''mint-T1'')
       = Some (Some Failed)
   \<and> map_option mr_completedAt (mint_run [sample_create, sample_complete, sample_fail] ''mint-T1'')
       = Some (Some ''t2'')
   \<and> map_option mr_error (mint_run [sample_create, sample_complete, sample_fail] ''mint-T1'')
       = Some (Some ''late failure'')"
  by (simp add: sample_run2 sample_run3)

theorem mint_record_lifecycle_witness:
  "mint_run [sample_create, sample_complete] ''mint-T1'' \<noteq> None
   \<and> list_all defined_update [sample_create, sample_complete]
   \<and> terminal (mr_status (the (mint_run [sample_create, sample_complete] ''mint-T1'')))
   \<and> mr_completedAt (the (mint_run [sample_create, sample_complete] ''mint-T1'')) \<noteq> None
   \<and> mr_status (the (mint_run [sample_create, sample_complete] ''mint-T1'')) \<noteq> Some Pending
   \<and> (mr_completedAt (the (mint_run [sample_create, sample_complete] ''mint-T1'')) \<noteq> None)
       = terminal (mr_status (the (mint_run [sample_create, sample_complete] ''mint-T1'')))
   \<and> mc_mint_run [sample_mc_create, sample_mc_complete] ''mint-sepolia-T1'' \<noteq> None
   \<and> list_all mc_defined_update [sample_mc_create, sample_mc_complete]
   \<and> terminal (mcr_status (the (mc_mint_run [sample_mc_create, sample_mc_complete]
        ''mint-sepolia-T1'')))
   \<and> mcr_completedAt (the (mc_mint_run [sample_mc_create, sample_mc_complete] ''mint-sepolia-T1''))
       \<noteq> None
   \<and> (\<exists>new. updateMintRecord ''t2'' (mint_run [sample_create, sample_complete]) ''mint-T1''
              \<lparr>u_status = Some (Some FinalFailed), u_assets = None, u_error = None\<rparr>
            = Inr (new, (mint_run [sample_create, sample_complete])(''mint-T1'' \<mapsto> new))
          \<and> mr_status new = Some Failed \<and> mr_completedAt new = Some ''t2'')
   \<and> (\<exists>new. mc_updateMintRecord ''t2'' (mc_mint_run [sample_mc_create, sample_mc_complete])
              ''mint-sepolia-T1''
              \<lparr>u_status = Some (Some FinalFailed), u_assets = None, u_error = None\<rparr>
            = Inr (new, (mc_mint_run [sample_mc_create, sample_mc_complete])
                          (''mint-sepolia-T1'' \<mapsto> new))
          \<and> mcr_status new = Some Failed \<and> mcr_completedAt new = Some ''t2'')"
proof -
  have d: "list_all defined_update [sample_create, sample_complete]"
    "list_all mc_defined_update [sample_mc_create, sample_mc_complete]"
    by (simp_all add: defined_update_def mc_defined_update_def defined_status_def sample_defs)
  have t: "terminal (Some Completed)" by (simp add: terminal_def)
  from mint_record_lifecycle [of "[sample_create, sample_complete]" "''mint-T1''"
      "the (mint_run [sample_create, sample_complete] ''mint-T1'')"
      "[sample_mc_create, sample_mc_complete]" "''mint-sepolia-T1''"
      "the (mc_mint_run [sample_mc_create, sample_mc_complete] ''mint-sepolia-T1'')"
      "mint_run [sample_create, sample_complete]" "''mint-T1''"
      "the (mint_run [sample_create, sample_complete] ''mint-T1'')"
      "''t2''" "Some FinalFailed" None None
      "mc_mint_run [sample_mc_create, sample_mc_complete]" "''mint-sepolia-T1''"
      "the (mc_mint_run [sample_mc_create, sample_mc_complete] ''mint-sepolia-T1'')" None]
  show ?thesis using d t
    by (simp add: sample_run2 sample_mc_run2)
qed

text \<open>
  C9. \<open>createMintRecord\<close> has no check for an existing record: when the mint map already
  holds a record under the derived id, whatever its status, the call returns a fresh
  \<open>pending\<close> record and the map holds that record in place of the old one. Both services.
\<close>

theorem createMintRecord_replaces_existing:
  assumes "ms (''mint-'' @ transactionId) = Some old"
    and "mcs (''mint-'' @ chainId @ ''-'' @ transactionId) = Some mc_old"
  shows "(\<exists>rec. createMintRecord now ms basketId transactionId beneficiary amount as
             = (rec, ms(''mint-'' @ transactionId \<mapsto> rec))
           \<and> mr_id rec = ''mint-'' @ transactionId \<and> mr_status rec = Some Pending
           \<and> mr_completedAt rec = None \<and> mr_error rec = None \<and> mr_createdAt rec = now
           \<and> mr_basketId rec = basketId \<and> mr_beneficiary rec = beneficiary
           \<and> mr_amount rec = amount \<and> mr_assets rec = Some as)
       \<and> (\<exists>rec. mc_createMintRecord now mcs basketId chainId chainName transactionId beneficiary
               amount cas
             = (rec, mcs(''mint-'' @ chainId @ ''-'' @ transactionId \<mapsto> rec))
           \<and> mcr_id rec = ''mint-'' @ chainId @ ''-'' @ transactionId
           \<and> mcr_status rec = Some Pending
           \<and> mcr_completedAt rec = None \<and> mcr_error rec = None \<and> mcr_createdAt rec = now
           \<and> mcr_basketId rec = basketId \<and> mcr_beneficiary rec = beneficiary
           \<and> mcr_amount rec = amount \<and> mcr_assets rec = Some cas)"
  by (simp add: createMintRecord_def mc_createMintRecord_def Let_def)

theorem createMintRecord_replaces_existing_witness:
  "map_option mr_status (mint_run [sample_create, sample_complete] ''mint-T1'')
     = Some (Some Completed)
   \<and> map_option mcr_status (mc_mint_run [sample_mc_create, sample_mc_complete] ''mint-sepolia-T1'')
       = Some (Some Completed)
   \<and> (\<exists>rec. createMintRecord ''t3'' (mint_run [sample_create, sample_complete]) ''B'' ''T1''
               ''0x3333333333333333333333333333333333333333'' ''5'' []
             = (rec, (mint_run [sample_create, sample_complete])(''mint-T1'' \<mapsto> rec))
           \<and> mr_status rec = Some Pending \<and> mr_completedAt rec = None \<and> mr_createdAt rec = ''t3'')
   \<and> (\<exists>rec. mc_createMintRecord ''t3'' (mc_mint_run [sample_mc_create, sample_mc_complete]) ''B''
               ''sepolia'' ''Sepolia'' ''T1'' ''0x3333333333333333333333333333333333333333'' ''5'' []
             = (rec, (mc_mint_run [sample_mc_create, sample_mc_complete])
                        (''mint-sepolia-T1'' \<mapsto> rec))
           \<and> mcr_status rec = Some Pending \<and> mcr_completedAt rec = None
           \<and> mcr_createdAt rec = ''t3'')"
proof -
  have h1: "mint_run [sample_create, sample_complete] (''mint-'' @ ''T1'')
      = Some (the (mint_run [sample_create, sample_complete] ''mint-T1''))"
    by (simp add: sample_run2)
  have h2: "mc_mint_run [sample_mc_create, sample_mc_complete] (''mint-'' @ ''sepolia'' @ ''-'' @ ''T1'')
      = Some (the (mc_mint_run [sample_mc_create, sample_mc_complete] ''mint-sepolia-T1''))"
    by (simp add: sample_mc_run2)
  from createMintRecord_replaces_existing [where ms = "mint_run [sample_create, sample_complete]"
      and transactionId = "''T1''" and mcs = "mc_mint_run [sample_mc_create, sample_mc_complete]"
      and chainId = "''sepolia''" and now = "''t3''" and basketId = "''B''"
      and beneficiary = "''0x3333333333333333333333333333333333333333''" and amount = "''5''"
      and as = "[]" and chainName = "''Sepolia''" and cas = "[]", OF h1 h2]
  have c: "(\<exists>rec. createMintRecord ''t3'' (mint_run [sample_create, sample_complete]) ''B'' ''T1''
               ''0x3333333333333333333333333333333333333333'' ''5'' []
             = (rec, (mint_run [sample_create, sample_complete])(''mint-T1'' \<mapsto> rec))
           \<and> mr_status rec = Some Pending \<and> mr_completedAt rec = None \<and> mr_createdAt rec = ''t3'')
   \<and> (\<exists>rec. mc_createMintRecord ''t3'' (mc_mint_run [sample_mc_create, sample_mc_complete]) ''B''
               ''sepolia'' ''Sepolia'' ''T1'' ''0x3333333333333333333333333333333333333333'' ''5'' []
             = (rec, (mc_mint_run [sample_mc_create, sample_mc_complete])
                        (''mint-sepolia-T1'' \<mapsto> rec))
           \<and> mcr_status rec = Some Pending \<and> mcr_completedAt rec = None
           \<and> mcr_createdAt rec = ''t3'')"
    by simp blast
  have s: "map_option mr_status (mint_run [sample_create, sample_complete] ''mint-T1'')
      = Some (Some Completed)"
    "map_option mcr_status (mc_mint_run [sample_mc_create, sample_mc_complete] ''mint-sepolia-T1'')
       = Some (Some Completed)"
    by (simp_all add: sample_run2 sample_mc_run2)
  from c s show ?thesis by blast
qed

section \<open>The mint orchestrator\<close>

lemma triggerMint_request_pending:
  assumes "triggerMint_request t_create t_payload r ms transactionId request = Inr pm"
  shows "pm_mints pm (''mint-'' @ transactionId) = Some (pm_mintRecord pm)
       \<and> mr_id (pm_mintRecord pm) = ''mint-'' @ transactionId
       \<and> mr_status (pm_mintRecord pm) = Some Pending
       \<and> mr_completedAt (pm_mintRecord pm) = None
       \<and> mr_basketId (pm_mintRecord pm) = rq_basketId request
       \<and> mr_beneficiary (pm_mintRecord pm) = rq_beneficiary request
       \<and> mr_amount (pm_mintRecord pm) = rq_amount request
       \<and> mr_assets (pm_mintRecord pm) = Some (pm_mintedAssets pm)
       \<and> wp_transactionId (pm_payload pm) = transactionId"
  using assms
  by (auto simp: triggerMint_request_def createMintRecord_def buildWorkflowPayload_def Let_def
      split: option.splits sum.splits if_splits)

lemma triggerMint_request_accepts:
  assumes "baskets r (rq_basketId request) = Some b"
    and "filterAssets request (expand_loop (assets r) (parseFloat (rq_amount request)) (b_assets b)) \<noteq> []"
  shows "\<exists>pm. triggerMint_request t_create t_payload r ms transactionId request = Inr pm"
  using assms
  by (simp add: triggerMint_request_def expandBasket_def createMintRecord_def Let_def)

text \<open>
  C6. A mint request is accepted when its basket is registered and at least one expanded
  asset passes the filter. For every accepted request, the part of \<open>triggerMint\<close> that runs
  before the workflow is awaited leaves a \<open>pending\<close> record without completion timestamp
  in the mint state service, under the id derived from the transaction id; the workflow
  runs on the payload built after that, and its result is applied to that state.
\<close>

theorem pending_record_before_submission:
  assumes "baskets r (rq_basketId request) = Some b"
    and "filterAssets request (expand_loop (assets r) (parseFloat (rq_amount request)) (b_assets b)) \<noteq> []"
  shows "\<exists>pm. triggerMint_request t_create t_payload r ms transactionId request = Inr pm
           \<and> getMintRecord (pm_mints pm) (''mint-'' @ transactionId) = Some (pm_mintRecord pm)
           \<and> mr_status (pm_mintRecord pm) = Some Pending
           \<and> mr_completedAt (pm_mintRecord pm) = None
           \<and> mr_basketId (pm_mintRecord pm) = rq_basketId request
           \<and> mr_amount (pm_mintRecord pm) = rq_amount request
           \<and> triggerMint t_create t_payload t_sim t_done r ms transactionId request
               = triggerMint_resolve t_done transactionId (pm_mints pm) pm
                   (runCRESimulation t_sim (pm_payload pm))"
proof -
  obtain pm where pm: "triggerMint_request t_create t_payload r ms transactionId request = Inr pm"
    using triggerMint_request_accepts [OF assms] by blast
  have "triggerMint t_create t_payload t_sim t_done r ms transactionId request
      = triggerMint_resolve t_done transactionId (pm_mints pm) pm
          (runCRESimulation t_sim (pm_payload pm))"
    using pm by (simp add: triggerMint_def)
  with pm triggerMint_request_pending [OF pm] show ?thesis
    by (auto simp: getMintRecord_def)
qed


lemma parseFloat_1000: "parseFloat ''1000'' = Fin 1000"
  by (simp add: num_eval parse_eval)

lemma amount_600: "number_toString (proportionalAmount (Fin 1000) (Fin 60)) = ''600''"
  by (simp add: proportionalAmount_def num_eval str_eval)

lemma amount_400: "number_toString (proportionalAmount (Fin 1000) (Fin 40)) = ''400''"
  by (simp add: proportionalAmount_def num_eval str_eval)

theorem pending_record_before_submission_witness:
  "baskets (sample_registry [usd, gold] [sample_basket ''B'' [entry ''USD'' 60, entry ''GOLD'' 40]])
      (rq_basketId (sample_request ''B'' ''1000''))
     = Some (sample_basket ''B'' [entry ''USD'' 60, entry ''GOLD'' 40])
   \<and> filterAssets (sample_request ''B'' ''1000'')
        (expand_loop
           (assets (sample_registry [usd, gold] [sample_basket ''B'' [entry ''USD'' 60, entry ''GOLD'' 40]]))
           (parseFloat (rq_amount (sample_request ''B'' ''1000'')))
           (b_assets (sample_basket ''B'' [entry ''USD'' 60, entry ''GOLD'' 40]))) \<noteq> []
   \<and> (\<exists>pm. triggerMint_request ''t0'' ''t1''
              (sample_registry [usd, gold] [sample_basket ''B'' [entry ''USD'' 60, entry ''GOLD'' 40]])
              Map.empty ''T1'' (sample_request ''B'' ''1000'') = Inr pm
          \<and> getMintRecord (pm_mints pm) ''mint-T1'' = Some (pm_mintRecord pm)
          \<and> mr_status (pm_mintRecord pm) = Some Pending
          \<and> mr_completedAt (pm_mintRecord pm) = None
          \<and> mr_amount (pm_mintRecord pm) = ''1000'')"
proof -
  let ?b = "sample_basket ''B'' [entry ''USD'' 60, entry ''GOLD'' 40]"
  let ?r = "sample_registry [usd, gold] [?b]"
  let ?q = "sample_request ''B'' ''1000''"
  have h1: "baskets ?r (rq_basketId ?q) = Some ?b"
    by (simp add: sample_defs)
  have "length (expand_loop (assets ?r) (parseFloat (rq_amount ?q)) (b_assets ?b)) = 2"
    by (simp add: length_expand_loop sample_defs)
  then have h2: "filterAssets ?q (expand_loop (assets ?r) (parseFloat (rq_amount ?q)) (b_assets ?b)) \<noteq> []"
    by (auto simp: filterAssets_def sample_request_def)
  have a: "rq_amount ?q = ''1000''" "''mint-'' @ ''T1'' = ''mint-T1''"
    by (simp_all add: sample_request_def)
  from pending_record_before_submission [OF h1 h2, of "''t0''" "''t1''" Map.empty "''T1''" "''t2''" "''t3''"]
  have "\<exists>pm. triggerMint_request ''t0'' ''t1'' ?r Map.empty ''T1'' ?q = Inr pm
          \<and> getMintRecord (pm_mints pm) ''mint-T1'' = Some (pm_mintRecord pm)
          \<and> mr_status (pm_mintRecord pm) = Some Pending
          \<and> mr_completedAt (pm_mintRecord pm) = None
          \<and> mr_amount (pm_mintRecord pm) = ''1000''"
    unfolding a by blast
  with h1 h2 show ?thesis by blast
qed

section \<open>Chain sets of multi-chain assets and baskets\<close>

lemma keys_insert_property:
  "set (object_keys (insert_property k v obj)) = insert k (set (object_keys obj))"
proof (induction obj)
  case Nil
  show ?case by (simp add: object_keys_def)
next
  case (Cons p obj)
  obtain j w where p: "p = (j, w)" by (cases p)
  have "object_keys ((j, w) # obj) = j # object_keys obj"
    by (simp add: object_keys_def)
  moreover have "object_keys ((k, v) # (j, w) # obj) = k # j # object_keys obj"
    by (simp add: object_keys_def)
  moreover have "object_keys ((j, w) # insert_property k v obj) = j # object_keys (insert_property k v obj)"
    by (simp add: object_keys_def)
  ultimately show ?case using Cons p by auto
qed

lemma keys_update:
  "object_keys (map (\<lambda>(j, w). if j = k then (j, v) else (j, w)) obj) = object_keys obj"
  by (induction obj) (auto simp: object_keys_def)

lemma distinct_insert_property:
  "k \<notin> set (object_keys obj) \<Longrightarrow> distinct (object_keys obj)
     \<Longrightarrow> distinct (object_keys (insert_property k v obj))"
proof (induction obj)
  case Nil
  then show ?case by (simp add: object_keys_def)
next
  case (Cons p obj)
  obtain j w where p: "p = (j, w)" by (cases p)
  have "set (object_keys (insert_property k v obj)) = insert k (set (object_keys obj))"
    by (rule keys_insert_property)
  moreover have "object_keys ((j, w) # obj) = j # object_keys obj"
    by (simp add: object_keys_def)
  moreover have "object_keys ((k, v) # (j, w) # obj) = k # j # object_keys obj"
    by (simp add: object_keys_def)
  moreover have "object_keys ((j, w) # insert_property k v obj) = j # object_keys (insert_property k v obj)"
    by (simp add: object_keys_def)
  ultimately show ?case using Cons p by auto
qed

lemma map_of_keys: "map_of obj k \<noteq> None \<longleftrightarrow> k \<in> set (object_keys obj)"
  by (simp add: object_keys_def map_of_eq_None_iff)

lemma keys_set_property:
  "set (object_keys (set_property k v obj)) = insert k (set (object_keys obj))"
  using map_of_keys [of obj k]
  by (auto simp: set_property_def keys_update keys_insert_property)

lemma distinct_set_property:
  "distinct (object_keys obj) \<Longrightarrow> distinct (object_keys (set_property k v obj))"
  using map_of_keys [of obj k]
  by (auto simp: set_property_def keys_update distinct_insert_property)

lemma keys_delete_property:
  "object_keys (delete_property k obj) = filter (\<lambda>c. c \<noteq> k) (object_keys obj)"
  by (induction obj) (auto simp: object_keys_def delete_property_def)

lemma first_element_filter:
  assumes "distinct xs" and "length xs \<noteq> 1" and "k \<in> set xs"
  shows "\<exists>c. first_element (filter (\<lambda>c. c \<noteq> k) xs) = Some c \<and> c \<in> set xs \<and> c \<noteq> k"
proof -
  have "filter (\<lambda>c. c \<noteq> k) xs \<noteq> []"
  proof
    assume "filter (\<lambda>c. c \<noteq> k) xs = []"
    then have "set xs \<subseteq> {k}" by (auto simp: filter_empty_conv)
    with assms(3) have "set xs = {k}" by auto
    with assms(1) have "length xs = 1"
      using distinct_card [of xs] by simp
    with assms(2) show False by simp
  qed
  then obtain c cs where c: "filter (\<lambda>c. c \<noteq> k) xs = c # cs"
    by (cases "filter (\<lambda>c. c \<noteq> k) xs") auto
  then have "c \<in> set (filter (\<lambda>c. c \<noteq> k) xs)" by simp
  then have "c \<in> set xs" "c \<noteq> k" by simp_all
  then show ?thesis using c by (simp add: first_element_def)
qed

lemma registerMultiChainAsset_Inr:
  assumes "registerMultiChainAsset now r a = Inr p"
  shows "p = (a\<lparr>mca_createdAt := now, mca_updatedAt := now\<rparr>,
              r\<lparr>ar_assets := (ar_assets r)(mca_id a \<mapsto> a\<lparr>mca_createdAt := now, mca_updatedAt := now\<rparr>)\<rparr>)
         \<and> ar_assets r (mca_id a) = None
         \<and> object_keys (chains_of r a) \<noteq> []
         \<and> truthy_member (chains_of r a) (undefined_toString (mca_defaultChain a))"
  using assms by (simp add: registerMultiChainAsset_def Let_def split: if_splits)

lemma addAssetToChain_Inr:
  assumes "addAssetToChain now r assetId chainId chainAsset = Inr p"
  shows "\<exists>a. ar_assets r assetId = Some a \<and> \<not> truthy_member (chains_of r a) chainId
     \<and> p = (a\<lparr>mca_updatedAt := now\<rparr>,
             r\<lparr>ar_objects := (ar_objects r)
                  (mca_chains a := set_property chainId chainAsset (chains_of r a)),
               ar_assets := (ar_assets r)(assetId \<mapsto> a\<lparr>mca_updatedAt := now\<rparr>)\<rparr>)"
  using assms by (simp add: addAssetToChain_def Let_def split: option.splits if_splits)

lemma removeAssetFromChain_Inr:
  assumes "removeAssetFromChain now r assetId chainId = Inr p"
  shows "\<exists>a. ar_assets r assetId = Some a \<and> length (object_keys (chains_of r a)) \<noteq> 1
     \<and> truthy_member (chains_of r a) chainId
     \<and> p = (a\<lparr>mca_defaultChain :=
                  removed_default (mca_defaultChain a) (object_keys (chains_of r a)) chainId,
                mca_updatedAt := now\<rparr>,
             r\<lparr>ar_objects := (ar_objects r)
                  (mca_chains a := delete_property chainId (chains_of r a)),
               ar_assets := (ar_assets r)(assetId \<mapsto> a\<lparr>mca_defaultChain :=
                  removed_default (mca_defaultChain a) (object_keys (chains_of r a)) chainId,
                mca_updatedAt := now\<rparr>)\<rparr>)"
proof (cases "ar_assets r assetId")
  case None
  then show ?thesis using assms by (simp add: removeAssetFromChain_def)
next
  case (Some a)
  then show ?thesis using assms
    by (simp add: removeAssetFromChain_def Let_def removed_default_def split: if_splits)
qed

lemma asset_chains_ok_register:
  assumes "plain_registration (RegisterAsset now a)"
    and "object_keys (chains_of r a) \<noteq> []"
    and "truthy_member (chains_of r a) (undefined_toString (mca_defaultChain a))"
    and "chains_of r' a' = chains_of r a" and "mca_defaultChain a' = mca_defaultChain a"
  shows "asset_chains_ok r' a'"
proof -
  obtain d where d: "mca_defaultChain a = Some d" "d \<notin> set object_prototype_members"
    using assms(1) by (auto simp: plain_registration_def split: option.splits)
  with assms(3) have "map_of (chains_of r a) d \<noteq> None"
    by (simp add: truthy_member_def undefined_toString_def)
  then have "d \<in> set (object_keys (chains_of r a))"
    using map_of_keys [of "chains_of r a" d] by blast
  then show ?thesis using assms(2,4,5) d
    by (simp add: asset_chains_ok_def array_includes_def)
qed

lemma removed_default_ok:
  assumes "distinct cs" and "length cs \<noteq> 1" and "array_includes cs d"
  shows "array_includes (filter (\<lambda>c. c \<noteq> k) cs) (removed_default d cs k)"
proof -
  obtain x where x: "d = Some x" "x \<in> set cs"
    using assms(3) by (auto simp: array_includes_def split: option.splits)
  show ?thesis
  proof (cases "x = k")
    case True
    with x have "k \<in> set cs" by simp
    from first_element_filter [OF assms(1,2) this]
    obtain c where "first_element (filter (\<lambda>c. c \<noteq> k) cs) = Some c" "c \<in> set cs" "c \<noteq> k"
      by blast
    then show ?thesis using True x
      by (simp add: removed_default_def array_includes_def)
  next
    case False
    then show ?thesis using x
      by (simp add: removed_default_def array_includes_def)
  qed
qed

lemma array_includes_nonempty: "array_includes cs d \<Longrightarrow> cs \<noteq> []"
  by (auto simp: array_includes_def split: option.splits)

lemma map_upd_all:
  assumes "\<forall>i a. m i = Some a \<longrightarrow> P a" and "P v"
  shows "\<forall>i a. (m(k \<mapsto> v)) i = Some a \<longrightarrow> P a"
  using assms by auto

text \<open>
  The state of the asset registry in a history whose registrations bring dictionaries of
  their own: no object has a key twice, every asset has a non-empty chain set that holds
  its default chain, its dictionary is one of those brought so far (\<open>R\<close>), and no two
  assets hold the same dictionary.
\<close>

lemma in_place_update_inv:
  assumes d: "\<forall>x. distinct (object_keys (ar_objects r x))"
    and ok: "\<forall>i b. ar_assets r i = Some b \<longrightarrow> asset_chains_ok r b \<and> mca_chains b \<in> R"
    and inj: "\<forall>i j b c. ar_assets r i = Some b \<longrightarrow> ar_assets r j = Some c
                \<longrightarrow> mca_chains b = mca_chains c \<longrightarrow> i = j"
    and a: "ar_assets r k = Some a"
    and ref: "mca_chains a' = mca_chains a"
    and dobj: "distinct (object_keys obj)"
    and okobj: "array_includes (object_keys obj) (mca_defaultChain a')"
    and r': "r' = r\<lparr>ar_objects := (ar_objects r)(mca_chains a := obj),
                     ar_assets := (ar_assets r)(k \<mapsto> a')\<rparr>"
  shows "(\<forall>x. distinct (object_keys (ar_objects r' x)))
       \<and> (\<forall>i b. ar_assets r' i = Some b \<longrightarrow> asset_chains_ok r' b \<and> mca_chains b \<in> R)
       \<and> (\<forall>i j b c. ar_assets r' i = Some b \<longrightarrow> ar_assets r' j = Some c
                \<longrightarrow> mca_chains b = mca_chains c \<longrightarrow> i = j)"
proof -
  have 1: "\<forall>x. distinct (object_keys (ar_objects r' x))"
    using d dobj by (simp add: r')
  have old: "\<exists>b0. ar_assets r i = Some b0 \<and> mca_chains b0 = mca_chains b"
    if "ar_assets r' i = Some b" for i b
    using that a ref by (cases "i = k") (simp_all add: r')
  have 2: "asset_chains_ok r' b \<and> mca_chains b \<in> R" if b: "ar_assets r' i = Some b" for i b
  proof (cases "i = k")
    case True
    then have "b = a'" using b by (simp add: r')
    moreover have "chains_of r' a' = obj" by (simp add: chains_of_def r' ref)
    moreover have "mca_chains a \<in> R" using ok a by blast
    ultimately show ?thesis
      using okobj array_includes_nonempty [OF okobj] ref by (simp add: asset_chains_ok_def)
  next
    case False
    then have b0: "ar_assets r i = Some b" using b by (simp add: r')
    have "mca_chains b \<noteq> mca_chains a"
      using inj b0 a False by blast
    then have "chains_of r' b = chains_of r b" by (simp add: chains_of_def r')
    then show ?thesis using ok b0 by (simp add: asset_chains_ok_def)
  qed
  have 3: "i = j"
    if hb: "ar_assets r' i = Some b" and hc: "ar_assets r' j = Some c"
      and e: "mca_chains b = mca_chains c"
    for i j b c
  proof -
    obtain b0 c0 where "ar_assets r i = Some b0" "mca_chains b0 = mca_chains b"
      "ar_assets r j = Some c0" "mca_chains c0 = mca_chains c"
      using old [OF hb] old [OF hc] by blast
    then show ?thesis using inj e by metis
  qed
  show ?thesis using 1 2 3 by blast
qed

lemma mc_asset_step_inv:
  assumes d: "\<forall>x. distinct (object_keys (ar_objects r x))"
    and ok: "\<forall>i b. ar_assets r i = Some b \<longrightarrow> asset_chains_ok r b \<and> mca_chains b \<in> R"
    and inj: "\<forall>i j b c. ar_assets r i = Some b \<longrightarrow> ar_assets r j = Some c
                \<longrightarrow> mca_chains b = mca_chains c \<longrightarrow> i = j"
    and plain: "plain_registration op"
    and fresh: "set (registered_object op) \<inter> R = {}"
  shows "(\<forall>x. distinct (object_keys (ar_objects (mc_asset_step r op) x)))
       \<and> (\<forall>i b. ar_assets (mc_asset_step r op) i = Some b
             \<longrightarrow> asset_chains_ok (mc_asset_step r op) b
                 \<and> mca_chains b \<in> R \<union> set (registered_object op))
       \<and> (\<forall>i j b c. ar_assets (mc_asset_step r op) i = Some b
             \<longrightarrow> ar_assets (mc_asset_step r op) j = Some c
             \<longrightarrow> mca_chains b = mca_chains c \<longrightarrow> i = j)"
proof (cases op)
  case (RegisterAsset now a)
  show ?thesis
  proof (cases "registerMultiChainAsset now r a")
    case (Inl e)
    then show ?thesis using d ok inj RegisterAsset by simp
  next
    case (Inr p)
    note reg = registerMultiChainAsset_Inr [OF Inr]
    let ?a' = "a\<lparr>mca_createdAt := now, mca_updatedAt := now\<rparr>"
    let ?r' = "r\<lparr>ar_assets := (ar_assets r)(mca_id a \<mapsto> ?a')\<rparr>"
    have step: "mc_asset_step r op = ?r'" using RegisterAsset Inr reg by simp
    have same: "chains_of ?r' b = chains_of r b" for b by (simp add: chains_of_def)
    have new: "asset_chains_ok ?r' ?a'"
      using asset_chains_ok_register [of now a r ?r' ?a'] plain RegisterAsset reg
      by (simp add: chains_of_def)
    have notin: "mca_chains a \<notin> R" using fresh RegisterAsset by simp
    have 1: "\<forall>x. distinct (object_keys (ar_objects ?r' x))" using d by simp
    have 2: "asset_chains_ok ?r' b \<and> mca_chains b \<in> R \<union> set (registered_object op)"
      if "ar_assets ?r' i = Some b" for i b
    proof (cases "i = mca_id a")
      case True
      then have "b = ?a'" using that by simp
      then show ?thesis using new RegisterAsset by simp
    next
      case False
      then have "ar_assets r i = Some b" using that by simp
      then show ?thesis using ok same by (simp add: asset_chains_ok_def)
    qed
    have 3: "i = j"
      if b: "ar_assets ?r' i = Some b" and c: "ar_assets ?r' j = Some c"
        and e: "mca_chains b = mca_chains c" for i j b c
    proof (cases "i = mca_id a")
      case True
      then have bb: "mca_chains b = mca_chains a" using b by auto
      show ?thesis
      proof (cases "j = mca_id a")
        case True
        with \<open>i = mca_id a\<close> show ?thesis by simp
      next
        case False
        then have "ar_assets r j = Some c" using c by simp
        then have "mca_chains c \<in> R" using ok by blast
        with bb e notin show ?thesis by simp
      qed
    next
      case False
      then have b0: "ar_assets r i = Some b" using b by simp
      then have bR: "mca_chains b \<in> R" using ok by blast
      show ?thesis
      proof (cases "j = mca_id a")
        case True
        then have "mca_chains c = mca_chains a" using c by auto
        with bR e notin show ?thesis by simp
      next
        case False
        then have "ar_assets r j = Some c" using c by simp
        with b0 e inj show ?thesis by blast
      qed
    qed
    show ?thesis unfolding step using 1 2 3 by blast
  qed
next
  case (AddAssetChain now assetId chainId chainAsset)
  show ?thesis
  proof (cases "addAssetToChain now r assetId chainId chainAsset")
    case (Inl e)
    then show ?thesis using d ok inj AddAssetChain by simp
  next
    case (Inr p)
    from addAssetToChain_Inr [OF Inr] obtain a where a: "ar_assets r assetId = Some a"
      and p: "p = (a\<lparr>mca_updatedAt := now\<rparr>,
             r\<lparr>ar_objects := (ar_objects r)
                  (mca_chains a := set_property chainId chainAsset (chains_of r a)),
               ar_assets := (ar_assets r)(assetId \<mapsto> a\<lparr>mca_updatedAt := now\<rparr>)\<rparr>)"
      by blast
    let ?obj = "set_property chainId chainAsset (chains_of r a)"
    let ?a' = "a\<lparr>mca_updatedAt := now\<rparr>"
    have step: "mc_asset_step r op
        = r\<lparr>ar_objects := (ar_objects r)(mca_chains a := ?obj),
             ar_assets := (ar_assets r)(assetId \<mapsto> ?a')\<rparr>"
      using AddAssetChain Inr p by simp
    have oka: "asset_chains_ok r a" using ok a by blast
    have dobj: "distinct (object_keys ?obj)"
      using d by (simp add: distinct_set_property chains_of_def)
    have okobj: "array_includes (object_keys ?obj) (mca_defaultChain ?a')"
      using oka keys_set_property [of chainId chainAsset "chains_of r a"]
      by (auto simp: asset_chains_ok_def array_includes_def split: option.splits)
    have "mca_chains ?a' = mca_chains a" by simp
    from in_place_update_inv [OF d ok inj a this dobj okobj step]
    show ?thesis using AddAssetChain by simp
  qed
next
  case (RemoveAssetChain now assetId chainId)
  show ?thesis
  proof (cases "removeAssetFromChain now r assetId chainId")
    case (Inl e)
    then show ?thesis using d ok inj RemoveAssetChain by simp
  next
    case (Inr p)
    let ?a' = "\<lambda>a. a\<lparr>mca_defaultChain :=
                  removed_default (mca_defaultChain a) (object_keys (chains_of r a)) chainId,
                mca_updatedAt := now\<rparr>"
    from removeAssetFromChain_Inr [OF Inr] obtain a where a: "ar_assets r assetId = Some a"
      and len: "length (object_keys (chains_of r a)) \<noteq> 1"
      and p: "p = (?a' a,
             r\<lparr>ar_objects := (ar_objects r)
                  (mca_chains a := delete_property chainId (chains_of r a)),
               ar_assets := (ar_assets r)(assetId \<mapsto> ?a' a)\<rparr>)"
      by blast
    let ?obj = "delete_property chainId (chains_of r a)"
    have step: "mc_asset_step r op
        = r\<lparr>ar_objects := (ar_objects r)(mca_chains a := ?obj),
             ar_assets := (ar_assets r)(assetId \<mapsto> ?a' a)\<rparr>"
      using RemoveAssetChain Inr p by simp
    have oka: "asset_chains_ok r a" using ok a by blast
    have da: "distinct (object_keys (chains_of r a))" using d by (simp add: chains_of_def)
    have dobj: "distinct (object_keys ?obj)"
      using da by (simp add: keys_delete_property)
    have okobj: "array_includes (object_keys ?obj) (mca_defaultChain (?a' a))"
      using removed_default_ok [OF da len] oka
      by (simp add: asset_chains_ok_def keys_delete_property)
    have "mca_chains (?a' a) = mca_chains a" by simp
    from in_place_update_inv [OF d ok inj a this dobj okobj step]
    show ?thesis using RemoveAssetChain by simp
  qed
qed

lemma mc_asset_run_inv:
  assumes "list_all plain_registration ops" and "unshared_objects ops"
    and "\<forall>x. distinct (object_keys (objects x))"
  shows "(\<forall>x. distinct (object_keys (ar_objects (mc_asset_run objects ops) x)))
       \<and> (\<forall>i b. ar_assets (mc_asset_run objects ops) i = Some b
             \<longrightarrow> asset_chains_ok (mc_asset_run objects ops) b
                 \<and> mca_chains b \<in> set (concat (map registered_object ops)))
       \<and> (\<forall>i j b c. ar_assets (mc_asset_run objects ops) i = Some b
             \<longrightarrow> ar_assets (mc_asset_run objects ops) j = Some c
             \<longrightarrow> mca_chains b = mca_chains c \<longrightarrow> i = j)"
  using assms(1,2)
proof (induction ops rule: rev_induct)
  case Nil
  show ?case using assms(3) by (simp add: mc_asset_run_def)
next
  case (snoc op ops)
  then have plain: "plain_registration op" and rest: "list_all plain_registration ops"
    by simp_all
  have un: "unshared_objects ops"
    and fresh: "set (registered_object op) \<inter> set (concat (map registered_object ops)) = {}"
    using snoc.prems(2) by (auto simp: unshared_objects_def)
  note IH = snoc.IH [OF rest un]
  have eq: "mc_asset_run objects (ops @ [op]) = mc_asset_step (mc_asset_run objects ops) op"
    by (simp add: mc_asset_run_def)
  have R: "set (concat (map registered_object (ops @ [op])))
      = set (concat (map registered_object ops)) \<union> set (registered_object op)"
    by simp
  from IH have d: "\<forall>x. distinct (object_keys (ar_objects (mc_asset_run objects ops) x))"
    and ok: "\<forall>i b. ar_assets (mc_asset_run objects ops) i = Some b
             \<longrightarrow> asset_chains_ok (mc_asset_run objects ops) b
                 \<and> mca_chains b \<in> set (concat (map registered_object ops))"
    and inj: "\<forall>i j b c. ar_assets (mc_asset_run objects ops) i = Some b
             \<longrightarrow> ar_assets (mc_asset_run objects ops) j = Some c
             \<longrightarrow> mca_chains b = mca_chains c \<longrightarrow> i = j"
    by blast+
  show ?case unfolding eq R by (rule mc_asset_step_inv [OF d ok inj plain fresh])
qed

text \<open>
  Where the claim of C3 does hold: in every history of the asset registry whose
  registrations are plain and bring each a chain dictionary of its own, every asset keeps
  a non-empty chain set that holds its default chain; and likewise for baskets, in every
  history whose creations list no supported chain twice.
\<close>

lemma mc_asset_run_chains_ok:
  assumes "list_all plain_registration ops" and "unshared_objects ops"
    and "\<forall>x. distinct (object_keys (objects x))"
  shows "\<forall>i a. ar_assets (mc_asset_run objects ops) i = Some a
           \<longrightarrow> asset_chains_ok (mc_asset_run objects ops) a"
  using mc_asset_run_inv [OF assms] by blast

lemma mc_createBasket_Inr:
  assumes "mc_createBasket now bs b = Inr p"
  shows "p = (b\<lparr>mcb_createdAt := now, mcb_updatedAt := now\<rparr>,
              bs(mcb_id b \<mapsto> b\<lparr>mcb_createdAt := now, mcb_updatedAt := now\<rparr>))
         \<and> mcb_supportedChains b \<noteq> []
         \<and> array_includes (mcb_supportedChains b) (mcb_defaultChain b)
         \<and> mc_totalWeight (mcb_assets b) = Fin 100"
  using assms by (simp add: mc_createBasket_def Let_def split: if_splits)

lemma addChainToBasket_Inr:
  assumes "addChainToBasket now bs basketId chainId = Inr p"
  shows "\<exists>b. bs basketId = Some b \<and> chainId \<notin> set (mcb_supportedChains b)
     \<and> p = (b\<lparr>mcb_supportedChains := mcb_supportedChains b @ [chainId], mcb_updatedAt := now\<rparr>,
             bs(basketId \<mapsto> b\<lparr>mcb_supportedChains := mcb_supportedChains b @ [chainId],
                                 mcb_updatedAt := now\<rparr>))"
  using assms
  by (simp add: addChainToBasket_def Let_def array_includes_def split: option.splits if_splits)

lemma removeChainFromBasket_Inr:
  assumes "removeChainFromBasket now bs basketId chainId = Inr p"
  shows "\<exists>b. bs basketId = Some b \<and> length (mcb_supportedChains b) \<noteq> 1
     \<and> chainId \<in> set (mcb_supportedChains b)
     \<and> p = (b\<lparr>mcb_defaultChain :=
                  removed_default (mcb_defaultChain b) (mcb_supportedChains b) chainId,
                mcb_supportedChains := filter (\<lambda>c. c \<noteq> chainId) (mcb_supportedChains b),
                mcb_updatedAt := now\<rparr>,
             bs(basketId \<mapsto> b\<lparr>mcb_defaultChain :=
                  removed_default (mcb_defaultChain b) (mcb_supportedChains b) chainId,
                mcb_supportedChains := filter (\<lambda>c. c \<noteq> chainId) (mcb_supportedChains b),
                mcb_updatedAt := now\<rparr>))"
proof (cases "bs basketId")
  case None
  then show ?thesis using assms by (simp add: removeChainFromBasket_def)
next
  case (Some b)
  then show ?thesis using assms
    by (simp add: removeChainFromBasket_def Let_def array_includes_def split: if_splits)
qed

lemma mc_basket_step_inv:
  assumes inv: "\<forall>i b. bs i = Some b \<longrightarrow> basket_chains_ok b \<and> distinct (mcb_supportedChains b)"
    and ok: "distinct_creation op"
  shows "\<forall>i b. mc_basket_step bs op i = Some b
           \<longrightarrow> basket_chains_ok b \<and> distinct (mcb_supportedChains b)"
proof (cases op)
  case (CreateBasket now b)
  show ?thesis
  proof (cases "mc_createBasket now bs b")
    case (Inl e)
    then show ?thesis using inv CreateBasket by simp
  next
    case (Inr p)
    note r = mc_createBasket_Inr [OF Inr]
    have "basket_chains_ok (b\<lparr>mcb_createdAt := now, mcb_updatedAt := now\<rparr>)"
      using r by (simp add: basket_chains_ok_def)
    moreover have "distinct (mcb_supportedChains (b\<lparr>mcb_createdAt := now, mcb_updatedAt := now\<rparr>))"
      using ok CreateBasket by (simp add: distinct_creation_def)
    ultimately have "\<forall>i x. (bs(mcb_id b \<mapsto> b\<lparr>mcb_createdAt := now, mcb_updatedAt := now\<rparr>)) i = Some x
        \<longrightarrow> basket_chains_ok x \<and> distinct (mcb_supportedChains x)"
      using map_upd_all [OF inv] by blast
    moreover have "mc_basket_step bs op = bs(mcb_id b \<mapsto> b\<lparr>mcb_createdAt := now, mcb_updatedAt := now\<rparr>)"
      using CreateBasket Inr r by simp
    ultimately show ?thesis by simp
  qed
next
  case (AddBasketChain now basketId chainId)
  show ?thesis
  proof (cases "addChainToBasket now bs basketId chainId")
    case (Inl e)
    then show ?thesis using inv AddBasketChain by simp
  next
    case (Inr p)
    let ?b' = "\<lambda>b. b\<lparr>mcb_supportedChains := mcb_supportedChains b @ [chainId], mcb_updatedAt := now\<rparr>"
    from addChainToBasket_Inr [OF Inr] obtain b where b: "bs basketId = Some b"
      and new: "chainId \<notin> set (mcb_supportedChains b)"
      and p: "p = (?b' b, bs(basketId \<mapsto> ?b' b))"
      by blast
    from b inv have ib: "basket_chains_ok b" "distinct (mcb_supportedChains b)" by blast+
    have "basket_chains_ok (?b' b)"
      using ib(1) by (auto simp: basket_chains_ok_def array_includes_def split: option.splits)
    moreover have "distinct (mcb_supportedChains (?b' b))"
      using ib(2) new by simp
    ultimately have "\<forall>i x. (bs(basketId \<mapsto> ?b' b)) i = Some x
        \<longrightarrow> basket_chains_ok x \<and> distinct (mcb_supportedChains x)"
      using map_upd_all [OF inv] by blast
    moreover have "mc_basket_step bs op = bs(basketId \<mapsto> ?b' b)"
      using AddBasketChain Inr p by simp
    ultimately show ?thesis by simp
  qed
next
  case (RemoveBasketChain now basketId chainId)
  show ?thesis
  proof (cases "removeChainFromBasket now bs basketId chainId")
    case (Inl e)
    then show ?thesis using inv RemoveBasketChain by simp
  next
    case (Inr p)
    let ?b' = "\<lambda>b. b\<lparr>mcb_defaultChain :=
                  removed_default (mcb_defaultChain b) (mcb_supportedChains b) chainId,
                mcb_supportedChains := filter (\<lambda>c. c \<noteq> chainId) (mcb_supportedChains b),
                mcb_updatedAt := now\<rparr>"
    from removeChainFromBasket_Inr [OF Inr] obtain b where b: "bs basketId = Some b"
      and len: "length (mcb_supportedChains b) \<noteq> 1"
      and p: "p = (?b' b, bs(basketId \<mapsto> ?b' b))"
      by blast
    from b inv have ib: "basket_chains_ok b" "distinct (mcb_supportedChains b)" by blast+
    have inc: "array_includes (filter (\<lambda>c. c \<noteq> chainId) (mcb_supportedChains b))
        (removed_default (mcb_defaultChain b) (mcb_supportedChains b) chainId)"
      using removed_default_ok [OF ib(2) len] ib(1) by (simp add: basket_chains_ok_def)
    then have "basket_chains_ok (?b' b)"
      using array_includes_nonempty [OF inc] by (simp add: basket_chains_ok_def)
    moreover have "distinct (mcb_supportedChains (?b' b))"
      using ib(2) by simp
    ultimately have "\<forall>i x. (bs(basketId \<mapsto> ?b' b)) i = Some x
        \<longrightarrow> basket_chains_ok x \<and> distinct (mcb_supportedChains x)"
      using map_upd_all [OF inv] by blast
    moreover have "mc_basket_step bs op = bs(basketId \<mapsto> ?b' b)"
      using RemoveBasketChain Inr p by simp
    ultimately show ?thesis by simp
  qed
qed

lemma mc_basket_run_chains_ok:
  assumes "list_all distinct_creation ops"
  shows "\<forall>i b. mc_basket_run ops i = Some b
           \<longrightarrow> basket_chains_ok b \<and> distinct (mcb_supportedChains b)"
  using assms
proof (induction ops rule: rev_induct)
  case Nil
  show ?case by (simp add: mc_basket_run_def)
next
  case (snoc op ops)
  then have ok: "distinct_creation op" and rest: "list_all distinct_creation ops"
    by simp_all
  have eq: "mc_basket_run (ops @ [op]) = mc_basket_step (mc_basket_run ops) op"
    by (simp add: mc_basket_run_def)
  show ?case unfolding eq by (rule mc_basket_step_inv [OF snoc.IH [OF rest] ok])
qed


lemma mc_weight_100: "mc_totalWeight [\<lparr>cba_assetId = i, cba_weight = Fin 100, cba_proportion = p,
    cba_chainId = c\<rparr>] = Fin 100"
  by (simp add: mc_totalWeight_def num_eval)

text \<open>
  C3. The code of the failing input: a basket created with the supported chains
  \<open>A, A\<close> and the default chain \<open>A\<close> passes every check of \<open>createBasket\<close>; removing
  chain \<open>A\<close> passes the only-chain check, since the list has two elements, and leaves
  the basket with no supported chain and an undefined default chain.
\<close>

theorem duplicate_chain_removal_empties_basket:
  "map_option mcb_supportedChains
      (mc_basket_run [CreateBasket ''t0'' (sample_mc_basket [''A'', ''A''] ''A'')] ''B'')
     = Some [''A'', ''A'']
   \<and> map_option mcb_supportedChains
      (mc_basket_run [CreateBasket ''t0'' (sample_mc_basket [''A'', ''A''] ''A''),
                      RemoveBasketChain ''t1'' ''B'' ''A''] ''B'')
     = Some []
   \<and> map_option mcb_defaultChain
      (mc_basket_run [CreateBasket ''t0'' (sample_mc_basket [''A'', ''A''] ''A''),
                      RemoveBasketChain ''t1'' ''B'' ''A''] ''B'')
     = Some None"
  by (simp add: mc_basket_run_def mc_createBasket_def removeChainFromBasket_def sample_defs
      mc_weight_100 array_includes_def removed_default_def first_element_def Let_def)

text \<open>
  A registration can also name a default chain that is no key of the chain dictionary:
  \<open>asset.chains[asset.defaultChain]\<close> finds the members that the dictionary inherits.
\<close>

lemma inherited_member_as_default_chain:
  "map_option (\<lambda>a. (object_keys (chains_of
        (mc_asset_run (sample_objects [''ethereum''])
           [RegisterAsset ''t0'' (sample_mc_asset ''USD'' 0 ''toString'')]) a),
      mca_defaultChain a))
      (ar_assets (mc_asset_run (sample_objects [''ethereum''])
         [RegisterAsset ''t0'' (sample_mc_asset ''USD'' 0 ''toString'')]) ''USD'')
     = Some ([''ethereum''], Some ''toString'')"
  by (simp add: mc_asset_run_def registerMultiChainAsset_def chains_of_def sample_defs
      object_keys_def truthy_member_def object_prototype_members_def undefined_toString_def
      Let_def)

text \<open>
  And two assets that were registered with one and the same chain dictionary change
  together: removing chain \<open>B\<close> from the first takes it from the dictionary of the
  second, whose default chain it is.
\<close>

lemma shared_dictionary_loses_default_chain:
  "map_option (\<lambda>a. (object_keys (chains_of
        (mc_asset_run (sample_objects [''A'', ''B''])
           [RegisterAsset ''t0'' (sample_mc_asset ''X'' 0 ''A''),
            RegisterAsset ''t0'' (sample_mc_asset ''Y'' 0 ''B''),
            RemoveAssetChain ''t1'' ''X'' ''B'']) a),
      mca_defaultChain a))
      (ar_assets (mc_asset_run (sample_objects [''A'', ''B''])
         [RegisterAsset ''t0'' (sample_mc_asset ''X'' 0 ''A''),
          RegisterAsset ''t0'' (sample_mc_asset ''Y'' 0 ''B''),
          RemoveAssetChain ''t1'' ''X'' ''B'']) ''Y'')
     = Some ([''A''], Some ''B'')"
  by (simp add: mc_asset_run_def registerMultiChainAsset_def removeAssetFromChain_def
      chains_of_def sample_defs object_keys_def truthy_member_def delete_property_def
      removed_default_def undefined_toString_def Let_def)

section \<open>Rounding is exact on the safe integers\<close>

lemma round_half_even_of_int: "round_half_even (of_int k) = k"
  by (simp add: round_half_even_def tie_to_even_def)

lemma bitlen_le_54:
  assumes "0 < n" and "n \<le> 2 ^ 53"
  shows "bitlen n \<le> 54"
proof (rule ccontr)
  assume "\<not> bitlen n \<le> 54"
  then have "55 \<le> bitlen n" by simp
  then have "(2::int) ^ 54 \<le> 2 ^ nat (bitlen n - 1)"
    by (intro power_increasing) auto
  also have "\<dots> \<le> n" using bitlen_bounds [OF assms(1)] by simp
  finally show False using assms(2) by simp
qed

lemma bitlen_54:
  assumes "0 < n" and "n \<le> 2 ^ 53" and "bitlen n = 54"
  shows "n = 2 ^ 53"
proof -
  have "(2::int) ^ nat (bitlen n - 1) \<le> n" using bitlen_bounds [OF assms(1)] by simp
  then have "(2::int) ^ 53 \<le> n" using assms(3) by simp
  with assms(2) show ?thesis by simp
qed

lemma floor_log2_of_int:
  assumes "0 < n"
  shows "floor_log2 (of_int n) = bitlen n - 1"
  using assms by (simp add: floor_log2_def)

lemma round_double_int_pos:
  assumes "0 < n" and "n \<le> 2 ^ 53"
  shows "round_double (of_int n) = Fin (of_int n)"
proof -
  let ?e = "double_exponent (of_int n)"
  have abs: "\<bar>of_int n :: rat\<bar> = of_int n" using assms(1) by simp
  have "bitlen n \<noteq> 0" using assms(1) by (simp add: bitlen_eq_zero_iff)
  then have bl: "1 \<le> bitlen n" "bitlen n \<le> 54"
    using assms bitlen_le_54 bitlen_nonneg [of n] by simp_all
  have e: "?e = bitlen n - 53"
    using bl by (simp add: double_exponent_def floor_log2_of_int [OF assms(1)])
  have m: "of_int (round_half_even (of_int n / power_int 2 ?e)) * power_int (2::rat) ?e = of_int n"
  proof (cases "bitlen n = 54")
    case True
    then have n: "n = 2 ^ 53" using bitlen_54 assms by blast
    have e1: "?e = 1" using e True by simp
    have h: "(of_int n :: rat) / power_int 2 ?e = of_int (4503599627370496::int)"
      using n e1 by simp
    have "round_half_even (of_int n / power_int 2 ?e) = 4503599627370496"
      unfolding h by (rule round_half_even_of_int)
    then show ?thesis using n e1 by simp
  next
    case False
    then have le: "?e \<le> 0" using e bl by simp
    have "(of_int n :: rat) / power_int 2 ?e = of_int n * 2 ^ nat (- ?e)"
      using le by (simp add: power_int_def field_simps)
    also have "\<dots> = of_int (n * 2 ^ nat (- ?e))" by simp
    finally have "round_half_even (of_int n / power_int 2 ?e) = n * 2 ^ nat (- ?e)"
      by (simp only: round_half_even_of_int)
    moreover have "power_int (2::rat) ?e = 1 / 2 ^ nat (- ?e)"
      using le by (simp add: power_int_def field_simps)
    ultimately show ?thesis by simp
  qed
  have small: "\<not> power_int 2 1024 \<le> (of_int n :: rat)"
  proof -
    have "(of_int n :: rat) \<le> of_int (2 ^ 53)" using assms(2) by (simp only: of_int_le_iff)
    then show ?thesis by simp
  qed
  have ne: "(of_int n :: rat) \<noteq> 0" "(0::rat) < of_int n" using assms(1) by simp_all
  show ?thesis
    unfolding round_double_def make_double_def abs m
    using ne small by (simp only: if_False if_True)
qed

lemma round_double_nat:
  assumes "n \<le> 2 ^ 53"
  shows "round_double (of_nat n) = Fin (of_nat n)"
proof (cases "n = 0")
  case True
  then show ?thesis by (simp add: round_double_def)
next
  case False
  then have "0 < int n" by simp
  moreover have "int n \<le> 2 ^ 53" using assms by (simp add: of_nat_le_iff [of n "2 ^ 53", symmetric] del: of_nat_le_iff)
  ultimately have "round_double (of_int (int n)) = Fin (of_int (int n))"
    by (rule round_double_int_pos)
  then show ?thesis by simp
qed

section \<open>The weights of a basket\<close>

lemma foldl_weights_nat:
  assumes "map w bas = map (\<lambda>k. Fin (of_nat k)) ks"
    and "a + sum_list ks \<le> 2 ^ 53"
  shows "foldl (\<lambda>sum ba. number_add sum (w ba)) (Fin (of_nat a)) bas = Fin (of_nat (a + sum_list ks))"
  using assms
proof (induction bas arbitrary: a ks)
  case Nil
  then show ?case by simp
next
  case (Cons ba bas)
  then obtain k ks' where ks: "ks = k # ks'" "w ba = Fin (of_nat k)"
    "map w bas = map (\<lambda>k. Fin (of_nat k)) ks'"
    by (cases ks) auto
  have le: "a + k \<le> 2 ^ 53" "(a + k) + sum_list ks' \<le> 2 ^ 53"
    using Cons.prems(2) ks(1) by simp_all
  have "number_add (Fin (of_nat a)) (w ba) = round_double (of_nat (a + k))"
    using ks(2) by simp
  also have "\<dots> = Fin (of_nat (a + k))"
    using le(1) by (rule round_double_nat)
  finally have step: "number_add (Fin (of_nat a)) (w ba) = Fin (of_nat (a + k))" .
  have "foldl (\<lambda>sum ba. number_add sum (w ba)) (Fin (of_nat (a + k))) bas
      = Fin (of_nat ((a + k) + sum_list ks'))"
    using Cons.IH [OF ks(3) le(2)] .
  then show ?case using step ks(1) by (simp add: add.assoc)
qed

lemma totalWeight_nat:
  assumes "map ba_weight bas = map (\<lambda>k. Fin (of_nat k)) ks" and "sum_list ks \<le> 2 ^ 53"
  shows "totalWeight bas = Fin (of_nat (sum_list ks))"
  using foldl_weights_nat [of ba_weight bas ks 0] assms by (simp add: totalWeight_def)

lemma mc_totalWeight_nat:
  assumes "map cba_weight bas = map (\<lambda>k. Fin (of_nat k)) ks" and "sum_list ks \<le> 2 ^ 53"
  shows "mc_totalWeight bas = Fin (of_nat (sum_list ks))"
  using foldl_weights_nat [of cba_weight bas ks 0] assms by (simp add: mc_totalWeight_def)

lemma createBasket_Inr:
  assumes "createBasket now r b = Inr p"
  shows "p = (b\<lparr>b_createdAt := now, b_updatedAt := now\<rparr>,
              r\<lparr>baskets := (baskets r)(b_id b \<mapsto> b\<lparr>b_createdAt := now, b_updatedAt := now\<rparr>)\<rparr>)
         \<and> baskets r (b_id b) = None
         \<and> (\<forall>ba \<in> set (b_assets b). assets r (ba_assetId ba) \<noteq> None)
         \<and> totalWeight (b_assets b) = Fin 100"
  using assms
  by (auto simp: createBasket_def Let_def find_None_iff split: if_splits option.splits)

lemma createBasket_wrong_sum:
  assumes "totalWeight (b_assets b) \<noteq> Fin 100"
  shows "\<exists>e. createBasket now r b = Inl e"
  using assms by (simp add: createBasket_def split: option.splits)

lemma createBasket_reports_sum:
  assumes "totalWeight (b_assets b) \<noteq> Fin 100"
    and "baskets r (b_id b) = None"
    and "\<forall>ba \<in> set (b_assets b). assets r (ba_assetId ba) \<noteq> None"
  shows "createBasket now r b = Inl (WeightsMustSumTo100 (totalWeight (b_assets b)))"
proof -
  have "find (\<lambda>ba. assets r (ba_assetId ba) = None) (b_assets b) = None"
    using assms(3) by (simp add: find_None_iff)
  then show ?thesis using assms(1,2) by (simp add: createBasket_def)
qed

lemma mc_createBasket_wrong_sum:
  assumes "mc_totalWeight (mcb_assets b) \<noteq> Fin 100"
  shows "\<exists>e. mc_createBasket now bs b = Inl e"
  using assms by (simp add: mc_createBasket_def)

lemma mc_createBasket_reports_sum:
  assumes "mc_totalWeight (mcb_assets b) \<noteq> Fin 100"
    and "bs (mcb_id b) = None"
    and "mcb_supportedChains b \<noteq> []"
    and "array_includes (mcb_supportedChains b) (mcb_defaultChain b)"
  shows "mc_createBasket now bs b = Inl (WeightsMustSumTo100 (mc_totalWeight (mcb_assets b)))"
  using assms by (simp add: mc_createBasket_def)

lemma createBasket_earlier_checks:
  "baskets r (b_id b) \<noteq> None \<longrightarrow> createBasket now r b = Inl (BasketAlreadyExists (b_id b))"
  "baskets r (b_id b) = None
     \<and> find (\<lambda>ba. assets r (ba_assetId ba) = None) (b_assets b) = Some missing
   \<longrightarrow> createBasket now r b = Inl (AssetNotFound (ba_assetId missing))"
  by (simp_all add: createBasket_def)

lemma mc_createBasket_earlier_checks:
  "bs (mcb_id mb) \<noteq> None \<longrightarrow> mc_createBasket now bs mb = Inl (BasketAlreadyExists (mcb_id mb))"
  "bs (mcb_id mb) = None \<and> mcb_supportedChains mb = []
   \<longrightarrow> mc_createBasket now bs mb = Inl NoSupportedChain"
  "bs (mcb_id mb) = None \<and> mcb_supportedChains mb \<noteq> []
     \<and> \<not> array_includes (mcb_supportedChains mb) (mcb_defaultChain mb)
   \<longrightarrow> mc_createBasket now bs mb = Inl (DefaultChainNotSupported (mcb_defaultChain mb))"
  by (simp_all add: mc_createBasket_def)

lemma registry_step_weights:
  assumes inv: "\<forall>i b. baskets r i = Some b \<longrightarrow> totalWeight (b_assets b) = Fin 100"
  shows "\<forall>i b. baskets (registry_step r op) i = Some b \<longrightarrow> totalWeight (b_assets b) = Fin 100"
proof (cases op)
  case (RegisterOp now a)
  then show ?thesis using inv
    by (simp add: registerAsset_def Let_def)
next
  case (CreateBasketOp now b)
  show ?thesis
  proof (cases "createBasket now r b")
    case (Inl e)
    then show ?thesis using inv CreateBasketOp by simp
  next
    case (Inr p)
    note c = createBasket_Inr [OF Inr]
    have "baskets (registry_step r op) = (baskets r)(b_id b \<mapsto> b\<lparr>b_createdAt := now, b_updatedAt := now\<rparr>)"
      using CreateBasketOp Inr c by simp
    moreover have "totalWeight (b_assets (b\<lparr>b_createdAt := now, b_updatedAt := now\<rparr>)) = Fin 100"
      using c by simp
    ultimately show ?thesis using inv by (auto split: if_splits)
  qed
qed

lemma registry_run_weights:
  "\<forall>i b. baskets (registry_run ops) i = Some b \<longrightarrow> totalWeight (b_assets b) = Fin 100"
proof (induction ops rule: rev_induct)
  case Nil
  show ?case by (simp add: registry_run_def empty_registry_def)
next
  case (snoc op ops)
  have eq: "registry_run (ops @ [op]) = registry_step (registry_run ops) op"
    by (simp add: registry_run_def)
  show ?case unfolding eq by (rule registry_step_weights [OF snoc])
qed

lemma mc_basket_step_weights:
  assumes inv: "\<forall>i b. bs i = Some b \<longrightarrow> mc_totalWeight (mcb_assets b) = Fin 100"
  shows "\<forall>i b. mc_basket_step bs op i = Some b \<longrightarrow> mc_totalWeight (mcb_assets b) = Fin 100"
proof (cases op)
  case (CreateBasket now b)
  show ?thesis
  proof (cases "mc_createBasket now bs b")
    case (Inl e)
    then show ?thesis using inv CreateBasket by simp
  next
    case (Inr p)
    note c = mc_createBasket_Inr [OF Inr]
    have "mc_basket_step bs op = bs(mcb_id b \<mapsto> b\<lparr>mcb_createdAt := now, mcb_updatedAt := now\<rparr>)"
      using CreateBasket Inr c by simp
    moreover have "mc_totalWeight (mcb_assets (b\<lparr>mcb_createdAt := now, mcb_updatedAt := now\<rparr>)) = Fin 100"
      using c by simp
    ultimately show ?thesis using inv by (auto split: if_splits)
  qed
next
  case (AddBasketChain now basketId chainId)
  show ?thesis
  proof (cases "addChainToBasket now bs basketId chainId")
    case (Inl e)
    then show ?thesis using inv AddBasketChain by simp
  next
    case (Inr p)
    let ?b' = "\<lambda>b. b\<lparr>mcb_supportedChains := mcb_supportedChains b @ [chainId], mcb_updatedAt := now\<rparr>"
    from addChainToBasket_Inr [OF Inr] obtain b where b: "bs basketId = Some b"
      and p: "p = (?b' b, bs(basketId \<mapsto> ?b' b))"
      by blast
    have "mc_basket_step bs op = bs(basketId \<mapsto> ?b' b)"
      using AddBasketChain Inr p by simp
    moreover have "mc_totalWeight (mcb_assets (?b' b)) = Fin 100"
      using inv b by simp
    ultimately show ?thesis using inv by (auto split: if_splits)
  qed
next
  case (RemoveBasketChain now basketId chainId)
  show ?thesis
  proof (cases "removeChainFromBasket now bs basketId chainId")
    case (Inl e)
    then show ?thesis using inv RemoveBasketChain by simp
  next
    case (Inr p)
    let ?b' = "\<lambda>b. b\<lparr>mcb_defaultChain :=
                  removed_default (mcb_defaultChain b) (mcb_supportedChains b) chainId,
                mcb_supportedChains := filter (\<lambda>c. c \<noteq> chainId) (mcb_supportedChains b),
                mcb_updatedAt := now\<rparr>"
    from removeChainFromBasket_Inr [OF Inr] obtain b where b: "bs basketId = Some b"
      and p: "p = (?b' b, bs(basketId \<mapsto> ?b' b))"
      by blast
    have "mc_basket_step bs op = bs(basketId \<mapsto> ?b' b)"
      using RemoveBasketChain Inr p by simp
    moreover have "mc_totalWeight (mcb_assets (?b' b)) = Fin 100"
      using inv b by simp
    ultimately show ?thesis using inv by (auto split: if_splits)
  qed
qed

lemma mc_basket_run_weights:
  "\<forall>i b. mc_basket_run ops i = Some b \<longrightarrow> mc_totalWeight (mcb_assets b) = Fin 100"
proof (induction ops rule: rev_induct)
  case Nil
  show ?case by (simp add: mc_basket_run_def)
next
  case (snoc op ops)
  have eq: "mc_basket_run (ops @ [op]) = mc_basket_step (mc_basket_run ops) op"
    by (simp add: mc_basket_run_def)
  show ?case unfolding eq by (rule mc_basket_step_weights [OF snoc])
qed


text \<open>
  C4, as amended. The sum of the weights is computed from left to right in binary64
  arithmetic (\<open>totalWeight\<close>); for natural-number weights whose sum is at most \<open>2^53\<close>
  it is their exact sum. Creation succeeds only if that sum is 100, and every basket stored
  by a successful creation, in either registry, has that sum 100. With any other sum the
  creation fails; the error is the one that reports the computed sum when the checks made
  before the weight check pass (the id is free and, in the single-chain registry, every
  asset is registered; in the multi-chain registry, the supported chains are not empty and
  hold the default chain). When one of those checks fails, the error is that of the first
  check that fails, whatever the weights: the id that is taken, then the first asset that
  is not registered, or the supported chains that are empty, then the default chain that
  is not among them.
\<close>

theorem createBasket_weight_check:
  "(createBasket now r b = Inr (fb, r')
      \<longrightarrow> totalWeight (b_assets b) = Fin 100 \<and> baskets r' (b_id b) = Some fb
          \<and> b_assets fb = b_assets b)
   \<and> (totalWeight (b_assets b) \<noteq> Fin 100 \<longrightarrow> (\<exists>e. createBasket now r b = Inl e))
   \<and> (totalWeight (b_assets b) \<noteq> Fin 100 \<and> baskets r (b_id b) = None
        \<and> (\<forall>ba \<in> set (b_assets b). assets r (ba_assetId ba) \<noteq> None)
      \<longrightarrow> createBasket now r b = Inl (WeightsMustSumTo100 (totalWeight (b_assets b))))
   \<and> (mc_createBasket now bs mb = Inr (fmb, bs')
      \<longrightarrow> mc_totalWeight (mcb_assets mb) = Fin 100 \<and> bs' (mcb_id mb) = Some fmb
          \<and> mcb_assets fmb = mcb_assets mb)
   \<and> (mc_totalWeight (mcb_assets mb) \<noteq> Fin 100 \<longrightarrow> (\<exists>e. mc_createBasket now bs mb = Inl e))
   \<and> (mc_totalWeight (mcb_assets mb) \<noteq> Fin 100 \<and> bs (mcb_id mb) = None
        \<and> mcb_supportedChains mb \<noteq> []
        \<and> array_includes (mcb_supportedChains mb) (mcb_defaultChain mb)
      \<longrightarrow> mc_createBasket now bs mb = Inl (WeightsMustSumTo100 (mc_totalWeight (mcb_assets mb))))
   \<and> (baskets (registry_run ops) i = Some sb \<longrightarrow> totalWeight (b_assets sb) = Fin 100)
   \<and> (mc_basket_run mops j = Some smb \<longrightarrow> mc_totalWeight (mcb_assets smb) = Fin 100)
   \<and> (map ba_weight (b_assets b) = map (\<lambda>k. Fin (of_nat k)) ks \<and> sum_list ks \<le> 2 ^ 53
      \<longrightarrow> totalWeight (b_assets b) = Fin (of_nat (sum_list ks)))
   \<and> (map cba_weight (mcb_assets mb) = map (\<lambda>k. Fin (of_nat k)) ks \<and> sum_list ks \<le> 2 ^ 53
      \<longrightarrow> mc_totalWeight (mcb_assets mb) = Fin (of_nat (sum_list ks)))
   \<and> (baskets r (b_id b) \<noteq> None
      \<longrightarrow> createBasket now r b = Inl (BasketAlreadyExists (b_id b)))
   \<and> (baskets r (b_id b) = None
        \<and> find (\<lambda>ba. assets r (ba_assetId ba) = None) (b_assets b) = Some missing
      \<longrightarrow> createBasket now r b = Inl (AssetNotFound (ba_assetId missing)))
   \<and> (bs (mcb_id mb) \<noteq> None
      \<longrightarrow> mc_createBasket now bs mb = Inl (BasketAlreadyExists (mcb_id mb)))
   \<and> (bs (mcb_id mb) = None \<and> mcb_supportedChains mb = []
      \<longrightarrow> mc_createBasket now bs mb = Inl NoSupportedChain)
   \<and> (bs (mcb_id mb) = None \<and> mcb_supportedChains mb \<noteq> []
        \<and> \<not> array_includes (mcb_supportedChains mb) (mcb_defaultChain mb)
      \<longrightarrow> mc_createBasket now bs mb = Inl (DefaultChainNotSupported (mcb_defaultChain mb)))"
proof -
  have 1: "createBasket now r b = Inr (fb, r')
      \<longrightarrow> totalWeight (b_assets b) = Fin 100 \<and> baskets r' (b_id b) = Some fb
          \<and> b_assets fb = b_assets b"
    using createBasket_Inr [of now r b "(fb, r')"] by auto
  have 2: "totalWeight (b_assets b) \<noteq> Fin 100 \<longrightarrow> (\<exists>e. createBasket now r b = Inl e)"
    using createBasket_wrong_sum by blast
  have 3: "totalWeight (b_assets b) \<noteq> Fin 100 \<and> baskets r (b_id b) = None
        \<and> (\<forall>ba \<in> set (b_assets b). assets r (ba_assetId ba) \<noteq> None)
      \<longrightarrow> createBasket now r b = Inl (WeightsMustSumTo100 (totalWeight (b_assets b)))"
    using createBasket_reports_sum by blast
  have 4: "mc_createBasket now bs mb = Inr (fmb, bs')
      \<longrightarrow> mc_totalWeight (mcb_assets mb) = Fin 100 \<and> bs' (mcb_id mb) = Some fmb
          \<and> mcb_assets fmb = mcb_assets mb"
    using mc_createBasket_Inr [of now bs mb "(fmb, bs')"] by auto
  have 5: "mc_totalWeight (mcb_assets mb) \<noteq> Fin 100 \<longrightarrow> (\<exists>e. mc_createBasket now bs mb = Inl e)"
    using mc_createBasket_wrong_sum by blast
  have 6: "mc_totalWeight (mcb_assets mb) \<noteq> Fin 100 \<and> bs (mcb_id mb) = None
        \<and> mcb_supportedChains mb \<noteq> []
        \<and> array_includes (mcb_supportedChains mb) (mcb_defaultChain mb)
      \<longrightarrow> mc_createBasket now bs mb = Inl (WeightsMustSumTo100 (mc_totalWeight (mcb_assets mb)))"
    using mc_createBasket_reports_sum by blast
  have 7: "baskets (registry_run ops) i = Some sb \<longrightarrow> totalWeight (b_assets sb) = Fin 100"
    using registry_run_weights by blast
  have 8: "mc_basket_run mops j = Some smb \<longrightarrow> mc_totalWeight (mcb_assets smb) = Fin 100"
    using mc_basket_run_weights by blast
  have 9: "map ba_weight (b_assets b) = map (\<lambda>k. Fin (of_nat k)) ks \<and> sum_list ks \<le> 2 ^ 53
      \<longrightarrow> totalWeight (b_assets b) = Fin (of_nat (sum_list ks))"
    using totalWeight_nat by blast
  have 10: "map cba_weight (mcb_assets mb) = map (\<lambda>k. Fin (of_nat k)) ks \<and> sum_list ks \<le> 2 ^ 53
      \<longrightarrow> mc_totalWeight (mcb_assets mb) = Fin (of_nat (sum_list ks))"
    using mc_totalWeight_nat by blast
  note 11 = createBasket_earlier_checks(1) [of r b now]
  note 12 = createBasket_earlier_checks(2) [of r b missing now]
  note 13 = mc_createBasket_earlier_checks [of bs mb now]
  show ?thesis using 1 2 3 4 5 6 7 8 9 10 11 12 13 by blast
qed

lemma weights_60_40: "totalWeight [entry ''USD'' 60, entry ''GOLD'' 40] = Fin 100"
  using totalWeight_nat [of "[entry ''USD'' 60, entry ''GOLD'' 40]" "[60, 40]"]
  by (simp add: entry_def)

lemma weights_90: "totalWeight [entry ''USD'' 90] = Fin 90"
  using totalWeight_nat [of "[entry ''USD'' 90]" "[90]"]
  by (simp add: entry_def)

lemma number_toString_90: "number_toString (Fin 90) = ''90''"
  by (simp add: num_eval str_eval)

text \<open>
  C4 as stated fails: a request with the weight sum 90 under an id that is taken fails
  with the error for the id, which reports no sum.
\<close>

theorem wrong_sum_reported_as_duplicate:
  "totalWeight (b_assets (sample_basket ''B'' [entry ''USD'' 90])) = Fin 90
   \<and> createBasket ''t1'' (sample_registry [usd] [sample_basket ''B'' [entry ''USD'' 100]])
        (sample_basket ''B'' [entry ''USD'' 90]) = Inl (BasketAlreadyExists ''B'')
   \<and> message (BasketAlreadyExists ''B'') = ''Basket B already exists''"
  using weights_90 by (simp add: createBasket_def sample_basket_def sample_registry_def)

text \<open>
  The sum of the check is a binary64 sum: the weights 100 and \<open>2^-60\<close> pass it, the
  second weight being lost in the addition.
\<close>

lemma small_weight_absorbed:
  "totalWeight [entry ''USD'' 100, entry ''GOLD'' (1 / 2 ^ 60)] = Fin 100"
  by (simp add: totalWeight_def entry_def num_eval)


lemma mc_weight_90: "mc_totalWeight [\<lparr>cba_assetId = i, cba_weight = Fin 90, cba_proportion = p,
    cba_chainId = c\<rparr>] = Fin 90"
  by (simp add: mc_totalWeight_def num_eval)

theorem createBasket_weight_check_witness:
  "createBasket ''t1'' (sample_registry [usd, gold] [])
       (sample_basket ''B'' [entry ''USD'' 60, entry ''GOLD'' 40])
     = Inr ((sample_basket ''B'' [entry ''USD'' 60, entry ''GOLD'' 40])
              \<lparr>b_createdAt := ''t1'', b_updatedAt := ''t1''\<rparr>,
            (sample_registry [usd, gold] [])\<lparr>baskets := [''B'' \<mapsto>
               (sample_basket ''B'' [entry ''USD'' 60, entry ''GOLD'' 40])
                 \<lparr>b_createdAt := ''t1'', b_updatedAt := ''t1''\<rparr>]\<rparr>)
   \<and> totalWeight [entry ''USD'' 60, entry ''GOLD'' 40] = Fin 100
   \<and> totalWeight [entry ''USD'' 60, entry ''GOLD'' 40] = Fin (of_nat (sum_list [60, 40]))
   \<and> totalWeight [entry ''USD'' 90] \<noteq> Fin 100
   \<and> createBasket ''t1'' (sample_registry [usd, gold] []) (sample_basket ''B'' [entry ''USD'' 90])
     = Inl (WeightsMustSumTo100 (Fin 90))
   \<and> message (WeightsMustSumTo100 (Fin 90)) = ''Asset weights must sum to 100 (current: 90)''
   \<and> mc_createBasket ''t1'' Map.empty (sample_mc_basket [''A''] ''A'')
     = Inr ((sample_mc_basket [''A''] ''A'')\<lparr>mcb_createdAt := ''t1'', mcb_updatedAt := ''t1''\<rparr>,
            [''B'' \<mapsto> (sample_mc_basket [''A''] ''A'')\<lparr>mcb_createdAt := ''t1'', mcb_updatedAt := ''t1''\<rparr>])
   \<and> mc_totalWeight (mcb_assets (sample_mc_basket [''A''] ''A'')) = Fin 100
   \<and> mc_createBasket ''t1'' Map.empty
        ((sample_mc_basket [''A''] ''A'')\<lparr>mcb_assets := [\<lparr>cba_assetId = ''USD'', cba_weight = Fin 90,
            cba_proportion = ''1:1'', cba_chainId = None\<rparr>]\<rparr>)
     = Inl (WeightsMustSumTo100 (Fin 90))
   \<and> baskets (registry_run [RegisterOp ''t0'' usd, RegisterOp ''t0'' gold,
         CreateBasketOp ''t1'' (sample_basket ''B'' [entry ''USD'' 60, entry ''GOLD'' 40])]) ''B''
     = Some ((sample_basket ''B'' [entry ''USD'' 60, entry ''GOLD'' 40])
              \<lparr>b_createdAt := ''t1'', b_updatedAt := ''t1''\<rparr>)
   \<and> mc_basket_run [CreateBasket ''t1'' (sample_mc_basket [''A''] ''A'')] ''B''
     = Some ((sample_mc_basket [''A''] ''A'')\<lparr>mcb_createdAt := ''t1'', mcb_updatedAt := ''t1''\<rparr>)
   \<and> createBasket ''t1'' (sample_registry [usd] []) (sample_basket ''B'' [entry ''USD'' 60, entry ''GOLD'' 40])
     = Inl (AssetNotFound ''GOLD'')"
proof -
  let ?b = "sample_basket ''B'' [entry ''USD'' 60, entry ''GOLD'' 40]"
  let ?fb = "?b\<lparr>b_createdAt := ''t1'', b_updatedAt := ''t1''\<rparr>"
  let ?r = "sample_registry [usd, gold] []"
  let ?r' = "?r\<lparr>baskets := [''B'' \<mapsto> ?fb]\<rparr>"
  let ?b90 = "sample_basket ''B'' [entry ''USD'' 90]"
  let ?mb = "sample_mc_basket [''A''] ''A''"
  let ?fmb = "?mb\<lparr>mcb_createdAt := ''t1'', mcb_updatedAt := ''t1''\<rparr>"
  let ?mb90 = "?mb\<lparr>mcb_assets := [\<lparr>cba_assetId = ''USD'', cba_weight = Fin 90,
            cba_proportion = ''1:1'', cba_chainId = None\<rparr>]\<rparr>"
  let ?ops = "[RegisterOp ''t0'' usd, RegisterOp ''t0'' gold, CreateBasketOp ''t1'' ?b]"
  have c1: "createBasket ''t1'' ?r ?b = Inr (?fb, ?r')"
    using weights_60_40
    by (simp add: createBasket_def sample_basket_def sample_registry_def usd_def gold_def
        entry_def Let_def)
  have c2: "mc_createBasket ''t1'' Map.empty ?mb = Inr (?fmb, [''B'' \<mapsto> ?fmb])"
    by (simp add: mc_createBasket_def sample_mc_basket_def mc_weight_100 array_includes_def Let_def)
  have run1: "baskets (registry_run ?ops) ''B'' = Some ?fb"
    using weights_60_40
    by (simp add: registry_run_def empty_registry_def registerAsset_def createBasket_def
        sample_basket_def usd_def gold_def entry_def Let_def)
  have run2: "mc_basket_run [CreateBasket ''t1'' ?mb] ''B'' = Some ?fmb"
    by (simp add: mc_basket_run_def c2)
  have k: "map ba_weight (b_assets ?b) = map (\<lambda>k. Fin (of_nat k)) [60, 40] \<and> sum_list [60, 40] \<le> (2::nat) ^ 53"
    by (simp add: sample_basket_def entry_def)
  have mk: "map cba_weight (mcb_assets ?mb) = map (\<lambda>k. Fin (of_nat k)) [100] \<and> sum_list [100] \<le> (2::nat) ^ 53"
    by (simp add: sample_mc_basket_def)
  note A = createBasket_weight_check [of "''t1''" ?r ?b ?fb ?r' Map.empty ?mb ?fmb "[''B'' \<mapsto> ?fmb]"
      ?ops "''B''" ?fb "[CreateBasket ''t1'' ?mb]" "''B''" ?fmb "[60, 40]"]
  have a1: "totalWeight (b_assets ?b) = Fin 100" using A c1 by blast
  have a2: "totalWeight (b_assets ?b) = Fin (of_nat (sum_list [60, 40]))" using A k by blast
  have a3: "mc_totalWeight (mcb_assets ?mb) = Fin 100" using A c2 by blast
  have w90: "totalWeight (b_assets ?b90) \<noteq> Fin 100" "totalWeight (b_assets ?b90) = Fin 90"
    using weights_90 by (simp_all add: sample_basket_def)
  have pre: "baskets ?r (b_id ?b90) = None"
    "\<forall>ba \<in> set (b_assets ?b90). assets ?r (ba_assetId ba) \<noteq> None"
    by (simp_all add: sample_basket_def sample_registry_def entry_def usd_def gold_def)
  have mw90: "mc_totalWeight (mcb_assets ?mb90) \<noteq> Fin 100" "mc_totalWeight (mcb_assets ?mb90) = Fin 90"
    by (simp_all add: mc_weight_90)
  have mpre: "Map.empty (mcb_id ?mb90) = None" "mcb_supportedChains ?mb90 \<noteq> []"
    "array_includes (mcb_supportedChains ?mb90) (mcb_defaultChain ?mb90)"
    by (simp_all add: sample_mc_basket_def array_includes_def)
  note B = createBasket_weight_check [of "''t1''" ?r ?b90 ?fb ?r' Map.empty ?mb90 ?fmb "[''B'' \<mapsto> ?fmb]"
      ?ops "''B''" ?fb "[CreateBasket ''t1'' ?mb]" "''B''" ?fmb "[90]"]
  have b1: "createBasket ''t1'' ?r ?b90 = Inl (WeightsMustSumTo100 (Fin 90))"
    using B w90 pre by metis
  have b2: "mc_createBasket ''t1'' Map.empty ?mb90 = Inl (WeightsMustSumTo100 (Fin 90))"
    using B mw90 mpre by metis
  have msg: "message (WeightsMustSumTo100 (Fin 90)) = ''Asset weights must sum to 100 (current: 90)''"
    by (simp add: number_toString_90)
  have s: "b_assets ?b = [entry ''USD'' 60, entry ''GOLD'' 40]" "b_assets ?b90 = [entry ''USD'' 90]"
    by (simp_all add: sample_basket_def)
  have f: "baskets (sample_registry [usd] []) (b_id ?b) = None
     \<and> find (\<lambda>ba. assets (sample_registry [usd] []) (ba_assetId ba) = None) (b_assets ?b)
         = Some (entry ''GOLD'' 40)"
    by (simp add: sample_basket_def sample_registry_def entry_def usd_def)
  note C = createBasket_weight_check [of "''t1''" "sample_registry [usd] []" ?b ?fb ?r' Map.empty ?mb
      ?fmb "[''B'' \<mapsto> ?fmb]" ?ops "''B''" ?fb "[CreateBasket ''t1'' ?mb]" "''B''" ?fmb "[60, 40]"
      "entry ''GOLD'' 40"]
  have "createBasket ''t1'' (sample_registry [usd] []) ?b
      = Inl (AssetNotFound (ba_assetId (entry ''GOLD'' 40)))"
    using C f by blast
  then have c3: "createBasket ''t1'' (sample_registry [usd] []) ?b = Inl (AssetNotFound ''GOLD'')"
    by (simp add: entry_def)
  show ?thesis
    using c1 a1 a2 w90(1) b1 msg c2 a3 b2 run1 run2 c3 unfolding s by blast
qed

section \<open>Decimal scaling in the workflow\<close>

lemma scaledAmount_eq:
  assumes "StringToBigInt (wa_amount asset) = Some a"
    and "config_decimals config = Fin (of_nat d)"
  shows "scaledAmount config asset = Inr (a * 10 ^ d)"
  using assms by (simp add: scaledAmount_def BigInt_of_string_def BigInt_of_number_def BigInt_pow10_def)

lemma scaledAmount_ignores_metadata:
  "scaledAmount config (asset\<lparr>wa_metadata := m\<rparr>) = scaledAmount config asset"
  by (simp add: scaledAmount_def)

lemma mint_loop_submits:
  assumes "mint_loop submit config beneficiary as = Inr txHashes"
  shows "list_all2 (\<lambda>asset (symbol, txHash). symbol = wa_symbol asset
            \<and> (\<exists>scaled. scaledAmount config asset = Inr scaled
                  \<and> submit asset beneficiary scaled = Inr txHash)) as txHashes"
  using assms
proof (induction as arbitrary: txHashes)
  case Nil
  then show ?case by simp
next
  case (Cons asset rest)
  then show ?case
    by (auto split: sum.splits)
qed

lemma StringToBigInt_1000: "StringToBigInt ''1000'' = Some 1000"
  by (simp add: StringToBigInt_def trim_ws_def is_ws_def all_radix_digits_def is_radix_digit_def
      radix_digit_def radix_val_def Let_def)

text \<open>
  C8. The code at the failing input: an asset that carries its own decimal count 18 is
  scaled by the decimal count of the configuration, 6 (given, or the default when the
  configuration has none), whatever the asset carries: 1000 becomes \<open>1000 * 10^6\<close>,
  not \<open>1000 * 10^18\<close>.
\<close>

theorem scaling_ignores_asset_decimals:
  "asset_decimals (sample_wf_asset ''1000'' (Some [(''decimals'', JNumber (Fin 18))])) = Some (Fin 18)
   \<and> scaledAmount (sample_wf_config (Some (Fin 6)))
        (sample_wf_asset ''1000'' (Some [(''decimals'', JNumber (Fin 18))])) = Inr (1000 * 10 ^ 6)
   \<and> scaledAmount (sample_wf_config None)
        (sample_wf_asset ''1000'' (Some [(''decimals'', JNumber (Fin 18))])) = Inr (1000 * 10 ^ 6)
   \<and> onMintRequest (\<lambda>asset beneficiary scaled. Inr (''0x'' @ nat_toString (nat scaled)))
        (sample_wf_config (Some (Fin 6)))
        \<lparr>pl_transactionId = ''T1'', pl_beneficiaryAccount = ''0x3333333333333333333333333333333333333333'',
         pl_amount = ''1000'',
         pl_assets = [sample_wf_asset ''1000'' (Some [(''decimals'', JNumber (Fin 18))])],
         pl_chainId = ''ethereum-mainnet'', pl_chainName = ''Ethereum''\<rparr>
     = Inr [(''USD'', ''0x1000000000'')]"
proof -
  let ?a = "sample_wf_asset ''1000'' (Some [(''decimals'', JNumber (Fin 18))])"
  have d: "asset_decimals ?a = Some (Fin 18)"
    by (simp add: asset_decimals_def sample_wf_asset_def)
  have am: "StringToBigInt (wa_amount ?a) = Some 1000"
    by (simp add: sample_wf_asset_def StringToBigInt_1000)
  have c6: "config_decimals (sample_wf_config (Some (Fin 6))) = Fin (of_nat 6)"
    "config_decimals (sample_wf_config None) = Fin (of_nat 6)"
    by (simp_all add: config_decimals_def sample_wf_config_def)
  have s1: "scaledAmount (sample_wf_config (Some (Fin 6))) ?a = Inr (1000 * 10 ^ 6)"
    by (rule scaledAmount_eq [OF am c6(1)])
  have s2: "scaledAmount (sample_wf_config None) ?a = Inr (1000 * 10 ^ 6)"
    by (rule scaledAmount_eq [OF am c6(2)])
  have ts: "nat_toString 1000000000 = ''1000000000''"
    by (simp add: nat_toString_def)
  have o: "onMintRequest (\<lambda>asset beneficiary scaled. Inr (''0x'' @ nat_toString (nat scaled)))
        (sample_wf_config (Some (Fin 6)))
        \<lparr>pl_transactionId = ''T1'', pl_beneficiaryAccount = ''0x3333333333333333333333333333333333333333'',
         pl_amount = ''1000'', pl_assets = [?a],
         pl_chainId = ''ethereum-mainnet'', pl_chainName = ''Ethereum''\<rparr>
     = Inr [(''USD'', ''0x1000000000'')]"
    using s1 ts
    by (simp add: onMintRequest_def truthy_member_def)
       (simp add: sample_wf_config_def sample_wf_asset_def)
  from d s1 s2 o show ?thesis by blast
qed

section \<open>The reserve check\<close>

lemma runCRESimulation_succeeds:
  "sr_success (runCRESimulation now payload)
   \<and> so_porVerified (sr_output (runCRESimulation now payload))
   \<and> so_reserveBalance (sr_output (runCRESimulation now payload)) = ''1000000000''
   \<and> sr_error (runCRESimulation now payload) = None"
  by (simp add: runCRESimulation_def)

lemma triggerMint_completes:
  assumes "triggerMint_request t_create t_payload r ms transactionId request = Inr pm"
  shows "\<exists>rec. triggerMint t_create t_payload t_sim t_done r ms transactionId request
            = (\<lparr>wr_success = True, wr_transactionId = transactionId, wr_mintRecord = Some rec,
                wr_output = Some (sr_output (runCRESimulation t_sim (pm_payload pm))),
                wr_error = None\<rparr>,
               (pm_mints pm)(''mint-'' @ transactionId \<mapsto> rec))
          \<and> mr_status rec = Some Completed \<and> mr_completedAt rec = Some t_done
          \<and> mr_amount rec = rq_amount request"
proof -
  note p = triggerMint_request_pending [OF assms]
  let ?old = "pm_mintRecord pm"
  have look: "pm_mints pm (mr_id ?old) = Some ?old" using p by simp
  obtain rec where rec: "updateMintRecord t_done (pm_mints pm) (mr_id ?old)
        \<lparr>u_status = Some (Some FinalCompleted), u_assets = Some (Some (pm_mintedAssets pm)),
         u_error = None\<rparr>
      = Inr (rec, (pm_mints pm)(mr_id ?old \<mapsto> rec))"
    "mr_status rec = Some (status_of FinalCompleted)" "mr_completedAt rec = Some t_done"
    and am: "mr_amount rec = mr_amount ?old"
    using look by (auto simp: updateMintRecord_def Let_def)
  have "triggerMint t_create t_payload t_sim t_done r ms transactionId request
      = (\<lparr>wr_success = True, wr_transactionId = transactionId, wr_mintRecord = Some rec,
          wr_output = Some (sr_output (runCRESimulation t_sim (pm_payload pm))),
          wr_error = None\<rparr>,
         (pm_mints pm)(mr_id ?old \<mapsto> rec))"
    using assms rec(1) runCRESimulation_succeeds [of t_sim "pm_payload pm"]
    by (simp add: triggerMint_def triggerMint_resolve_def)
  then show ?thesis using rec(2,3) am p by auto
qed

lemma checkMintEligibility_success:
  "mc_success (checkMintEligibility isPORValid rand_reserve rand_policy amount)
     = (isPORValid
        \<and> number_le (parseInt amount)
             (parseInt (mc_reserveBalance (checkMintEligibility isPORValid rand_reserve rand_policy amount)))
        \<and> number_less (round_double (2 / 10)) rand_policy)"
  by (simp add: checkMintEligibility_def Let_def)

lemma checkMintEligibility_message:
  "mc_message (checkMintEligibility isPORValid rand_reserve rand_policy amount)
     = (if \<not> isPORValid then ''POR verification failed''
        else if \<not> number_le (parseInt amount)
             (parseInt (mc_reserveBalance
                (checkMintEligibility isPORValid rand_reserve rand_policy amount)))
          then ''Insufficient reserves''
        else if \<not> number_less (round_double (2 / 10)) rand_policy then ''ACE Policy rejected''
        else ''Eligible for minting'')"
  by (simp add: checkMintEligibility_def Let_def)

text \<open>
  C5, as amended. The orchestrator enforces no reserve check: \<open>runCRESimulation\<close> reports
  success, a verified reserve and the reserve balance \<open>1000000000\<close> for every payload,
  without reading the amount or any attestation age, so every mint request that is
  accepted (that creates its record) is completed. The eligibility check of the dashboard
  accepts a request exactly when the store's POR flag is set, the requested amount is at
  most the simulated reserve balance, and its simulated policy check passes; its message
  names the first of these three checks that fails.
\<close>

theorem reserve_gate:
  "sr_success (runCRESimulation now payload)
   \<and> so_porVerified (sr_output (runCRESimulation now payload))
   \<and> so_reserveBalance (sr_output (runCRESimulation now payload)) = ''1000000000''
   \<and> (triggerMint_request t_create t_payload r ms transactionId request = Inr pm
      \<longrightarrow> (\<exists>rec. triggerMint t_create t_payload t_sim t_done r ms transactionId request
                  = (\<lparr>wr_success = True, wr_transactionId = transactionId,
                      wr_mintRecord = Some rec,
                      wr_output = Some (sr_output (runCRESimulation t_sim (pm_payload pm))),
                      wr_error = None\<rparr>,
                     (pm_mints pm)(''mint-'' @ transactionId \<mapsto> rec))
                \<and> mr_status rec = Some Completed \<and> mr_amount rec = rq_amount request))
   \<and> mc_success (checkMintEligibility isPORValid rand_reserve rand_policy amount)
       = (isPORValid
          \<and> number_le (parseInt amount)
               (parseInt (mc_reserveBalance
                  (checkMintEligibility isPORValid rand_reserve rand_policy amount)))
          \<and> number_less (round_double (2 / 10)) rand_policy)
   \<and> mc_message (checkMintEligibility isPORValid rand_reserve rand_policy amount)
       = (if \<not> isPORValid then ''POR verification failed''
          else if \<not> number_le (parseInt amount)
               (parseInt (mc_reserveBalance
                  (checkMintEligibility isPORValid rand_reserve rand_policy amount)))
            then ''Insufficient reserves''
          else if \<not> number_less (round_double (2 / 10)) rand_policy then ''ACE Policy rejected''
          else ''Eligible for minting'')"
  using runCRESimulation_succeeds [of now payload]
    triggerMint_completes [of t_create t_payload r ms transactionId request pm t_sim t_done]
    checkMintEligibility_success [of isPORValid rand_reserve rand_policy amount]
    checkMintEligibility_message [of isPORValid rand_reserve rand_policy amount]
  by blast


lemma sample_request_accepted:
  "\<exists>pm. triggerMint_request t_create t_payload
      (sample_registry [usd] [sample_basket ''B'' [entry ''USD'' 100]]) Map.empty transactionId
      (sample_request ''B'' amount) = Inr pm"
proof -
  let ?b = "sample_basket ''B'' [entry ''USD'' 100]"
  let ?r = "sample_registry [usd] [?b]"
  let ?q = "sample_request ''B'' amount"
  have h1: "baskets ?r (rq_basketId ?q) = Some ?b"
    by (simp add: sample_defs)
  have "length (expand_loop (assets ?r) (parseFloat (rq_amount ?q)) (b_assets ?b)) = 1"
    by (simp add: length_expand_loop sample_defs)
  then have h2: "filterAssets ?q (expand_loop (assets ?r) (parseFloat (rq_amount ?q)) (b_assets ?b)) \<noteq> []"
    by (auto simp: filterAssets_def sample_request_def)
  show ?thesis by (rule triggerMint_request_accepts [OF h1 h2])
qed

lemma parseFloat_reserve: "parseFloat ''1000000000'' = Fin 1000000000"
  by (simp add: parse_eval num_eval)

lemma parseFloat_request: "parseFloat ''2000000000'' = Fin 2000000000"
  by (simp add: parse_eval num_eval)

text \<open>
  C5 as stated fails: a mint of 2000000000, twice the reserve balance that the workflow
  reports, is accepted and completed.
\<close>

theorem mint_above_reserve_completed:
  "wr_success (fst (triggerMint ''t0'' ''t1'' ''t2'' ''t3''
      (sample_registry [usd] [sample_basket ''B'' [entry ''USD'' 100]]) Map.empty ''T1''
      (sample_request ''B'' ''2000000000'')))
   \<and> map_option mr_status (snd (triggerMint ''t0'' ''t1'' ''t2'' ''t3''
      (sample_registry [usd] [sample_basket ''B'' [entry ''USD'' 100]]) Map.empty ''T1''
      (sample_request ''B'' ''2000000000'')) ''mint-T1'') = Some (Some Completed)
   \<and> map_option so_reserveBalance (wr_output (fst (triggerMint ''t0'' ''t1'' ''t2'' ''t3''
      (sample_registry [usd] [sample_basket ''B'' [entry ''USD'' 100]]) Map.empty ''T1''
      (sample_request ''B'' ''2000000000'')))) = Some ''1000000000''
   \<and> number_less (parseFloat ''1000000000'') (parseFloat (rq_amount (sample_request ''B'' ''2000000000'')))"
proof -
  let ?r = "sample_registry [usd] [sample_basket ''B'' [entry ''USD'' 100]]"
  let ?q = "sample_request ''B'' ''2000000000''"
  obtain pm where pm: "triggerMint_request ''t0'' ''t1'' ?r Map.empty ''T1'' ?q = Inr pm"
    using sample_request_accepted by blast
  from triggerMint_completes [OF pm, of "''t2''" "''t3''"]
  obtain rec where rec: "triggerMint ''t0'' ''t1'' ''t2'' ''t3'' ?r Map.empty ''T1'' ?q
      = (\<lparr>wr_success = True, wr_transactionId = ''T1'', wr_mintRecord = Some rec,
          wr_output = Some (sr_output (runCRESimulation ''t2'' (pm_payload pm))),
          wr_error = None\<rparr>,
         (pm_mints pm)(''mint-'' @ ''T1'' \<mapsto> rec))"
    "mr_status rec = Some Completed"
    by blast
  have "number_less (parseFloat ''1000000000'') (parseFloat (rq_amount ?q))"
    by (simp add: sample_request_def parseFloat_reserve parseFloat_request)
  then show ?thesis
    unfolding rec(1) using rec(2) by (simp add: runCRESimulation_def)
qed

lemma eligibility_reserve:
  "number_toString (number_floor (number_add (number_mul (Fin (1 / 2)) (Fin 5000000)) (Fin 5000000)))
     = ''7500000''"
  by (simp add: num_eval str_eval)

lemma parseInt_samples:
  "parseInt ''7500000'' = Fin 7500000" "parseInt ''1000000'' = Fin 1000000"
  "parseInt ''8000000'' = Fin 8000000"
  by (simp_all add: parseInt_def is_ws_def is_radix_digit_def radix_digit_def radix_val_def
      Let_def num_eval)

lemma policy_threshold: "number_less (round_double (2 / 10)) (Fin (1 / 2))"
  by (simp add: num_eval)

theorem reserve_gate_witness:
  "(\<exists>pm. triggerMint_request ''t0'' ''t1''
        (sample_registry [usd] [sample_basket ''B'' [entry ''USD'' 100]]) Map.empty ''T1''
        (sample_request ''B'' ''2000000000'') = Inr pm)
   \<and> wr_success (fst (triggerMint ''t0'' ''t1'' ''t2'' ''t3''
        (sample_registry [usd] [sample_basket ''B'' [entry ''USD'' 100]]) Map.empty ''T1''
        (sample_request ''B'' ''2000000000'')))
   \<and> mc_success (checkMintEligibility True (Fin (1 / 2)) (Fin (1 / 2)) ''1000000'')
   \<and> \<not> mc_success (checkMintEligibility True (Fin (1 / 2)) (Fin (1 / 2)) ''8000000'')
   \<and> \<not> mc_success (checkMintEligibility False (Fin (1 / 2)) (Fin (1 / 2)) ''1000000'')"
proof -
  let ?r = "sample_registry [usd] [sample_basket ''B'' [entry ''USD'' 100]]"
  let ?q = "sample_request ''B'' ''2000000000''"
  obtain pm where pm: "triggerMint_request ''t0'' ''t1'' ?r Map.empty ''T1'' ?q = Inr pm"
    using sample_request_accepted by blast
  from reserve_gate [of "''t2''" "pm_payload pm" "''t0''" "''t1''" ?r Map.empty "''T1''" ?q pm
      "''t2''" "''t3''" True "Fin (1 / 2)" "Fin (1 / 2)" "''1000000''"] pm
  have g: "wr_success (fst (triggerMint ''t0'' ''t1'' ''t2'' ''t3'' ?r Map.empty ''T1'' ?q))"
    and e1: "mc_success (checkMintEligibility True (Fin (1 / 2)) (Fin (1 / 2)) ''1000000'')
       = (True \<and> number_le (parseInt ''1000000'')
               (parseInt (mc_reserveBalance
                  (checkMintEligibility True (Fin (1 / 2)) (Fin (1 / 2)) ''1000000'')))
          \<and> number_less (round_double (2 / 10)) (Fin (1 / 2)))"
    by auto
  have rb: "mc_reserveBalance (checkMintEligibility p (Fin (1 / 2)) (Fin (1 / 2)) a) = ''7500000''" for p a
    unfolding checkMintEligibility_def Let_def eligibility_reserve by simp
  have s1: "mc_success (checkMintEligibility True (Fin (1 / 2)) (Fin (1 / 2)) ''1000000'')"
    unfolding e1 rb parseInt_samples using policy_threshold by simp
  have s2: "\<not> mc_success (checkMintEligibility True (Fin (1 / 2)) (Fin (1 / 2)) ''8000000'')"
    unfolding checkMintEligibility_success rb by (simp add: parseInt_samples)
  have s3: "\<not> mc_success (checkMintEligibility False (Fin (1 / 2)) (Fin (1 / 2)) ''1000000'')"
    unfolding checkMintEligibility_success by simp
  from pm g s1 s2 s3 show ?thesis by blast
qed

section \<open>Entries of an expanded basket\<close>

lemma registry_step_registered:
  assumes inv: "\<forall>i b. baskets r i = Some b
      \<longrightarrow> (\<forall>ba \<in> set (b_assets b). assets r (ba_assetId ba) \<noteq> None)"
  shows "\<forall>i b. baskets (registry_step r op) i = Some b
      \<longrightarrow> (\<forall>ba \<in> set (b_assets b). assets (registry_step r op) (ba_assetId ba) \<noteq> None)"
proof (cases op)
  case (RegisterOp now a)
  show ?thesis
  proof (cases "assets r (a_id a) \<noteq> None")
    case True
    then show ?thesis using inv RegisterOp by (simp add: registerAsset_def)
  next
    case False
    then have "baskets (registry_step r op) = baskets r"
      and "assets (registry_step r op) = (assets r)(a_id a \<mapsto> a\<lparr>a_createdAt := now, a_updatedAt := now\<rparr>)"
      using RegisterOp by (simp_all add: registerAsset_def Let_def)
    then show ?thesis using inv by auto
  qed
next
  case (CreateBasketOp now b)
  show ?thesis
  proof (cases "createBasket now r b")
    case (Inl e)
    then show ?thesis using inv CreateBasketOp by simp
  next
    case (Inr p)
    note c = createBasket_Inr [OF Inr]
    have bs: "baskets (registry_step r op) = (baskets r)(b_id b \<mapsto> b\<lparr>b_createdAt := now, b_updatedAt := now\<rparr>)"
      and as: "assets (registry_step r op) = assets r"
      using CreateBasketOp Inr c by simp_all
    have new: "\<forall>ba \<in> set (b_assets (b\<lparr>b_createdAt := now, b_updatedAt := now\<rparr>)).
        assets r (ba_assetId ba) \<noteq> None"
      using c by simp
    show ?thesis unfolding bs as using inv new by (auto split: if_splits)
  qed
qed

lemma registry_run_registered:
  "\<forall>i b. baskets (registry_run ops) i = Some b
      \<longrightarrow> (\<forall>ba \<in> set (b_assets b). assets (registry_run ops) (ba_assetId ba) \<noteq> None)"
proof (induction ops rule: rev_induct)
  case Nil
  show ?case by (simp add: registry_run_def empty_registry_def)
next
  case (snoc op ops)
  have eq: "registry_run (ops @ [op]) = registry_step (registry_run ops) op"
    by (simp add: registry_run_def)
  show ?case unfolding eq by (rule registry_step_registered [OF snoc])
qed

lemma expand_loop_all_registered:
  assumes "\<forall>ba \<in> set bas. as (ba_assetId ba) \<noteq> None"
  shows "length (expand_loop as t bas) = length bas"
    and "map ea_amount (expand_loop as t bas)
       = map (\<lambda>ba. number_toString (proportionalAmount t (ba_weight ba))) bas"
  using assms by (induction bas) (auto split: option.splits)

lemma expandBasket_not_found:
  "baskets r basketId = None \<Longrightarrow> expandBasket r basketId totalAmount = Inl (BasketNotFound basketId)"
  by (simp add: expandBasket_def)

text \<open>
  C1, as the code has it. For a basket of the registry, \<open>expandBasket\<close> raises no error and
  returns one entry for each basket entry whose asset is registered, in the order of the
  basket, with that asset, and none for the other entries. Where every asset of the basket
  is registered, as it is in every registry built by \<open>registerAsset\<close> and \<open>createBasket\<close>
  from the empty one, this is one entry per basket entry; for the weights 60 and 40 and a
  total amount that reads as 1000, the amounts are then \<open>600\<close> and \<open>400\<close>.
\<close>

theorem expandBasket_entries:
  assumes "baskets r basketId = Some b"
  shows "\<exists>es. expandBasket r basketId totalAmount = Inr es
     \<and> list_all2 (\<lambda>e ba. assets r (ba_assetId ba) = Some (ea_asset e)) es
         (filter (\<lambda>ba. assets r (ba_assetId ba) \<noteq> None) (b_assets b))
     \<and> ((\<forall>ba \<in> set (b_assets b). assets r (ba_assetId ba) \<noteq> None)
          \<longrightarrow> length es = length (b_assets b)
              \<and> list_all2 (\<lambda>e ba. assets r (ba_assetId ba) = Some (ea_asset e)) es (b_assets b))
     \<and> ((\<forall>ba \<in> set (b_assets b). assets r (ba_assetId ba) \<noteq> None)
          \<and> map ba_weight (b_assets b) = [Fin 60, Fin 40] \<and> parseFloat totalAmount = Fin 1000
          \<longrightarrow> map ea_amount es = [''600'', ''400''])
     \<and> ((\<exists>ops. r = registry_run ops) \<longrightarrow> length es = length (b_assets b))"
proof -
  let ?t = "parseFloat totalAmount"
  let ?es = "expand_loop (assets r) ?t (b_assets b)"
  let ?reg = "\<forall>ba \<in> set (b_assets b). assets r (ba_assetId ba) \<noteq> None"
  have eq: "expandBasket r basketId totalAmount = Inr ?es"
    using assms by (simp add: expandBasket_def)
  have corr: "list_all2 (\<lambda>e ba. assets r (ba_assetId ba) = Some (ea_asset e)) ?es
      (filter (\<lambda>ba. assets r (ba_assetId ba) \<noteq> None) (b_assets b))"
    using expand_loop_assets [of "assets r" ?t "b_assets b"]
    by (rule list_all2_mono) simp
  have full: "?reg \<longrightarrow> length ?es = length (b_assets b)
      \<and> list_all2 (\<lambda>e ba. assets r (ba_assetId ba) = Some (ea_asset e)) ?es (b_assets b)"
  proof
    assume reg: ?reg
    then have "filter (\<lambda>ba. assets r (ba_assetId ba) \<noteq> None) (b_assets b) = b_assets b"
      by (simp add: filter_id_conv)
    with corr expand_loop_all_registered(1) [OF reg, of ?t]
    show "length ?es = length (b_assets b)
      \<and> list_all2 (\<lambda>e ba. assets r (ba_assetId ba) = Some (ea_asset e)) ?es (b_assets b)"
      by simp
  qed
  have amounts: "?reg \<and> map ba_weight (b_assets b) = [Fin 60, Fin 40] \<and> ?t = Fin 1000
      \<longrightarrow> map ea_amount ?es = [''600'', ''400'']"
  proof
    assume h: "?reg \<and> map ba_weight (b_assets b) = [Fin 60, Fin 40] \<and> ?t = Fin 1000"
    then have reg: ?reg and w: "map ba_weight (b_assets b) = [Fin 60, Fin 40]"
      and t: "?t = Fin 1000"
      by simp_all
    have "map ea_amount ?es
        = map (\<lambda>w. number_toString (proportionalAmount ?t w)) (map ba_weight (b_assets b))"
      using expand_loop_all_registered(2) [OF reg, of ?t] by (simp add: comp_def)
    also have "\<dots> = [''600'', ''400'']"
      unfolding w t by (simp add: amount_600 amount_400)
    finally show "map ea_amount ?es = [''600'', ''400'']" .
  qed
  have hist: "(\<exists>ops. r = registry_run ops) \<longrightarrow> length ?es = length (b_assets b)"
  proof
    assume "\<exists>ops. r = registry_run ops"
    then obtain ops where r: "r = registry_run ops" by blast
    have ?reg
      using registry_run_registered [of ops] assms unfolding r by blast
    then show "length ?es = length (b_assets b)"
      by (rule expand_loop_all_registered(1))
  qed
  from eq corr full amounts hist show ?thesis by (intro exI [of _ ?es]) simp
qed

text \<open>
  C1 as stated fails: a basket with the two entries USD and GOLD in a registry that holds
  only USD expands to the single entry of USD.
\<close>

theorem expandBasket_omits_entry:
  "expandBasket (sample_registry [usd] [sample_basket ''B'' [entry ''USD'' 60, entry ''GOLD'' 40]])
      ''B'' ''1000'' = Inr [\<lparr>ea_asset = usd, ea_amount = ''600''\<rparr>]
   \<and> length (b_assets (sample_basket ''B'' [entry ''USD'' 60, entry ''GOLD'' 40])) = 2"
  by (simp add: expandBasket_def sample_registry_def sample_basket_def entry_def usd_def
      parseFloat_1000 amount_600)

theorem expandBasket_entries_witness:
  "baskets (sample_registry [usd, gold] [sample_basket ''B'' [entry ''USD'' 60, entry ''GOLD'' 40]]) ''B''
     = Some (sample_basket ''B'' [entry ''USD'' 60, entry ''GOLD'' 40])
   \<and> parseFloat ''1000'' = Fin 1000
   \<and> (\<exists>es. expandBasket
          (sample_registry [usd, gold] [sample_basket ''B'' [entry ''USD'' 60, entry ''GOLD'' 40]])
          ''B'' ''1000'' = Inr es
        \<and> length es = 2 \<and> map ea_amount es = [''600'', ''400''])
   \<and> (\<exists>es. expandBasket
          (registry_run [RegisterOp ''t0'' usd, RegisterOp ''t0'' gold,
             CreateBasketOp ''t1'' (sample_basket ''B'' [entry ''USD'' 60, entry ''GOLD'' 40])])
          ''B'' ''1000'' = Inr es
        \<and> length es = 2)"
proof -
  let ?b = "sample_basket ''B'' [entry ''USD'' 60, entry ''GOLD'' 40]"
  let ?r = "sample_registry [usd, gold] [?b]"
  let ?ops = "[RegisterOp ''t0'' usd, RegisterOp ''t0'' gold, CreateBasketOp ''t1'' ?b]"
  let ?fb = "?b\<lparr>b_createdAt := ''t1'', b_updatedAt := ''t1''\<rparr>"
  have h: "baskets ?r ''B'' = Some ?b"
    by (simp add: sample_registry_def sample_basket_def)
  have reg: "\<forall>ba \<in> set (b_assets ?b). assets ?r (ba_assetId ba) \<noteq> None"
    by (simp add: sample_registry_def sample_basket_def entry_def usd_def gold_def)
  have w: "map ba_weight (b_assets ?b) = [Fin 60, Fin 40]"
    by (simp add: sample_basket_def entry_def)
  have len: "length (b_assets ?b) = 2" "length (b_assets ?fb) = 2"
    by (simp_all add: sample_basket_def)
  from expandBasket_entries [OF h, of "''1000''"] reg w parseFloat_1000 len(1)
  have 1: "\<exists>es. expandBasket ?r ''B'' ''1000'' = Inr es
        \<and> length es = 2 \<and> map ea_amount es = [''600'', ''400'']"
    by auto
  have run: "baskets (registry_run ?ops) ''B'' = Some ?fb"
    using weights_60_40
    by (simp add: registry_run_def empty_registry_def registerAsset_def createBasket_def
        sample_basket_def usd_def gold_def entry_def Let_def)
  from expandBasket_entries [OF run, of "''1000''"] len(2)
  have 2: "\<exists>es. expandBasket (registry_run ?ops) ''B'' ''1000'' = Inr es \<and> length es = 2"
    by auto
  from h parseFloat_1000 1 2 show ?thesis by blast
qed

section \<open>The string of a safe integer\<close>

lemma bitlen_eq_54:
  assumes "2 ^ 53 < n" and "n < 2 ^ 54"
  shows "bitlen n = 54"
proof -
  have pos: "0 < n" using assms(1) by (simp add: order.strict_trans [of 0 "2 ^ 53" n])
  note b = bitlen_bounds [OF pos]
  have "54 \<le> bitlen n"
    using assms(1) by (simp add: bitlen_ge_iff_power)
  moreover have "\<not> 55 \<le> bitlen n"
    using assms(2) by (simp add: bitlen_ge_iff_power)
  ultimately show ?thesis by simp
qed

lemma round_double_even_int:
  assumes "0 < n" and "n < 2 ^ 54" and "even n"
  shows "round_double (of_int n) = Fin (of_int n)"
proof (cases "n \<le> 2 ^ 53")
  case True
  with assms(1) show ?thesis by (rule round_double_int_pos)
next
  case False
  then have big: "2 ^ 53 < n" by simp
  let ?e = "double_exponent (of_int n)"
  obtain h where h: "n = 2 * h" using assms(3) by (auto elim: evenE)
  have abs: "\<bar>of_int n :: rat\<bar> = of_int n" using assms(1) by simp
  have e: "?e = 1"
    using bitlen_eq_54 [OF big assms(2)]
    by (simp add: double_exponent_def floor_log2_of_int [OF assms(1)])
  have "(of_int n :: rat) / power_int 2 ?e = of_int n / 2"
    unfolding e by simp
  also have "\<dots> = of_int h" using h by simp
  finally have "round_half_even (of_int n / power_int 2 ?e) = h"
    by (simp only: round_half_even_of_int)
  then have "of_int (round_half_even (of_int n / power_int 2 ?e)) * power_int (2::rat) ?e
      = of_int h * 2"
    unfolding e by simp
  also have "\<dots> = of_int n" using h by simp
  finally have m: "of_int (round_half_even (of_int n / power_int 2 ?e)) * power_int (2::rat) ?e
      = of_int n" .
  have small: "\<not> power_int 2 1024 \<le> (of_int n :: rat)"
  proof -
    have "(of_int n :: rat) \<le> of_int (2 ^ 54)" using assms(2) by (simp only: of_int_le_iff)
    then show ?thesis by simp
  qed
  have ne: "(of_int n :: rat) \<noteq> 0" "(0::rat) < of_int n" using assms(1) by simp_all
  show ?thesis
    unfolding round_double_def make_double_def abs m
    using ne small by (simp only: if_False if_True)
qed

lemma round_double_even_nat:
  assumes "0 < n" and "n < 2 ^ 54" and "even n"
  shows "round_double (of_nat n) = Fin (of_nat n)"
proof -
  have "0 < int n" using assms(1) by simp
  moreover have "int n < 2 ^ 54"
    using assms(2) by (simp add: of_nat_less_iff [of n "2 ^ 54", symmetric] del: of_nat_less_iff)
  moreover have "even (int n)" using assms(3) by simp
  ultimately have "round_double (of_int (int n)) = Fin (of_int (int n))"
    by (rule round_double_even_int)
  then show ?thesis by simp
qed

lemma digit_chars_zeros:
  "digit_chars (k + z) (m * 10 ^ z) = digit_chars k m @ replicate z CHR ''0''"
proof (induction z)
  case 0
  show ?case by simp
next
  case (Suc z)
  have "digit_chars (k + Suc z) (m * 10 ^ Suc z)
      = digit_chars (k + z) (m * 10 ^ Suc z div 10) @ [''0123456789'' ! (m * 10 ^ Suc z mod 10)]"
    by simp
  also have "m * 10 ^ Suc z div 10 = m * 10 ^ z" by simp
  also have "m * 10 ^ Suc z mod 10 = 0" by simp
  finally show ?case
    using Suc by (simp add: replicate_append_same)
qed


lemma safe_integer_digits:
  assumes "0 < N" and "N \<le> 2 ^ 53"
  shows "1 \<le> floorlog 10 N" and "floorlog 10 N \<le> 16"
    and "N < 10 ^ floorlog 10 N"
proof -
  note b = floorlog_bounds [OF assms(1), of 10]
  show up: "N < 10 ^ floorlog 10 N" using b by simp
  show "1 \<le> floorlog 10 N"
  proof (rule ccontr)
    assume "\<not> 1 \<le> floorlog 10 N"
    then have "floorlog 10 N = 0" by simp
    with up assms(1) show False by simp
  qed
  show "floorlog 10 N \<le> 16"
  proof (rule ccontr)
    assume "\<not> floorlog 10 N \<le> 16"
    then have "16 \<le> floorlog 10 N - 1" by simp
    then have "(10::nat) ^ 16 \<le> 10 ^ (floorlog 10 N - 1)"
      by (intro power_increasing) simp_all
    also have "\<dots> \<le> N" using b by simp
    finally show False using assms(2) by simp
  qed
qed

lemma digits_candidate_nat:
  assumes "k \<le> n"
  shows "digits_candidate (of_nat N) (int n) k
     = choose_digits (of_nat N) (10 ^ (n - k)) (int (N div 10 ^ (n - k)))
         (round_double (of_nat (N div 10 ^ (n - k) * 10 ^ (n - k))) = Fin (of_nat N))
         (round_double (of_nat ((N div 10 ^ (n - k) + 1) * 10 ^ (n - k))) = Fin (of_nat N))"
proof -
  have e: "int n - int k = int (n - k)" using assms by simp
  have sc: "power_int (10::rat) (int n - int k) = of_nat (10 ^ (n - k))"
    unfolding e by (simp add: power_int_def)
  have fl: "\<lfloor>(of_nat N :: rat) / of_nat (10 ^ (n - k))\<rfloor> = int (N div 10 ^ (n - k))"
    by (rule floor_divide_of_nat_eq)
  have lo: "(of_int (int (N div 10 ^ (n - k))) :: rat) * of_nat (10 ^ (n - k))
      = of_nat (N div 10 ^ (n - k) * 10 ^ (n - k))"
    by simp
  have hi: "(of_int (int (N div 10 ^ (n - k)) + 1) :: rat) * of_nat (10 ^ (n - k))
      = of_nat ((N div 10 ^ (n - k) + 1) * 10 ^ (n - k))"
    by (simp only: of_nat_mult of_nat_add of_nat_1 of_int_add of_int_of_nat_eq of_int_1)
  have "digits_candidate (of_nat N) (int n) k
      = choose_digits (of_nat N) (of_nat (10 ^ (n - k))) (int (N div 10 ^ (n - k)))
         (round_double (of_nat (N div 10 ^ (n - k) * 10 ^ (n - k))) = Fin (of_nat N))
         (round_double (of_nat ((N div 10 ^ (n - k) + 1) * 10 ^ (n - k))) = Fin (of_nat N))"
    unfolding digits_candidate_def digits_at_scale_def sc fl lo hi ..
  then show ?thesis by simp
qed

lemma choose_digits_exact:
  assumes "ok_lo" and "x = of_int lo * sc" and "0 < sc"
  shows "choose_digits x sc lo ok_lo ok_hi = Some lo"
proof -
  have "of_int lo * sc < of_int (lo + 1) * sc"
    using assms(3) by (intro mult_strict_right_mono) simp_all
  then have "x - of_int lo * sc < of_int (lo + 1) * sc - x"
    unfolding assms(2) by simp
  then show ?thesis using assms(1) by (simp add: choose_digits_def)
qed

lemma candidate_hit:
  assumes "N \<le> 2 ^ 53" and "k \<le> n" and "10 ^ (n - k) dvd N"
  shows "digits_candidate (of_nat N) (int n) k = Some (int (N div 10 ^ (n - k)))"
proof -
  have whole: "N div 10 ^ (n - k) * 10 ^ (n - k) = N" using assms(3) by simp
  have ok: "round_double (of_nat (N div 10 ^ (n - k) * 10 ^ (n - k))) = Fin (of_nat N)"
    unfolding whole using assms(1) by (rule round_double_nat)
  have "(of_int (int (N div 10 ^ (n - k))) :: rat) * 10 ^ (n - k)
      = of_nat (N div 10 ^ (n - k) * 10 ^ (n - k))"
    by simp
  then have x: "(of_nat N :: rat) = of_int (int (N div 10 ^ (n - k))) * 10 ^ (n - k)"
    unfolding whole by simp
  show ?thesis
    unfolding digits_candidate_nat [OF assms(2)]
    by (rule choose_digits_exact [OF ok x]) simp
qed

lemma candidate_miss:
  assumes "0 < N" and "N \<le> 2 ^ 53" and "n = floorlog 10 N" and "k \<le> n"
    and "\<not> 10 ^ (n - k) dvd N"
  shows "digits_candidate (of_nat N) (int n) k = None"
proof -
  let ?sc = "(10::nat) ^ (n - k)"
  let ?L = "N div ?sc * ?sc"
  let ?H = "(N div ?sc + 1) * ?sc"
  note d = safe_integer_digits [OF assms(1,2)]
  have j: "n - k \<noteq> 0" using assms(5) by (cases "n - k") auto
  have md: "N mod ?sc \<noteq> 0" using assms(5) by (simp add: dvd_eq_mod_eq_0)
  have split: "N = ?L + N mod ?sc" using div_mult_mod_eq [of N ?sc] by simp
  have L: "?L < N" using md split by linarith
  have rest: "N mod ?sc < ?sc" by simp
  have Hd: "?H = ?L + ?sc" by (simp add: algebra_simps)
  have H: "N < ?H" unfolding Hd using split rest by linarith
  have "?L \<le> 2 ^ 53" using L assms(2) by linarith
  then have rL: "round_double (of_nat ?L) = Fin (of_nat ?L)"
    by (rule round_double_nat)
  have "?L \<noteq> N" using L by (rule less_imp_neq)
  then have "(of_nat ?L :: rat) \<noteq> of_nat N" by (simp only: of_nat_eq_iff not_False_eq_True)
  then have lo: "round_double (of_nat ?L) \<noteq> Fin (of_nat N)"
    unfolding rL by (simp only: number.inject not_False_eq_True)
  have n: "n = k + (n - k)" using assms(4) by simp
  have "N < 10 ^ k * ?sc"
    using d(3) assms(3) n by (metis power_add)
  then have "N div ?sc < 10 ^ k"
    by (simp add: less_mult_imp_div_less)
  then have "N div ?sc + 1 \<le> 10 ^ k" by simp
  then have "?H \<le> 10 ^ k * ?sc" by (rule mult_le_mono1)
  also have "\<dots> = 10 ^ n" using n by (metis power_add)
  also have "\<dots> \<le> 10 ^ 16"
    using d(2) assms(3) by (intro power_increasing) simp_all
  finally have Hs: "?H < 2 ^ 54" by simp
  obtain i where "n - k = Suc i" using j by (cases "n - k") auto
  then have "even ?sc" by simp
  then have ev: "even ?H" by simp
  have "0 < ?H" using H by linarith
  then have rH: "round_double (of_nat ?H) = Fin (of_nat ?H)"
    using Hs ev by (rule round_double_even_nat)
  have "?H \<noteq> N" using H by (simp only: neq_iff simp_thms)
  then have "(of_nat ?H :: rat) \<noteq> of_nat N" by (simp only: of_nat_eq_iff not_False_eq_True)
  then have hi: "round_double (of_nat ?H) \<noteq> Fin (of_nat N)"
    unfolding rH by (simp only: number.inject not_False_eq_True)
  show ?thesis
    unfolding digits_candidate_nat [OF assms(4)] choose_digits_def
    using lo hi by (simp only: if_False simp_thms)
qed

lemma find_digits_nat:
  assumes "0 < N" and "N \<le> 2 ^ 53" and "n = floorlog 10 N"
    and "k \<le> n" and "n - k < fuel"
  shows "\<exists>k'. k' \<le> n \<and> 10 ^ (n - k') dvd N
           \<and> find_digits (of_nat N) (int n) k fuel = (k', int (N div 10 ^ (n - k')))"
  using assms(4,5)
proof (induction fuel arbitrary: k)
  case 0
  then show ?case by simp
next
  case (Suc fuel)
  show ?case
  proof (cases "10 ^ (n - k) dvd N")
    case True
    have "find_digits (of_nat N) (int n) k (Suc fuel) = (k, int (N div 10 ^ (n - k)))"
      using candidate_hit [OF assms(2) Suc.prems(1) True] by simp
    with True Suc.prems(1) show ?thesis by blast
  next
    case False
    have "n - k \<noteq> 0" using False by (cases "n - k") auto
    then have k: "Suc k \<le> n" "n - Suc k < fuel" using Suc.prems by simp_all
    have "find_digits (of_nat N) (int n) k (Suc fuel) = find_digits (of_nat N) (int n) (Suc k) fuel"
      using candidate_miss [OF assms(1,2,3) Suc.prems(1) False] by simp
    with Suc.IH [OF k] show ?thesis by simp
  qed
qed

lemma format_found_nat:
  assumes "N < 10 ^ n" and "n \<le> 16" and "k \<le> n" and "10 ^ (n - k) dvd N"
  shows "format_found (k, int (N div 10 ^ (n - k))) (int n) = digit_chars n N"
proof -
  let ?s = "N div 10 ^ (n - k)"
  have n: "n = k + (n - k)" using assms(3) by simp
  have "N < 10 ^ k * 10 ^ (n - k)" using assms(1) n by (metis power_add)
  then have "?s < 10 ^ k" by (simp add: less_mult_imp_div_less)
  then have ne: "int ?s \<noteq> 10 ^ k"
    by (metis less_irrefl of_nat_eq_iff of_nat_numeral of_nat_power)
  have whole: "?s * 10 ^ (n - k) = N" using assms(4) by simp
  have "format_found (k, int ?s) (int n)
      = digit_chars k ?s @ replicate (n - k) CHR ''0''"
    using ne assms(2,3) by (simp add: format_found_def format_digits_def)
  also have "\<dots> = digit_chars (k + (n - k)) (?s * 10 ^ (n - k))"
    by (rule digit_chars_zeros [symmetric])
  also have "\<dots> = digit_chars n N" unfolding whole using n by simp
  finally show ?thesis .
qed

lemma number_toString_nat:
  assumes "N \<le> 2 ^ 53"
  shows "number_toString (Fin (of_nat N)) = nat_toString N"
proof (cases "N = 0")
  case True
  then show ?thesis by (simp add: number_toString_def nat_toString_def)
next
  case False
  then have pos: "0 < N" by simp
  let ?n = "floorlog 10 N"
  note d = safe_integer_digits [OF pos assms]
  have de: "decimal_exponent (of_nat N) = int ?n"
    using pos by (simp add: decimal_exponent_def)
  have "?n - 1 < 17" using d(2) by simp
  from find_digits_nat [OF pos assms refl d(1) this]
  obtain k where k: "k \<le> ?n" "10 ^ (?n - k) dvd N"
    "find_digits (of_nat N) (int ?n) 1 17 = (k, int (N div 10 ^ (?n - k)))"
    by blast
  have "positive_toString (of_nat N) = digit_chars ?n N"
    unfolding positive_toString_def de k(3)
    by (rule format_found_nat [OF d(3) d(2) k(1,2)])
  then show ?thesis using pos by (simp add: number_toString_def nat_toString_def)
qed

section \<open>The amounts of an expanded basket\<close>

lemma dropWhile_all: "list_all P s \<Longrightarrow> dropWhile P s = []"
  by (induction s) simp_all

lemma takeWhile_all: "list_all P s \<Longrightarrow> takeWhile P s = s"
  by (induction s) simp_all

lemma digit_not_special:
  assumes "is_digit c"
  shows "\<not> is_ws c" "c \<noteq> CHR ''-''" "c \<noteq> CHR ''+''" "c \<noteq> CHR ''I''"
  using assms by (auto simp: is_digit_def is_ws_def)

lemma parseFloat_digits:
  assumes "s \<noteq> []" and "list_all is_digit s"
  shows "parseFloat s = round_double (of_nat (digits_val s))"
proof -
  obtain c u where s: "s = c # u" using assms(1) by (cases s) auto
  then have c: "is_digit c" and u: "list_all is_digit u" using assms(2) by simp_all
  note n = digit_not_special [OF c]
  have "unsigned_literal False (c # u) = round_double (of_nat (digits_val (c # u)))"
    using n(4) c u
    by (simp add: unsigned_literal_def after_integer_def literal_value_def exponent_part_def
        takeWhile_all dropWhile_all)
  then show ?thesis using n(1,2,3) by (simp add: parseFloat_def s)
qed

lemma parseFloat_safe_integer:
  assumes "s \<noteq> []" and "list_all is_digit s" and "digits_val s \<le> 2 ^ 53"
  shows "parseFloat s = Fin (of_nat (digits_val s))"
  using parseFloat_digits [OF assms(1,2)] round_double_nat [OF assms(3)] by simp

lemma proportionalAmount_exact:
  assumes "T * w \<le> 2 ^ 53" and "100 dvd T * w"
  shows "proportionalAmount (Fin (of_nat T)) (Fin (of_nat w)) = Fin (of_nat (T * w div 100))"
proof -
  have m: "number_mul (Fin (of_nat T)) (Fin (of_nat w)) = Fin (of_nat (T * w))"
    using round_double_nat [OF assms(1)] by simp
  obtain q where q: "T * w = 100 * q" using assms(2) by (auto simp: dvd_def)
  then have le: "q \<le> 2 ^ 53" using assms(1) by simp
  have "(of_nat (T * w) :: rat) / 100 = of_nat q" using q by simp
  then have "number_div (Fin (of_nat (T * w))) (Fin 100) = Fin (of_nat q)"
    using round_double_nat [OF le] by simp
  then show ?thesis using m q by (simp add: proportionalAmount_def)
qed

lemma expand_loop_amounts:
  "map ea_amount (expand_loop as t bas)
     = map (\<lambda>ba. number_toString (number_div (number_mul t (ba_weight ba)) (Fin 100)))
         (filter (\<lambda>ba. as (ba_assetId ba) \<noteq> None) bas)"
  by (induction bas) (auto simp: proportionalAmount_def split: option.splits)

lemma proportionalAmount_string:
  assumes "T * w \<le> 2 ^ 53" and "100 dvd T * w"
  shows "number_toString (proportionalAmount (Fin (of_nat T)) (Fin (of_nat w)))
     = nat_toString (T * w div 100)"
proof -
  have "T * w div 100 \<le> T * w" by simp
  then have "T * w div 100 \<le> 2 ^ 53" using assms(1) by linarith
  then show ?thesis
    unfolding proportionalAmount_exact [OF assms] by (rule number_toString_nat)
qed

text \<open>
  C2, as the code has it. The amount of an entry is the string of the binary64 number
  \<open>(parseFloat(totalAmount) * weight) / 100\<close>: the total is rounded when it is read, the
  product is rounded, and the quotient is rounded. It is computed from the total and the
  weight of that entry alone, so no error passes from one entry to the next. The number
  is the exact \<open>totalAmount * weight / 100\<close> when the total is a string of digits that
  reads as at most \<open>2^53\<close>, the weight is a natural number, and the product is at most
  \<open>2^53\<close> and a multiple of 100; the amount is then the decimal numeral of that integer.
\<close>

theorem expandBasket_amounts:
  assumes "baskets r basketId = Some b"
  shows "\<exists>es. expandBasket r basketId totalAmount = Inr es
     \<and> map ea_amount es
         = map (\<lambda>ba. number_toString
                  (number_div (number_mul (parseFloat totalAmount) (ba_weight ba)) (Fin 100)))
             (filter (\<lambda>ba. assets r (ba_assetId ba) \<noteq> None) (b_assets b))
     \<and> (totalAmount \<noteq> [] \<and> list_all is_digit totalAmount \<and> digits_val totalAmount \<le> 2 ^ 53
          \<longrightarrow> parseFloat totalAmount = Fin (of_nat (digits_val totalAmount)))
     \<and> (parseFloat totalAmount = Fin (of_nat T) \<and> T * w \<le> 2 ^ 53 \<and> 100 dvd T * w
          \<longrightarrow> number_div (number_mul (parseFloat totalAmount) (Fin (of_nat w))) (Fin 100)
               = Fin (of_nat (T * w div 100))
            \<and> number_toString
                 (number_div (number_mul (parseFloat totalAmount) (Fin (of_nat w))) (Fin 100))
               = nat_toString (T * w div 100))"
proof -
  let ?es = "expand_loop (assets r) (parseFloat totalAmount) (b_assets b)"
  have eq: "expandBasket r basketId totalAmount = Inr ?es"
    using assms by (simp add: expandBasket_def)
  note am = expand_loop_amounts [of "assets r" "parseFloat totalAmount" "b_assets b"]
  have p: "totalAmount \<noteq> [] \<and> list_all is_digit totalAmount \<and> digits_val totalAmount \<le> 2 ^ 53
          \<longrightarrow> parseFloat totalAmount = Fin (of_nat (digits_val totalAmount))"
    using parseFloat_safe_integer by blast
  have x: "parseFloat totalAmount = Fin (of_nat T) \<and> T * w \<le> 2 ^ 53 \<and> 100 dvd T * w
          \<longrightarrow> number_div (number_mul (parseFloat totalAmount) (Fin (of_nat w))) (Fin 100)
               = Fin (of_nat (T * w div 100))
            \<and> number_toString
                 (number_div (number_mul (parseFloat totalAmount) (Fin (of_nat w))) (Fin 100))
               = nat_toString (T * w div 100)"
    using proportionalAmount_exact [of T w] proportionalAmount_string [of T w]
    by (auto simp: proportionalAmount_def)
  show ?thesis
    by (intro exI [of _ ?es] conjI) (fact eq, fact am, fact p, fact x)
qed

lemma parseFloat_33_33: "parseFloat ''33.33'' = Fin (2345390243441541 / 70368744177664)"
  by (simp add: parse_eval num_eval)

lemma amount_33_of_33_33:
  "number_toString (proportionalAmount (Fin (2345390243441541 / 70368744177664)) (Fin 33))
     = ''10.998899999999999''"
  by (simp add: proportionalAmount_def num_eval str_eval)

lemma amount_67_of_33_33:
  "number_toString (proportionalAmount (Fin (2345390243441541 / 70368744177664)) (Fin 67))
     = ''22.331099999999996''"
  by (simp add: proportionalAmount_def num_eval str_eval)

text \<open>
  C2 as stated fails: of the total \<open>33.33\<close>, the entries of weight 33 and 67 get the
  amounts \<open>10.998899999999999\<close> and \<open>22.331099999999996\<close>, where the exact values are
  \<open>10.9989\<close> and \<open>22.3311\<close>.
\<close>

theorem expandBasket_binary_amounts:
  "expandBasket (sample_registry [usd, gold] [sample_basket ''B'' [entry ''USD'' 33, entry ''GOLD'' 67]])
      ''B'' ''33.33''
     = Inr [\<lparr>ea_asset = usd, ea_amount = ''10.998899999999999''\<rparr>,
            \<lparr>ea_asset = gold, ea_amount = ''22.331099999999996''\<rparr>]"
  by (simp add: expandBasket_def sample_registry_def sample_basket_def entry_def usd_def gold_def
      parseFloat_33_33 amount_33_of_33_33 amount_67_of_33_33)

theorem expandBasket_amounts_witness:
  "baskets (sample_registry [usd, gold] [sample_basket ''B'' [entry ''USD'' 60, entry ''GOLD'' 40]]) ''B''
     = Some (sample_basket ''B'' [entry ''USD'' 60, entry ''GOLD'' 40])
   \<and> ''1000'' \<noteq> [] \<and> list_all is_digit ''1000'' \<and> digits_val ''1000'' = 1000
   \<and> parseFloat ''1000'' = Fin (of_nat 1000)
   \<and> (1000::nat) * 60 \<le> 2 ^ 53 \<and> (100::nat) dvd 1000 * 60
   \<and> number_div (number_mul (parseFloat ''1000'') (Fin (of_nat 60))) (Fin 100) = Fin (of_nat 600)
   \<and> number_toString (number_div (number_mul (parseFloat ''1000'') (Fin (of_nat 60))) (Fin 100))
       = ''600''
   \<and> (\<exists>es. expandBasket
          (sample_registry [usd, gold] [sample_basket ''B'' [entry ''USD'' 60, entry ''GOLD'' 40]])
          ''B'' ''1000'' = Inr es
        \<and> map ea_amount es
            = [number_toString (number_div (number_mul (parseFloat ''1000'') (Fin 60)) (Fin 100)),
               number_toString (number_div (number_mul (parseFloat ''1000'') (Fin 40)) (Fin 100))])"
proof -
  let ?b = "sample_basket ''B'' [entry ''USD'' 60, entry ''GOLD'' 40]"
  let ?r = "sample_registry [usd, gold] [?b]"
  have h: "baskets ?r ''B'' = Some ?b"
    by (simp add: sample_registry_def sample_basket_def)
  have d: "''1000'' \<noteq> []" "list_all is_digit ''1000''" "digits_val ''1000'' = 1000"
    by (simp_all add: is_digit_def digits_val_def digit_val_def)
  have a: "(1000::nat) * 60 \<le> 2 ^ 53" "(100::nat) dvd 1000 * 60" "(1000::nat) * 60 div 100 = 600"
    by simp_all
  have f: "filter (\<lambda>ba. assets ?r (ba_assetId ba) \<noteq> None) (b_assets ?b)
      = [entry ''USD'' 60, entry ''GOLD'' 40]"
    by (simp add: sample_registry_def sample_basket_def entry_def usd_def gold_def)
  have w: "ba_weight (entry ''USD'' 60) = Fin 60" "ba_weight (entry ''GOLD'' 40) = Fin 40"
    by (simp_all add: entry_def)
  from expandBasket_amounts [OF h, of "''1000''" 1000 60]
  obtain es where es: "expandBasket ?r ''B'' ''1000'' = Inr es"
    "map ea_amount es
       = map (\<lambda>ba. number_toString
                (number_div (number_mul (parseFloat ''1000'') (ba_weight ba)) (Fin 100)))
           (filter (\<lambda>ba. assets ?r (ba_assetId ba) \<noteq> None) (b_assets ?b))"
    and p: "''1000'' \<noteq> [] \<and> list_all is_digit ''1000'' \<and> digits_val ''1000'' \<le> 2 ^ 53
          \<longrightarrow> parseFloat ''1000'' = Fin (of_nat (digits_val ''1000''))"
    and x: "parseFloat ''1000'' = Fin (of_nat 1000) \<and> (1000::nat) * 60 \<le> 2 ^ 53 \<and> (100::nat) dvd 1000 * 60
          \<longrightarrow> number_div (number_mul (parseFloat ''1000'') (Fin (of_nat 60))) (Fin 100)
               = Fin (of_nat (1000 * 60 div 100))
            \<and> number_toString
                 (number_div (number_mul (parseFloat ''1000'') (Fin (of_nat 60))) (Fin 100))
               = nat_toString (1000 * 60 div 100)"
    by blast
  have pf: "parseFloat ''1000'' = Fin (of_nat 1000)"
    using p d by simp
  from x pf a(1,2)
  have q0: "number_div (number_mul (parseFloat ''1000'') (Fin (of_nat 60))) (Fin 100)
      = Fin (of_nat (1000 * 60 div 100))"
    and qs0: "number_toString
        (number_div (number_mul (parseFloat ''1000'') (Fin (of_nat 60))) (Fin 100))
      = nat_toString (1000 * 60 div 100)"
    by blast+
  have q: "number_div (number_mul (parseFloat ''1000'') (Fin (of_nat 60))) (Fin 100) = Fin (of_nat 600)"
    using q0 by (simp only: a(3))
  have n600: "nat_toString 600 = ''600''"
    by (simp add: nat_toString_def)
  have qs: "number_toString (number_div (number_mul (parseFloat ''1000'') (Fin (of_nat 60))) (Fin 100))
      = ''600''"
    using qs0 by (simp only: a(3) n600)
  have m: "map ea_amount es
      = [number_toString (number_div (number_mul (parseFloat ''1000'') (Fin 60)) (Fin 100)),
         number_toString (number_div (number_mul (parseFloat ''1000'') (Fin 40)) (Fin 100))]"
    unfolding es(2) f by (simp add: w)
  from h d pf a(1,2) q qs es(1) m show ?thesis by auto
qed

end
